theory Spec2Isabelle
  imports Complex_Main "HOL-Library.Multiset"
begin

chapter \<open>The model\<close>

section \<open>Prettify stage: counting lines (prettify/binary.go, countLines)\<close>

text \<open>
  A file is read through \<open>file.Read(buf)\<close> with a 32 KB buffer. Every call returns the
  bytes it read together with an error value that is \<open>nil\<close>, \<open>io.EOF\<close> or another
  error. A file is modelled by the sequence of those results; when the sequence is used
  up the next call returns \<open>(0, io.EOF)\<close>. \<open>os.Open\<close> failing is the value \<open>None\<close>.
\<close>

datatype read_err = NoErr | EOF | IOErr

datatype go_error = OpenFailed | ReadFailed

type_synonym byte_seq = "char list"

type_synonym reader = "(byte_seq \<times> read_err) list"

definition newline :: char where
  "newline = CHR 0x0A"

text \<open>\<open>bytes.Count(buf[:c], []byte{'\n'})\<close>\<close>

definition bytes_Count :: "byte_seq \<Rightarrow> int" where
  "bytes_Count bs = int (length (filter (\<lambda>c. c = newline) bs))"

text \<open>The statement after the loop: one more line when the last byte read is not a newline.\<close>

definition countLines_finish :: "int \<Rightarrow> bool \<Rightarrow> go_error + int" where
  "countLines_finish lineCount lastCharIsNewline =
     Inr (if \<not> lastCharIsNewline then lineCount + 1 else lineCount)"

text \<open>The body of the \<open>for\<close> loop on one result of \<open>Read\<close>, for the part guarded by \<open>c > 0\<close>.\<close>

definition countLines_chunk :: "byte_seq \<Rightarrow> int \<times> bool \<Rightarrow> int \<times> bool" where
  "countLines_chunk bs st =
     (if length bs > 0 then (fst st + bytes_Count bs, last bs = newline) else st)"

fun countLines_loop :: "reader \<Rightarrow> int \<times> bool \<Rightarrow> go_error + int" where
  "countLines_loop [] st = countLines_finish (fst st) (snd st)"
| "countLines_loop ((bs, e) # rest) st =
     (if e = IOErr then Inl ReadFailed
      else (let st' = countLines_chunk bs st
            in if e = EOF then countLines_finish (fst st') (snd st')
               else countLines_loop rest st'))"

definition countLines :: "reader option \<Rightarrow> go_error + int" where
  "countLines f =
     (case f of
        None \<Rightarrow> Inl OpenFailed
      | Some reads \<Rightarrow> countLines_loop reads (0, True))"

text \<open>The bytes of the file: what the successive reads return, put together.\<close>

definition file_bytes :: "reader \<Rightarrow> byte_seq" where
  "file_bytes reads = concat (map fst reads)"

definition plain_reads :: "reader \<Rightarrow> bool" where
  "plain_reads reads = list_all (\<lambda>r. snd r = NoErr) reads"

text \<open>What the specification asks of the line count of a byte sequence.\<close>

definition spec_line_count :: "byte_seq \<Rightarrow> int" where
  "spec_line_count bs =
     bytes_Count bs + (if bs \<noteq> [] \<and> last bs \<noteq> newline then 1 else 0)"

section \<open>Values shared by the stages\<close>

text \<open>
  A JSON document as \<open>encoding/json\<close> reads it. A number keeps the one distinction the
  decoder makes: a literal in integer syntax can be stored in a Go \<open>int\<close>, a literal with a
  fraction or an exponent cannot. An object keeps its members in order (a later duplicate
  key overrides an earlier one).
\<close>

datatype jnumber = IntLit int | FracLit rat

datatype json =
    JNull
  | JBool bool
  | JNum jnumber
  | JStr string
  | JArr "json list"
  | JObj "(string \<times> json) list"

text \<open>The value of a field of a record of the store, or of an entry of a Go \<open>map[string]interface{}\<close>.\<close>

datatype fval =
    FStr string
  | FInt int
  | FBool bool
  | FTime nat
  | FIds "string list"
  | FJson "json option"

type_synonym fields = "string \<Rightarrow> fval option"

section \<open>Analysis stage: findings (analysis/analyzer.go, analysis/job.go)\<close>

record URLFinding =
  url_Value :: string
  url_Line :: int
  url_Column :: int
  url_Type :: string
  url_Metadata :: "json option"

record GQLFinding =
  gql_Value :: string
  gql_Line :: int
  gql_Column :: int
  gql_Type :: string

record DomXSSFinding =
  dx_Value :: string
  dx_Line :: int
  dx_Column :: int
  dx_Type :: string

record EventFinding =
  ev_Value :: string
  ev_Line :: int
  ev_Column :: int
  ev_Type :: string

record HttpFinding =
  http_Value :: string
  http_Line :: int
  http_Column :: int
  http_Type :: string
  http_URL :: string
  http_Method :: string
  http_Options :: "json option"

record NodeJSAnalyzerResult =
  URLs :: "URLFinding list"
  GQL :: "GQLFinding list"
  DomXSS :: "DomXSSFinding list"
  Events :: "EventFinding list"
  HttpAPI :: "HttpFinding list"

record Finding =
  Type :: string
  Line :: int
  Column :: int
  Value :: string
  Data :: fields

text \<open>\<open>line := f.Line; if line <= 0 { line = 1 }\<close>, the same in each of the five loops.\<close>

definition clampLine :: "int \<Rightarrow> int" where
  "clampLine line = (if line \<le> 0 then 1 else line)"

definition convertURL :: "URLFinding \<Rightarrow> Finding" where
  "convertURL f =
     \<lparr>Type = url_Type f, Line = clampLine (url_Line f), Column = url_Column f,
      Value = url_Value f,
      Data = [''finding_category'' \<mapsto> FStr ''url'',
              ''metadata'' \<mapsto> FJson (url_Metadata f),
              ''original_line'' \<mapsto> FInt (url_Line f)]\<rparr>"

definition convertGQL :: "GQLFinding \<Rightarrow> Finding" where
  "convertGQL f =
     \<lparr>Type = gql_Type f, Line = clampLine (gql_Line f), Column = gql_Column f,
      Value = gql_Value f,
      Data = [''finding_category'' \<mapsto> FStr ''graphql'',
              ''original_line'' \<mapsto> FInt (gql_Line f)]\<rparr>"

definition convertDomXSS :: "DomXSSFinding \<Rightarrow> Finding" where
  "convertDomXSS f =
     \<lparr>Type = dx_Type f, Line = clampLine (dx_Line f), Column = dx_Column f,
      Value = dx_Value f,
      Data = [''finding_category'' \<mapsto> FStr ''domxss'',
              ''security_risk'' \<mapsto> FStr ''high'',
              ''original_line'' \<mapsto> FInt (dx_Line f)]\<rparr>"

definition convertEvent :: "EventFinding \<Rightarrow> Finding" where
  "convertEvent f =
     \<lparr>Type = ev_Type f, Line = clampLine (ev_Line f), Column = ev_Column f,
      Value = ev_Value f,
      Data = [''finding_category'' \<mapsto> FStr ''event'',
              ''original_line'' \<mapsto> FInt (ev_Line f)]\<rparr>"

definition httpData :: "HttpFinding \<Rightarrow> fields" where
  "httpData f =
     (let data0 = [''finding_category'' \<mapsto> FStr ''httpapi'',
                   ''original_line'' \<mapsto> FInt (http_Line f)];
          data1 = (if http_URL f \<noteq> [] then data0(''url'' \<mapsto> FStr (http_URL f)) else data0);
          data2 = (if http_Method f \<noteq> [] then data1(''method'' \<mapsto> FStr (http_Method f))
                   else data1)
      in (if http_Options f \<noteq> None then data2(''options'' \<mapsto> FJson (http_Options f))
          else data2))"

definition convertHttp :: "HttpFinding \<Rightarrow> Finding" where
  "convertHttp f =
     \<lparr>Type = http_Type f, Line = clampLine (http_Line f), Column = http_Column f,
      Value = http_Value f, Data = httpData f\<rparr>"

text \<open>The five loops append to one slice, in this order.\<close>

definition convertToFindings :: "NodeJSAnalyzerResult \<Rightarrow> Finding list" where
  "convertToFindings result =
     map convertURL (URLs result) @ map convertGQL (GQL result) @
     map convertDomXSS (DomXSS result) @ map convertEvent (Events result) @
     map convertHttp (HttpAPI result)"

text \<open>The lines the analyzer reported, element by element, in the order of the conversion.\<close>

definition raw_lines :: "NodeJSAnalyzerResult \<Rightarrow> int list" where
  "raw_lines result =
     map url_Line (URLs result) @ map gql_Line (GQL result) @
     map dx_Line (DomXSS result) @ map ev_Line (Events result) @
     map http_Line (HttpAPI result)"

text \<open>
  A row of the \<open>findings\<close> collection as \<open>saveFindings\<close> fills it. \<open>app.Save\<close> may refuse a
  row (the loop logs and goes on); which rows it accepts is the parameter \<open>save_ok\<close>.
  \<open>coll_ok\<close> tells whether the collection was found.
\<close>

record finding_row =
  row_type :: string
  row_line :: int
  row_column :: int
  row_value :: string
  row_js_file :: string
  row_metadata :: fields
  row_created_at :: nat

datatype save_error = CollectionNotFound

definition newFindingRow :: "string \<Rightarrow> nat \<Rightarrow> Finding \<Rightarrow> finding_row" where
  "newFindingRow jsFileID now finding =
     \<lparr>row_type = Type finding, row_line = Line finding, row_column = Column finding,
      row_value = Value finding, row_js_file = jsFileID, row_metadata = Data finding,
      row_created_at = now\<rparr>"

text \<open>The result is the saved count (or the error), with the rows that reached the store.\<close>

definition saveFindings ::
  "bool \<Rightarrow> (finding_row \<Rightarrow> bool) \<Rightarrow> string \<Rightarrow> nat \<Rightarrow> Finding list \<Rightarrow>
   (save_error + nat) \<times> finding_row list" where
  "saveFindings coll_ok save_ok jsFileID now findings =
     (if length findings = 0 then (Inr 0, [])
      else if \<not> coll_ok then (Inl CollectionNotFound, [])
      else (let saved = filter save_ok (map (newFindingRow jsFileID now) findings)
            in (Inr (length saved), saved)))"

section \<open>Records of the store and panics\<close>

text \<open>
  A \<open>*core.Record\<close>: its id and its field values. A nil pointer is \<open>None\<close> of
  \<open>core_record option\<close>. \<open>Get\<close> and \<open>GetString\<close> read a field; \<open>Set\<close> writes one.
\<close>

record core_record =
  rid :: string
  vals :: fields

definition GetString :: "core_record \<Rightarrow> string \<Rightarrow> string" where
  "GetString r key = (case vals r key of Some (FStr s) \<Rightarrow> s | _ \<Rightarrow> [])"

definition Set :: "core_record \<Rightarrow> string \<Rightarrow> fval \<Rightarrow> core_record" where
  "Set r key v = r\<lparr>vals := (vals r)(key \<mapsto> v)\<rparr>"

text \<open>A Go function either returns or panics (nothing in the workers recovers a panic).\<close>

datatype panic = NilPointerDereference | SendOnClosedChannel

datatype 'a outcome = Returned 'a | Panicked panic

section \<open>Prettify stage: one job (prettify/binary.go, processJob)\<close>

record PrettifyJob =
  Record :: "core_record option"
  FilePath :: string
  job_Type :: string

text \<open>
  What the job meets outside itself: whether \<open>prettifyFile(path, type)\<close> succeeds, what
  \<open>countLines(path)\<close> returns, and the clock.
\<close>

record prettify_env =
  prettifyFile_ok :: "string \<Rightarrow> string \<Rightarrow> bool"
  countLines_of :: "string \<Rightarrow> go_error + int"
  time_Now :: nat

text \<open>
  \<open>if job.Record != nil && job.Record.Id != "" { job.Record.Set("prettify_status",
  "failed"); job.App.Save(job.Record) }\<close>: the records handed to \<open>App.Save\<close>.
\<close>

definition mark_prettify_failed :: "PrettifyJob \<Rightarrow> core_record list" where
  "mark_prettify_failed job =
     (case Record job of
        None \<Rightarrow> []
      | Some r \<Rightarrow> (if rid r \<noteq> [] then [Set r ''prettify_status'' (FStr ''failed'')] else []))"

text \<open>
  The result of \<open>processJob\<close> is the list of records it handed to \<open>App.Save\<close>, or a panic.
  On the failure of \<open>prettifyFile\<close> the arguments of \<open>logger.Error\<close> are evaluated first,
  among them \<open>job.Record.Get("url")\<close>, which reads through the pointer.
\<close>

definition prettify_processJob :: "prettify_env \<Rightarrow> PrettifyJob \<Rightarrow> core_record list outcome" where
  "prettify_processJob env job =
     (let fullPath = FilePath job
      in if fullPath = [] then Returned (mark_prettify_failed job)
         else if \<not> prettifyFile_ok env fullPath (job_Type job) then
           (case Record job of
              None \<Rightarrow> Panicked NilPointerDereference
            | Some r \<Rightarrow> Returned (mark_prettify_failed job))
         else
           (case Record job of
              None \<Rightarrow> Returned []
            | Some r \<Rightarrow>
                (if rid r \<noteq> [] then
                   (let lines = (case countLines_of env fullPath of Inl e \<Rightarrow> 0 | Inr n \<Rightarrow> n);
                        r1 = Set r ''line_count'' (FInt lines);
                        r2 = Set r1 ''prettify_status'' (FStr ''processed'');
                        r3 = Set r2 ''last_modified'' (FTime (time_Now env))
                    in Returned [r3])
                 else Returned [])))"

section \<open>Worker pools (the five pool files)\<close>

text \<open>
  The five pools have the same fields. \<open>jobQueue\<close> is the content of the buffered channel,
  \<open>capacity\<close> its buffer size, \<open>closed\<close> tells whether \<open>close(p.jobQueue)\<close> has run and
  \<open>ctxDone\<close> whether \<open>p.cancel()\<close> has. The buffer sizes of the program are the positive
  constants of the configuration, so a send that does not block is a send into a buffer
  with room.
\<close>

record 'job pool =
  workers :: nat
  jobQueue :: "'job list"
  capacity :: nat
  closed :: bool
  ctxDone :: bool
  isRunning :: bool

datatype submit_error = NotInitialized | NotRunning | ShuttingDown | QueueFull
  | SubmitFailed submit_error

definition NewWorkerPool :: "nat \<Rightarrow> nat \<Rightarrow> 'job pool" where
  "NewWorkerPool maxWorkers queueSize =
     \<lparr>workers = maxWorkers, jobQueue = [], capacity = queueSize, closed = False,
      ctxDone = False, isRunning = False\<rparr>"

datatype start_error = AlreadyRunning

definition Start :: "'job pool \<Rightarrow> start_error + 'job pool" where
  "Start p = (if isRunning p then Inl AlreadyRunning else Inr (p\<lparr>isRunning := True\<rparr>))"

text \<open>
  \<open>Stop\<close> holds the write lock from the cancellation to \<open>isRunning = false\<close>, so no
  submission sees a state in between. Jobs still buffered when the workers leave stay in
  the closed channel.
\<close>

definition Stop :: "'job pool \<Rightarrow> 'job pool" where
  "Stop p = (if \<not> isRunning p then p
             else p\<lparr>ctxDone := True, closed := True, isRunning := False\<rparr>)"

text \<open>
  The send case of a \<open>select\<close>: it can proceed when the buffer has room, and also when the
  channel is closed, where proceeding is the panic of a send on a closed channel.
\<close>

definition send_ready :: "'job pool \<Rightarrow> bool" where
  "send_ready p = (closed p \<or> length (jobQueue p) < capacity p)"

definition do_send :: "'job pool \<Rightarrow> 'job \<Rightarrow> (submit_error option \<times> 'job pool) outcome" where
  "do_send p job =
     (if closed p then Panicked SendOnClosedChannel
      else Returned (None, p\<lparr>jobQueue := jobQueue p @ [job]\<rparr>))"

text \<open>
  \<open>SubmitJob\<close> of the Prettify, Analysis and Dechunker pools. When both the send and
  \<open>ctx.Done()\<close> can proceed, \<open>select\<close> picks one of them; \<open>pick_send\<close> is that pick.
\<close>

definition SubmitJob ::
  "bool \<Rightarrow> 'job pool \<Rightarrow> 'job \<Rightarrow> (submit_error option \<times> 'job pool) outcome" where
  "SubmitJob pick_send p job =
     (if \<not> isRunning p then Returned (Some NotRunning, p)
      else if send_ready p \<and> (\<not> ctxDone p \<or> pick_send) then do_send p job
      else if ctxDone p then Returned (Some ShuttingDown, p)
      else Returned (Some QueueFull, p))"

text \<open>
  \<open>AddPrettifyJob\<close>, \<open>AddAnalysisJob\<close> and \<open>AddDechunkerJob\<close>: the global pool may be nil;
  they test \<open>IsRunning\<close> and go through \<open>SubmitJob\<close>, wrapping its error.
\<close>

definition AddJob_checked ::
  "bool \<Rightarrow> 'job pool option \<Rightarrow> 'job \<Rightarrow> (submit_error option \<times> 'job pool option) outcome" where
  "AddJob_checked pick_send global job =
     (case global of
        None \<Rightarrow> Returned (Some NotInitialized, None)
      | Some p \<Rightarrow>
          (if \<not> isRunning p then Returned (Some NotRunning, Some p)
           else (case SubmitJob pick_send p job of
                   Panicked c \<Rightarrow> Panicked c
                 | Returned (None, p') \<Rightarrow> Returned (None, Some p')
                 | Returned (Some e, p') \<Rightarrow> Returned (Some (SubmitFailed e), Some p'))))"

text \<open>
  \<open>AddSourcemapJob\<close> and \<open>AddExtractionJob\<close>, the only single-job submissions of their
  pools: a nil test, then \<open>select { case pool.jobQueue <- job: ...; default: ... }\<close>.
\<close>

definition AddJob_unchecked ::
  "'job pool option \<Rightarrow> 'job \<Rightarrow> (submit_error option \<times> 'job pool option) outcome" where
  "AddJob_unchecked global job =
     (case global of
        None \<Rightarrow> Returned (Some NotInitialized, None)
      | Some p \<Rightarrow>
          (if send_ready p then
             (case do_send p job of
                Panicked c \<Rightarrow> Panicked c
              | Returned (e, p') \<Rightarrow> Returned (e, Some p'))
           else Returned (Some QueueFull, Some p)))"

definition AddSourcemapJob ::
  "core_record pool option \<Rightarrow> core_record \<Rightarrow>
   (submit_error option \<times> core_record pool option) outcome" where
  "AddSourcemapJob global jsFileRecord = AddJob_unchecked global jsFileRecord"

definition AddExtractionJob ::
  "core_record pool option \<Rightarrow> core_record \<Rightarrow>
   (submit_error option \<times> core_record pool option) outcome" where
  "AddExtractionJob global endpointRecord = AddJob_unchecked global endpointRecord"

definition AddAnalysisJob ::
  "bool \<Rightarrow> core_record pool option \<Rightarrow> core_record \<Rightarrow>
   (submit_error option \<times> core_record pool option) outcome" where
  "AddAnalysisJob pick_send global jsFileRecord = AddJob_checked pick_send global jsFileRecord"

definition AddDechunkerJob ::
  "bool \<Rightarrow> core_record pool option \<Rightarrow> core_record \<Rightarrow>
   (submit_error option \<times> core_record pool option) outcome" where
  "AddDechunkerJob pick_send global jsFileRecord = AddJob_checked pick_send global jsFileRecord"

definition AddPrettifyJob ::
  "bool \<Rightarrow> PrettifyJob pool option \<Rightarrow> core_record option \<Rightarrow> string \<Rightarrow> string \<Rightarrow>
   (submit_error option \<times> PrettifyJob pool option) outcome" where
  "AddPrettifyJob pick_send global record filePath fileType =
     AddJob_checked pick_send global \<lparr>Record = record, FilePath = filePath, job_Type = fileType\<rparr>"

text \<open>A pool as \<open>RunDB\<close> leaves it: created, then started.\<close>

definition started_pool :: "nat \<Rightarrow> nat \<Rightarrow> 'job pool" where
  "started_pool maxWorkers queueSize = (NewWorkerPool maxWorkers queueSize)\<lparr>isRunning := True\<rparr>"

section \<open>Recovery at startup (recoverPendingJobs)\<close>

text \<open>
  The store holds the \<open>endpoints\<close> and the \<open>js_files\<close> collections. The six queries of the
  sweep are \<open>FindRecordsByFilter(collection, "f = 'pending' || f = 'processing'",
  "created_at", 0, 0)\<close> for a status field \<open>f\<close>: every record of the collection that
  passes the filter, sorted by \<open>created_at\<close> ascending (records with equal \<open>created_at\<close> in
  the order of the collection). \<open>None\<close> is the error return of the query.
\<close>

record store =
  endpoints :: "core_record list"
  js_files :: "core_record list"

definition created_at_of :: "core_record \<Rightarrow> nat" where
  "created_at_of r = (case vals r ''created_at'' of Some (FTime t) \<Rightarrow> t | _ \<Rightarrow> 0)"

definition pending_or_processing :: "string \<Rightarrow> core_record \<Rightarrow> bool" where
  "pending_or_processing field r =
     (GetString r field = ''pending'' \<or> GetString r field = ''processing'')"

definition query_result :: "core_record list \<Rightarrow> string \<Rightarrow> core_record list" where
  "query_result collection field =
     sort_key created_at_of (filter (pending_or_processing field) collection)"

definition FindRecordsByFilter :: "bool \<Rightarrow> core_record list \<Rightarrow> string \<Rightarrow> core_record list option" where
  "FindRecordsByFilter query_fails collection field =
     (if query_fails then None else Some (query_result collection field))"

record pools =
  globalExtractionPool :: "core_record pool option"
  prettifyWorkerPool :: "PrettifyJob pool"
  globalSourcemapPool :: "core_record pool option"
  analysisWorkerPool :: "core_record pool"
  globalDechunkerPool :: "core_record pool option"

text \<open>
  \<open>for _, record := range records { if err := submit(record); err != nil { log } }\<close>:
  an error of a submission is logged and the loop goes on; a panic ends everything.
\<close>

fun submit_each ::
  "('p \<Rightarrow> 'j \<Rightarrow> (submit_error option \<times> 'p) outcome) \<Rightarrow> 'p \<Rightarrow> 'j list \<Rightarrow> 'p outcome" where
  "submit_each submit p [] = Returned p"
| "submit_each submit p (j # js) =
     (case submit p j of
        Panicked c \<Rightarrow> Panicked c
      | Returned (e, p') \<Rightarrow> submit_each submit p' js)"

definition recovery_prettify_job :: "core_record \<Rightarrow> PrettifyJob" where
  "recovery_prettify_job r = \<lparr>Record = Some r, FilePath = [], job_Type = []\<rparr>"

definition outcome_bind :: "'a outcome \<Rightarrow> ('a \<Rightarrow> 'b outcome) \<Rightarrow> 'b outcome" where
  "outcome_bind m f = (case m of Panicked c \<Rightarrow> Panicked c | Returned x \<Rightarrow> f x)"

text \<open>
  The environment of a run: which of the six queries fail, and the picks of \<open>select\<close>.
\<close>

record recovery_env =
  query_fails :: "nat \<Rightarrow> bool"
  select_pick :: bool

definition sweep_extraction :: "recovery_env \<Rightarrow> store \<Rightarrow> pools \<Rightarrow> pools outcome" where
  "sweep_extraction env st ps =
     (case FindRecordsByFilter (query_fails env 1) (endpoints st) ''extraction_status'' of
        None \<Rightarrow> Returned ps
      | Some pendingEndpoints \<Rightarrow>
          outcome_bind (submit_each AddExtractionJob (globalExtractionPool ps) pendingEndpoints)
            (\<lambda>g. Returned (ps\<lparr>globalExtractionPool := g\<rparr>)))"

definition sweep_endpoint_prettify :: "recovery_env \<Rightarrow> store \<Rightarrow> pools \<Rightarrow> pools outcome" where
  "sweep_endpoint_prettify env st ps =
     (case FindRecordsByFilter (query_fails env 2) (endpoints st) ''prettify_status'' of
        None \<Rightarrow> Returned ps
      | Some pendingEndpointPrettify \<Rightarrow>
          outcome_bind (submit_each (SubmitJob (select_pick env)) (prettifyWorkerPool ps)
                          (map recovery_prettify_job pendingEndpointPrettify))
            (\<lambda>p. Returned (ps\<lparr>prettifyWorkerPool := p\<rparr>)))"

definition sweep_js_prettify :: "recovery_env \<Rightarrow> store \<Rightarrow> pools \<Rightarrow> pools outcome" where
  "sweep_js_prettify env st ps =
     (case FindRecordsByFilter (query_fails env 3) (js_files st) ''prettify_status'' of
        None \<Rightarrow> Returned ps
      | Some pendingJSPrettify \<Rightarrow>
          outcome_bind (submit_each (SubmitJob (select_pick env)) (prettifyWorkerPool ps)
                          (map recovery_prettify_job pendingJSPrettify))
            (\<lambda>p. Returned (ps\<lparr>prettifyWorkerPool := p\<rparr>)))"

definition sweep_sourcemap :: "recovery_env \<Rightarrow> store \<Rightarrow> pools \<Rightarrow> pools outcome" where
  "sweep_sourcemap env st ps =
     (case FindRecordsByFilter (query_fails env 4) (js_files st) ''sourcemap_status'' of
        None \<Rightarrow> Returned ps
      | Some pendingSourcemap \<Rightarrow>
          outcome_bind (submit_each AddSourcemapJob (globalSourcemapPool ps) pendingSourcemap)
            (\<lambda>g. Returned (ps\<lparr>globalSourcemapPool := g\<rparr>)))"

definition sweep_analysis :: "recovery_env \<Rightarrow> store \<Rightarrow> pools \<Rightarrow> pools outcome" where
  "sweep_analysis env st ps =
     (case FindRecordsByFilter (query_fails env 5) (js_files st) ''analysis_status'' of
        None \<Rightarrow> Returned ps
      | Some pendingAnalysis \<Rightarrow>
          outcome_bind (submit_each (SubmitJob (select_pick env)) (analysisWorkerPool ps)
                          pendingAnalysis)
            (\<lambda>p. Returned (ps\<lparr>analysisWorkerPool := p\<rparr>)))"

definition sweep_dechunker :: "recovery_env \<Rightarrow> store \<Rightarrow> pools \<Rightarrow> pools outcome" where
  "sweep_dechunker env st ps =
     (case FindRecordsByFilter (query_fails env 6) (js_files st) ''dechunker_status'' of
        None \<Rightarrow> Returned ps
      | Some pendingDechunker \<Rightarrow>
          outcome_bind (submit_each (AddDechunkerJob (select_pick env)) (globalDechunkerPool ps)
                          pendingDechunker)
            (\<lambda>g. Returned (ps\<lparr>globalDechunkerPool := g\<rparr>)))"

definition recoverPendingJobs :: "recovery_env \<Rightarrow> store \<Rightarrow> pools \<Rightarrow> pools outcome" where
  "recoverPendingJobs env st ps =
     outcome_bind (sweep_extraction env st ps) (\<lambda>ps1.
     outcome_bind (sweep_endpoint_prettify env st ps1) (\<lambda>ps2.
     outcome_bind (sweep_js_prettify env st ps2) (\<lambda>ps3.
     outcome_bind (sweep_sourcemap env st ps3) (\<lambda>ps4.
     outcome_bind (sweep_analysis env st ps4) (\<lambda>ps5.
     sweep_dechunker env st ps5)))))"

text \<open>
  The properties are stated for pools that accept work: started, never stopped. The jobs a
  queue holds more than before are the records the sweep put there.
\<close>

definition accepting :: "'job pool \<Rightarrow> bool" where
  "accepting p = (isRunning p \<and> \<not> closed p \<and> \<not> ctxDone p)"

definition room :: "'job pool \<Rightarrow> nat" where
  "room p = capacity p - length (jobQueue p)"

definition enqueue_all :: "'job pool \<Rightarrow> 'job list \<Rightarrow> 'job pool" where
  "enqueue_all p js = p\<lparr>jobQueue := jobQueue p @ take (room p) js\<rparr>"

text \<open>
  What the specification asks of the records swept for one status field of one
  collection: they are exactly the records of the collection whose status is \<open>pending\<close> or
  \<open>processing\<close>, each as often as the collection holds it, in ascending order of
  \<open>created_at\<close>; none of them is \<open>failed\<close> or \<open>processed\<close>.
\<close>

definition swept :: "core_record list \<Rightarrow> string \<Rightarrow> core_record list \<Rightarrow> bool" where
  "swept collection field recs =
     (sorted (map created_at_of recs) \<and>
      mset recs = filter_mset (\<lambda>r. GetString r field = ''pending'' \<or>
                                    GetString r field = ''processing'') (mset collection) \<and>
      (\<forall>r \<in> set recs. GetString r field \<noteq> ''failed'' \<and> GetString r field \<noteq> ''processed''))"

text \<open>A store after a crash, and the pools as \<open>RunDB\<close> starts them.\<close>

definition example_endpoint1 :: core_record where
  "example_endpoint1 = \<lparr>rid = ''ep1'', vals =
     [''url'' \<mapsto> FStr ''http://example.test/a'', ''extraction_status'' \<mapsto> FStr ''processed'',
      ''prettify_status'' \<mapsto> FStr ''failed'', ''created_at'' \<mapsto> FTime 5]\<rparr>"

definition example_endpoint2 :: core_record where
  "example_endpoint2 = \<lparr>rid = ''ep2'', vals =
     [''url'' \<mapsto> FStr ''http://example.test/b'', ''extraction_status'' \<mapsto> FStr ''pending'',
      ''prettify_status'' \<mapsto> FStr ''pending'', ''created_at'' \<mapsto> FTime 3]\<rparr>"

definition example_js1 :: core_record where
  "example_js1 = \<lparr>rid = ''js1'', vals =
     [''url'' \<mapsto> FStr ''http://example.test/a.js'', ''type'' \<mapsto> FStr ''normal'',
      ''prettify_status'' \<mapsto> FStr ''processed'', ''sourcemap_status'' \<mapsto> FStr ''processed'',
      ''analysis_status'' \<mapsto> FStr ''processing'', ''dechunker_status'' \<mapsto> FStr ''failed'',
      ''created_at'' \<mapsto> FTime 9]\<rparr>"

definition example_js2 :: core_record where
  "example_js2 = \<lparr>rid = ''js2'', vals =
     [''url'' \<mapsto> FStr ''http://example.test/b.js'', ''type'' \<mapsto> FStr ''normal'',
      ''prettify_status'' \<mapsto> FStr ''processed'', ''sourcemap_status'' \<mapsto> FStr ''processed'',
      ''analysis_status'' \<mapsto> FStr ''pending'', ''dechunker_status'' \<mapsto> FStr ''processed'',
      ''created_at'' \<mapsto> FTime 8]\<rparr>"

definition example_store :: store where
  "example_store = \<lparr>endpoints = [example_endpoint1, example_endpoint2],
                     js_files = [example_js1, example_js2]\<rparr>"

definition example_pools :: pools where
  "example_pools = \<lparr>globalExtractionPool = Some (started_pool 4 100),
     prettifyWorkerPool = started_pool 8 400,
     globalSourcemapPool = Some (started_pool 4 400),
     analysisWorkerPool = started_pool 6 400,
     globalDechunkerPool = Some (started_pool 4 400)\<rparr>"

definition example_env :: recovery_env where
  "example_env = \<lparr>query_fails = (\<lambda>i. False), select_pick = True\<rparr>"

section \<open>Strings\<close>

text \<open>
  Go strings are byte sequences, read as UTF-8 where runes matter.
\<close>

definition HasPrefix :: "string \<Rightarrow> string \<Rightarrow> bool" where
  "HasPrefix s pre = (take (length pre) s = pre)"

fun Contains :: "string \<Rightarrow> string \<Rightarrow> bool" where
  "Contains [] sub = (sub = [])"
| "Contains (c # cs) sub = (HasPrefix (c # cs) sub \<or> Contains cs sub)"

text \<open>
  The white space of \<open>unicode.IsSpace\<close> in UTF-8: tab, line feed, vertical tab, form
  feed, carriage return, space, U+0085, U+00A0, U+1680, U+2000 to U+200A, U+2028, U+2029,
  U+202F, U+205F and U+3000. An encoding of one of them starts with a byte that is
  never a continuation byte, so it is found in a string only where a rune starts, and
  at the end of a string it is the last rune.
\<close>

definition unicode_spaces :: "string list" where
  "unicode_spaces =
     [[CHR 0x09], [CHR 0x0A], [CHR 0x0B], [CHR 0x0C], [CHR 0x0D], [CHR 0x20],
      [CHR 0xC2, CHR 0x85], [CHR 0xC2, CHR 0xA0], [CHR 0xE1, CHR 0x9A, CHR 0x80],
      [CHR 0xE2, CHR 0x80, CHR 0x80], [CHR 0xE2, CHR 0x80, CHR 0x81],
      [CHR 0xE2, CHR 0x80, CHR 0x82], [CHR 0xE2, CHR 0x80, CHR 0x83],
      [CHR 0xE2, CHR 0x80, CHR 0x84], [CHR 0xE2, CHR 0x80, CHR 0x85],
      [CHR 0xE2, CHR 0x80, CHR 0x86], [CHR 0xE2, CHR 0x80, CHR 0x87],
      [CHR 0xE2, CHR 0x80, CHR 0x88], [CHR 0xE2, CHR 0x80, CHR 0x89],
      [CHR 0xE2, CHR 0x80, CHR 0x8A], [CHR 0xE2, CHR 0x80, CHR 0xA8],
      [CHR 0xE2, CHR 0x80, CHR 0xA9], [CHR 0xE2, CHR 0x80, CHR 0xAF],
      [CHR 0xE2, CHR 0x81, CHR 0x9F], [CHR 0xE3, CHR 0x80, CHR 0x80]]"

text \<open>The number of bytes of the sequence of \<open>seqs\<close> that \<open>s\<close> starts with, 0 when there is none.\<close>

definition prefix_length :: "string list \<Rightarrow> string \<Rightarrow> nat" where
  "prefix_length seqs s =
     (case find (\<lambda>q. HasPrefix s q) seqs of None \<Rightarrow> 0 | Some q \<Rightarrow> length q)"

text \<open>
  \<open>s\<close> without the sequences of \<open>seqs\<close> it starts with; \<open>skip\<close> counts the bytes of a
  sequence that remain to be dropped.
\<close>

fun trim_start :: "string list \<Rightarrow> nat \<Rightarrow> string \<Rightarrow> string" where
  "trim_start seqs skip [] = []"
| "trim_start seqs skip (c # cs) =
     (if 0 < skip then trim_start seqs (skip - 1) cs
      else if 0 < prefix_length seqs (c # cs)
           then trim_start seqs (prefix_length seqs (c # cs) - 1) cs
           else c # cs)"

text \<open>\<open>strings.TrimSpace\<close>: the white space runes at the start and at the end are cut off.\<close>

definition TrimSpace :: "string \<Rightarrow> string" where
  "TrimSpace s =
     rev (trim_start (map rev unicode_spaces) 0 (rev (trim_start unicode_spaces 0 s)))"

section \<open>The hooks of the \<open>js_files\<close> collection (db/hooks.go)\<close>

datatype stage = Extraction | Prettify | Sourcemap | Analysis | Dechunker

text \<open>
  The after-update hook. A record is handed around by pointer: \<open>app.Save(e.Record)\<close>
  inside the hook fires the hook again on the same record before the statement after it
  runs. The nested run for \<open>analysis_status\<close> finds \<open>analysis_status = processing\<close> and
  handles \<open>dechunker_status\<close>; the nested run for \<open>dechunker_status\<close> finds nothing
  pending. So the outer test of \<open>dechunker_status\<close> after an analysis submission always
  sees the value the nested run left. The result is the record as the hook leaves it and
  the pools \<open>Add...Job\<close> was called for, in the order of the calls.
\<close>

definition after_update_dechunker :: "core_record \<Rightarrow> core_record \<times> stage list" where
  "after_update_dechunker r =
     (if GetString r ''dechunker_status'' = ''pending''
      then (Set r ''dechunker_status'' (FStr ''processing''), [Dechunker])
      else (r, []))"

definition js_files_after_update :: "core_record \<Rightarrow> core_record \<times> stage list" where
  "js_files_after_update r =
     (if GetString r ''prettify_status'' = ''processed'' then
        (if GetString r ''analysis_status'' = ''pending'' then
           (let r1 = Set r ''analysis_status'' (FStr ''processing'');
                nested = after_update_dechunker r1;
                outer = after_update_dechunker (fst nested)
            in (fst outer, snd nested @ [Analysis] @ snd outer))
         else after_update_dechunker r)
      else (r, []))"

text \<open>
  The after-create hook. \<open>path\<close> is the result of \<open>storage.GetJSFilePath(url, hash)\<close>
  (\<open>None\<close> for its error, on which the hook returns before it saves). The result is the
  record the hook leaves in the hands of its creator, the record as the store holds it,
  and the pools \<open>Add...Job\<close> was called for.
\<close>

record created =
  held :: core_record
  stored :: core_record
  calls :: "stage list"

definition js_files_after_create :: "string option \<Rightarrow> nat \<Rightarrow> core_record \<Rightarrow> created" where
  "js_files_after_create path now r =
     (let r1 = Set r ''prettify_status'' (FStr ''pending'');
          r2 = Set r1 ''analysis_status'' (FStr ''pending'');
          r3 = Set r2 ''sourcemap_status'' (FStr ''pending'');
          r4 = Set r3 ''dechunker_status'' (FStr ''pending'');
          fileType = GetString r4 ''type'';
          r5 = (if fileType = ''inline'' \<or> fileType = ''chunk''
                then Set r4 ''dechunker_status'' (FStr ''processed'') else r4);
          r6 = Set r5 ''created_at'' (FTime now)
      in case path of
           None \<Rightarrow> \<lparr>held = r6, stored = r, calls = []\<rparr>
         | Some filePath \<Rightarrow>
             (let r7 = Set r6 ''prettify_status'' (FStr ''processing'');
                  r8 = Set r7 ''sourcemap_status'' (FStr ''processing'');
                  upd = js_files_after_update r8
              in \<lparr>held = fst upd, stored = fst upd,
                  calls = snd upd @ [Prettify, Sourcemap]\<rparr>))"

section \<open>The life of a \<open>js_file\<close> after its creation\<close>



definition saved :: "core_record \<Rightarrow> stage list \<Rightarrow> core_record \<times> stage list" where
  "saved r subs = (let upd = js_files_after_update r in (fst upd, subs @ snd upd))"


section \<open>The writers of \<open>js_files\<close> (extraction/job.go, dechunker)\<close>

text \<open>
  The store with the record of the calls to \<open>Add...Job\<close> made by the hooks: the pool and
  the id of the record.
\<close>

record world =
  db :: store
  submissions :: "(stage \<times> string) list"

text \<open>
  What a writer meets outside itself: the SHA-256 digest (hex), \<open>storage.GetJSFilePath\<close>
  (of the package \<open>utils/url\<close> behind it only the result is known; \<open>None\<close> is its error),
  whether \<open>SaveJSFile\<close> can write, whether \<open>app.Save\<close> accepts a new record, the ids the
  store hands out, the clock, the rate-limited fetcher (\<open>Some (content, contentType)\<close>
  when \<open>success\<close> holds and \<open>err\<close> is nil), the chunk extractor (\<open>None\<close> is its error),
  and whether the query \<open>FindFirstRecordByFilter\<close> for a URL ends with an error of the
  store.
\<close>

record writer_env =
  sha256 :: "string \<Rightarrow> string"
  js_path :: "string \<Rightarrow> string \<Rightarrow> string option"
  SaveJSFile_ok :: "string \<Rightarrow> string \<Rightarrow> bool"
  Save_ok :: "core_record \<Rightarrow> bool"
  new_id :: "nat \<Rightarrow> string"
  clock :: nat
  fetch :: "string \<Rightarrow> (string \<times> string) option"
  ExtractChunksFromFile :: "string \<Rightarrow> string \<Rightarrow> string list option"
  find_fails :: "string \<Rightarrow> bool"

definition SaveJSFile :: "writer_env \<Rightarrow> string \<Rightarrow> string \<Rightarrow> string" where
  "SaveJSFile env url content =
     (if SaveJSFile_ok env url content then sha256 env content else [])"

text \<open>
  \<open>app.Save\<close> of a new record: when the store accepts it, the record gets its id, is
  inserted, and the after-create hook runs. The caller keeps the record.
\<close>

definition Save_new :: "writer_env \<Rightarrow> world \<Rightarrow> core_record \<Rightarrow> world \<times> core_record" where
  "Save_new env w newRecord =
     (if \<not> Save_ok env newRecord then (w, newRecord)
      else (let r = newRecord\<lparr>rid := new_id env (length (js_files (db w)))\<rparr>;
                c = js_files_after_create
                      (js_path env (GetString r ''url'') (GetString r ''hash'')) (clock env) r
            in (w\<lparr>db := (db w)\<lparr>js_files := js_files (db w) @ [stored c]\<rparr>,
                  submissions := submissions w @ map (\<lambda>s. (s, rid r)) (calls c)\<rparr>,
                held c)))"

text \<open>\<open>app.Save\<close> of a record the store already holds: the row is replaced, the after-update hook runs.\<close>

definition Save_existing :: "world \<Rightarrow> core_record \<Rightarrow> world \<times> core_record" where
  "Save_existing w r =
     (let upd = js_files_after_update r
      in (w\<lparr>db := (db w)\<lparr>js_files :=
                  map (\<lambda>x. if rid x = rid r then fst upd else x) (js_files (db w))\<rparr>,
            submissions := submissions w @ map (\<lambda>s. (s, rid r)) (snd upd)\<rparr>,
          fst upd))"

record JSFileResult =
  jsr_URL :: string
  jsr_Content :: string
  jsr_Type :: string

text \<open>
  \<open>FindFirstRecordByFilter("js_files", filter, ...)\<close> on the store as the query sees
  it: the first record that passes the filter; \<open>None\<close> stands for \<open>err != nil\<close>, which
  is the answer when no record passes and when the store fails.
\<close>

definition FindFirstRecordByFilter ::
  "writer_env \<Rightarrow> store \<Rightarrow> string \<Rightarrow> (core_record \<Rightarrow> bool) \<Rightarrow> core_record option" where
  "FindFirstRecordByFilter env st url passes =
     (if find_fails env url then None else find passes (js_files st))"

text \<open>\<open>checkExistingJSFile\<close>, with the filter \<open>url = {:url} || hash = {:hash}\<close>.\<close>

definition checkExistingJSFile :: "writer_env \<Rightarrow> store \<Rightarrow> string \<Rightarrow> string \<Rightarrow> string" where
  "checkExistingJSFile env st url contentHash =
     (case FindFirstRecordByFilter env st url
             (\<lambda>r. GetString r ''url'' = url \<or> GetString r ''hash'' = contentHash) of
        Some existingRecord \<Rightarrow> rid existingRecord
      | None \<Rightarrow> [])"

definition extraction_newRecord :: "JSFileResult \<Rightarrow> string \<Rightarrow> core_record" where
  "extraction_newRecord jsFile contentHash =
     \<lparr>rid = [], vals = [''url'' \<mapsto> FStr (jsr_URL jsFile), ''hash'' \<mapsto> FStr contentHash,
                        ''type'' \<mapsto> FStr (jsr_Type jsFile)]\<rparr>"

text \<open>
  One pass of the loop of \<open>saveProcessingResults\<close> over the captured JS files: the
  store after it and the id appended to \<open>jsFileIDs\<close>. The workers of the pools run side
  by side and nothing ties the query to the insert: the query reads the store as it is
  when it runs (\<open>seen\<close>), and \<open>app.Save\<close> writes to the store as it is then (\<open>w\<close>), which
  may hold what other workers have saved in between.
\<close>

definition register_js_file ::
  "writer_env \<Rightarrow> store \<Rightarrow> world \<Rightarrow> JSFileResult \<Rightarrow> world \<times> string" where
  "register_js_file env seen w jsFile =
     (let contentHash = sha256 env (jsr_Content jsFile);
          existingID = checkExistingJSFile env seen (jsr_URL jsFile) contentHash
      in if existingID \<noteq> [] then (w, existingID)
         else (let hash = SaveJSFile env (jsr_URL jsFile) (jsr_Content jsFile);
                   s = Save_new env w (extraction_newRecord jsFile contentHash)
               in (fst s, rid (snd s))))"

text \<open>The loop, run by a worker that is alone on the store.\<close>

fun saveJSFiles ::
  "writer_env \<Rightarrow> world \<Rightarrow> JSFileResult list \<Rightarrow> string list \<Rightarrow> world \<times> string list" where
  "saveJSFiles env w [] jsFileIDs = (w, jsFileIDs)"
| "saveJSFiles env w (jsFile # rest) jsFileIDs =
     (let s = register_js_file env (db w) w jsFile
      in saveJSFiles env (fst s) rest (jsFileIDs @ [snd s]))"

text \<open>
  \<open>saveProcessingResults\<close>: \<open>htmlHash\<close> is what \<open>SaveHTMLFile\<close> returned. The result is
  the store and the endpoint record as it is handed to the final \<open>app.Save\<close>.
\<close>

definition saveProcessingResults ::
  "writer_env \<Rightarrow> world \<Rightarrow> core_record \<Rightarrow> string \<Rightarrow> JSFileResult list \<Rightarrow> bool \<Rightarrow>
   world \<times> core_record" where
  "saveProcessingResults env w endpointRecord htmlHash jsFiles isMobile =
     (let e1 = (if htmlHash \<noteq> [] then
                  (if isMobile then Set endpointRecord ''mobile_hash'' (FStr htmlHash)
                   else Set endpointRecord ''hash'' (FStr htmlHash))
                else endpointRecord);
          s = saveJSFiles env w jsFiles []
      in (fst s, Set e1 ''js_files'' (FIds (snd s))))"

definition chunk_newRecord :: "string \<Rightarrow> string \<Rightarrow> string \<Rightarrow> nat \<Rightarrow> core_record" where
  "chunk_newRecord absoluteURL hash parentJSFileID now =
     \<lparr>rid = [], vals = [''url'' \<mapsto> FStr absoluteURL, ''hash'' \<mapsto> FStr hash,
                        ''parent_id'' \<mapsto> FStr parentJSFileID, ''type'' \<mapsto> FStr ''chunk'',
                        ''has_chunks'' \<mapsto> FBool False, ''created_at'' \<mapsto> FTime now]\<rparr>"

text \<open>The tests of \<open>fetchAndSaveChunks\<close> on a fetched body, in the order of the source.\<close>

definition chunk_body_ok :: "string \<Rightarrow> string \<Rightarrow> bool" where
  "chunk_body_ok content contentType =
     (if \<not> Contains contentType ''javascript'' \<and> \<not> Contains contentType ''text/plain''
      then False
      else if HasPrefix (TrimSpace content) ''<!DOCTYPE html>'' \<or>
              HasPrefix (TrimSpace content) ''<html>'' then False
      else if length content = 0 then False
      else True)"

text \<open>
  One pass of the loop of \<open>fetchAndSaveChunks\<close>, with the filter \<open>url = {:url}\<close>; \<open>seen\<close>
  and \<open>w\<close> as above.
\<close>

definition register_chunk :: "writer_env \<Rightarrow> string \<Rightarrow> store \<Rightarrow> world \<Rightarrow> string \<Rightarrow> world" where
  "register_chunk env parentJSFileID seen w absoluteURL =
     (case FindFirstRecordByFilter env seen absoluteURL
             (\<lambda>r. GetString r ''url'' = absoluteURL) of
        Some existingRecord \<Rightarrow> w
      | None \<Rightarrow>
          (case fetch env absoluteURL of
             None \<Rightarrow> w
           | Some (content, contentType) \<Rightarrow>
               (if \<not> chunk_body_ok content contentType then w
                else (let hash = SaveJSFile env absoluteURL content
                      in fst (Save_new env w
                                (chunk_newRecord absoluteURL hash parentJSFileID (clock env)))))))"

text \<open>The loop, run by a worker that is alone on the store.\<close>

fun fetchAndSaveChunks_loop :: "writer_env \<Rightarrow> string \<Rightarrow> world \<Rightarrow> string list \<Rightarrow> world" where
  "fetchAndSaveChunks_loop env parentJSFileID w [] = w"
| "fetchAndSaveChunks_loop env parentJSFileID w (absoluteURL # rest) =
     fetchAndSaveChunks_loop env parentJSFileID
       (register_chunk env parentJSFileID (db w) w absoluteURL) rest"

definition fetchAndSaveChunks :: "writer_env \<Rightarrow> world \<Rightarrow> string \<Rightarrow> string list \<Rightarrow> world" where
  "fetchAndSaveChunks env w parentJSFileID chunkURLs =
     (if length chunkURLs = 0 then w
      else fetchAndSaveChunks_loop env parentJSFileID w chunkURLs)"

text \<open>\<open>processJob\<close> of the Dechunker pool on the record of its job.\<close>

definition dechunker_fail :: "world \<Rightarrow> core_record \<Rightarrow> world" where
  "dechunker_fail w jsFileRecord =
     fst (Save_existing w (Set jsFileRecord ''dechunker_status'' (FStr ''failed'')))"

definition dechunker_processJob :: "writer_env \<Rightarrow> world \<Rightarrow> core_record \<Rightarrow> world" where
  "dechunker_processJob env w jsFileRecord =
     (let bodyHash = GetString jsFileRecord ''hash'';
          fileURL = GetString jsFileRecord ''url''
      in if bodyHash = [] \<or> fileURL = [] then dechunker_fail w jsFileRecord
         else (case js_path env fileURL bodyHash of
                 None \<Rightarrow> dechunker_fail w jsFileRecord
               | Some fullPath \<Rightarrow>
                   (case ExtractChunksFromFile env fullPath fileURL of
                      None \<Rightarrow> dechunker_fail w jsFileRecord
                    | Some chunkURLs \<Rightarrow>
                        (let s1 = (if length chunkURLs > 0
                                   then Save_existing w (Set jsFileRecord ''has_chunks'' (FBool True))
                                   else (w, jsFileRecord));
                             w2 = (if length chunkURLs > 0
                                   then fetchAndSaveChunks env (fst s1) (rid (snd s1)) chunkURLs
                                   else fst s1);
                             r3 = Set (Set (snd s1) ''dechunker_status'' (FStr ''processed''))
                                    ''last_modified'' (FTime (clock env))
                         in fst (Save_existing w2 r3)))))"



text \<open>
  An environment and a store for examples. The digest of the examples is a stand-in for
  SHA-256: the examples only need that equal contents have equal digests. The parent
  \<open>a.js\<close> has been prettified and is being dechunked; the extractor finds the chunk
  \<open>b.js\<close> in it, and \<open>b.js\<close> has the content of the already registered \<open>c.js\<close>.
\<close>

definition example_digest :: "string \<Rightarrow> string" where
  "example_digest content = ''sha256:'' @ content"

definition example_writer_env :: writer_env where
  "example_writer_env =
     \<lparr>sha256 = example_digest,
      js_path = (\<lambda>url hash. Some (''/files/x/'' @ hash @ ''/file.js'')),
      SaveJSFile_ok = (\<lambda>url content. True),
      Save_ok = (\<lambda>r. True),
      new_id = (\<lambda>n. ''new'' @ replicate n CHR ''i''),
      clock = 20,
      fetch = (\<lambda>url. if url = ''http://x/b.js''
                       then Some (''console.log(2)'', ''application/javascript'') else None),
      ExtractChunksFromFile = (\<lambda>path url. if url = ''http://x/a.js''
                       then Some [''http://x/b.js''] else Some []),
      find_fails = (\<lambda>url. False)\<rparr>"

definition example_parent :: core_record where
  "example_parent = \<lparr>rid = ''jsA'', vals =
     [''url'' \<mapsto> FStr ''http://x/a.js'', ''hash'' \<mapsto> FStr (example_digest ''import(2)''),
      ''type'' \<mapsto> FStr ''normal'', ''prettify_status'' \<mapsto> FStr ''processed'',
      ''sourcemap_status'' \<mapsto> FStr ''processed'', ''analysis_status'' \<mapsto> FStr ''processed'',
      ''dechunker_status'' \<mapsto> FStr ''processing'', ''created_at'' \<mapsto> FTime 10]\<rparr>"

definition example_other :: core_record where
  "example_other = \<lparr>rid = ''jsC'', vals =
     [''url'' \<mapsto> FStr ''http://x/c.js'', ''hash'' \<mapsto> FStr (example_digest ''console.log(2)''),
      ''type'' \<mapsto> FStr ''normal'', ''prettify_status'' \<mapsto> FStr ''processed'',
      ''sourcemap_status'' \<mapsto> FStr ''processed'', ''analysis_status'' \<mapsto> FStr ''processed'',
      ''dechunker_status'' \<mapsto> FStr ''processed'', ''created_at'' \<mapsto> FTime 11]\<rparr>"

definition example_world :: world where
  "example_world = \<lparr>db = \<lparr>endpoints = [], js_files = [example_parent, example_other]\<rparr>,
                     submissions = []\<rparr>"

definition example_chunk :: core_record where
  "example_chunk = (chunk_newRecord ''http://x/b.js'' (example_digest ''console.log(2)'') ''jsA'' 20)
                     \<lparr>rid := ''newii''\<rparr>"

text \<open>A JS file captured by two Extraction jobs at once.\<close>

definition example_captured :: JSFileResult where
  "example_captured =
     \<lparr>jsr_URL = ''http://x/z.js'', jsr_Content = ''console.log(9)'', jsr_Type = ''normal''\<rparr>"




section \<open>Paths (path/filepath on Unix, utils/filesystem, sourcemap)\<close>

text \<open>
  \<open>strings.Split(s, "/")\<close>: the pieces of \<open>s\<close> between the separators, empty pieces
  included; there is always at least one piece.
\<close>

fun split_on :: "char \<Rightarrow> string \<Rightarrow> string list" where
  "split_on sep [] = [[]]"
| "split_on sep (c # cs) =
     (if c = sep then [] # split_on sep cs
      else (case split_on sep cs of
              [] \<Rightarrow> [[c]]
            | piece # pieces \<Rightarrow> (c # piece) # pieces))"

text \<open>\<open>strings.Join(elems, "/")\<close>\<close>

fun join_with :: "char \<Rightarrow> string list \<Rightarrow> string" where
  "join_with sep [] = []"
| "join_with sep [x] = x"
| "join_with sep (x # y # ys) = x @ sep # join_with sep (y # ys)"

definition slash :: char where
  "slash = CHR ''/''"

definition dot :: char where
  "dot = CHR ''.''"

text \<open>
  \<open>filepath.Clean\<close> walks the elements of the path between separators and keeps the
  cleaned path in a buffer. Here the buffer is the stack of the elements written so far,
  the last one first. An empty element and \<open>.\<close> are skipped. For \<open>..\<close> the last element
  is removed when there is one that is not itself a kept \<open>..\<close> (\<open>out.w > dotdot\<close>);
  otherwise \<open>..\<close> is kept when the path is not rooted and dropped when it is.
\<close>

fun clean_elems :: "bool \<Rightarrow> string list \<Rightarrow> string list \<Rightarrow> string list" where
  "clean_elems rooted out [] = out"
| "clean_elems rooted out (e # es) =
     (if e = [] \<or> e = [dot] then clean_elems rooted out es
      else if e = [dot, dot] then
        (case out of
           [] \<Rightarrow> clean_elems rooted (if rooted then [] else [[dot, dot]]) es
         | lst # below \<Rightarrow>
             (if lst \<noteq> [dot, dot] then clean_elems rooted below es
              else clean_elems rooted (if rooted then out else [dot, dot] # out) es))
      else clean_elems rooted (e # out) es)"

definition render_path :: "bool \<Rightarrow> string list \<Rightarrow> string" where
  "render_path rooted out =
     (let s = (if rooted then [slash] else []) @ join_with slash (rev out)
      in if s = [] then [dot] else s)"

definition Clean :: "string \<Rightarrow> string" where
  "Clean path =
     (if path = [] then [dot]
      else render_path (hd path = slash) (clean_elems (hd path = slash) [] (split_on slash path)))"

text \<open>\<open>filepath.Join\<close>: the elements from the first non-empty one on, joined and cleaned.\<close>

definition Join :: "string list \<Rightarrow> string" where
  "Join elem =
     (let es = dropWhile (\<lambda>e. e = []) elem
      in if es = [] then [] else Clean (join_with slash es))"

text \<open>\<open>filepath.Dir\<close>: the path up to its last separator, cleaned.\<close>

definition Dir :: "string \<Rightarrow> string" where
  "Dir path = Clean (rev (dropWhile (\<lambda>c. c \<noteq> slash) (rev path)))"

text \<open>\<open>filepath.Base\<close>: the last element, after the trailing separators are removed.\<close>

definition Base :: "string \<Rightarrow> string" where
  "Base path =
     (if path = [] then [dot]
      else (let p = rev (dropWhile (\<lambda>c. c = slash) (rev path));
                b = rev (takeWhile (\<lambda>c. c \<noteq> slash) (rev p))
            in if b = [] then [slash] else b))"

text \<open>\<open>filepath.Ext\<close>: the suffix of the last element from its last dot on.\<close>

definition Ext :: "string \<Rightarrow> string" where
  "Ext path =
     (let last_elem = rev (takeWhile (\<lambda>c. c \<noteq> slash) (rev path))
      in if dot \<in> set last_elem
         then dot # rev (takeWhile (\<lambda>c. c \<noteq> dot) (rev last_elem))
         else [])"

definition TrimPrefix :: "string \<Rightarrow> string \<Rightarrow> string" where
  "TrimPrefix s pre = (if HasPrefix s pre then drop (length pre) s else s)"

text \<open>
  The class \<open>[<>:"/\\|?*\x00-\x1f]\<close> of the regular expression \<open>invalidChars\<close>. The
  expression is matched on the runes of the string; every byte of a rune outside ASCII is
  at least \<open>0x80\<close> and is left as it is.
\<close>

definition invalid_char :: "char \<Rightarrow> bool" where
  "invalid_char c =
     (c = CHR ''<'' \<or> c = CHR ''>'' \<or> c = CHR '':'' \<or> c = CHR 0x22 \<or> c = CHR ''/'' \<or>
      c = CHR 0x5C \<or> c = CHR ''|'' \<or> c = CHR ''?'' \<or> c = CHR ''*'' \<or>
      (of_char c :: nat) < 32)"

definition replace_invalid :: "string \<Rightarrow> string" where
  "replace_invalid s = map (\<lambda>c. if invalid_char c then CHR ''_'' else c) s"

text \<open>\<open>multipleDots.ReplaceAllString(s, ".")\<close> for \<open>\.{2,}\<close>: a run of dots becomes one dot.\<close>

fun collapse_dots :: "string \<Rightarrow> string" where
  "collapse_dots (a # b # cs) =
     (if a = dot \<and> b = dot then collapse_dots (b # cs) else a # collapse_dots (b # cs))"
| "collapse_dots cs = cs"

text \<open>\<open>strings.Trim(s, ". ")\<close>\<close>

definition trim_dots_spaces :: "string \<Rightarrow> string" where
  "trim_dots_spaces s =
     rev (dropWhile (\<lambda>c. c = dot \<or> c = CHR '' '')
       (rev (dropWhile (\<lambda>c. c = dot \<or> c = CHR '' '') s)))"

definition spaces_to_underscores :: "string \<Rightarrow> string" where
  "spaces_to_underscores s = map (\<lambda>c. if c = CHR '' '' then CHR ''_'' else c) s"

definition CleanPathComponent :: "string \<Rightarrow> string" where
  "CleanPathComponent component =
     (if component = [] then []
      else (let c1 = replace_invalid component;
                c2 = collapse_dots c1;
                c3 = trim_dots_spaces c2;
                c4 = spaces_to_underscores c3
            in if length c4 > 50 then take 50 c4 else c4))"

definition cleanedComponents :: "string list \<Rightarrow> string list" where
  "cleanedComponents components =
     filter (\<lambda>cleaned. cleaned \<noteq> [] \<and> cleaned \<noteq> [dot] \<and> cleaned \<noteq> [dot, dot])
       (map CleanPathComponent components)"

definition CleanSourcePath :: "string \<Rightarrow> string" where
  "CleanSourcePath path =
     (if path = [] then ''unknown.js''
      else (let p1 = TrimPrefix path ''/'';
                p2 = TrimPrefix p1 ''./'';
                p3 = TrimPrefix p2 ''../'';
                cs = cleanedComponents (split_on slash p3)
            in if length cs = 0 then ''unknown.js'' else Join cs))"

text \<open>\<open>sanitizeSourcePath\<close> of the sourcemap package, with \<open>runtime.GOOS == "windows"\<close> as a flag.\<close>

definition sanitizeWindowsPath :: "string \<Rightarrow> string" where
  "sanitizeWindowsPath path =
     map (\<lambda>c. if c \<in> set ''?%*|:<>'' \<or> c = CHR 0x22 then CHR ''-'' else c) path"

definition sanitizeSourcePath :: "bool \<Rightarrow> string \<Rightarrow> string" where
  "sanitizeSourcePath windows sourcePath =
     (let cleanPath = Clean (dropWhile (\<lambda>c. c = dot \<or> c = slash) sourcePath)
      in if windows then sanitizeWindowsPath cleanPath else cleanPath)"

text \<open>
  The path \<open>saveSourceFile\<close> writes to, for the files path of the configuration, the
  domain, the hash of the JS file and the \<open>Path\<close> of the source file.
\<close>

definition saveSourceFile_fullPath :: "string \<Rightarrow> string \<Rightarrow> string \<Rightarrow> string \<Rightarrow> string" where
  "saveSourceFile_fullPath filesPath domain jsFileHash sourcePath =
     (let cleanedPath = CleanSourcePath sourcePath;
          sourceFileDir = Join [filesPath, domain, jsFileHash, ''original'', Dir cleanedPath];
          filename0 = Base cleanedPath;
          filename1 = (if filename0 = [] \<or> filename0 = ''.'' then ''unknown.js'' else filename0);
          filename = (if Ext filename1 = [] then filename1 @ ''.js'' else filename1)
      in Join [sourceFileDir, filename])"

text \<open>
  What the specification asks: the written path is the directory \<open>original\<close> of the JS
  file followed by one or more path elements, none of which is empty, \<open>.\<close> or \<open>..\<close> or
  holds a separator, so the path resolves inside that directory.
\<close>

definition safe_element :: "string \<Rightarrow> bool" where
  "safe_element e = (e \<noteq> [] \<and> e \<noteq> [dot] \<and> e \<noteq> [dot, dot] \<and> slash \<notin> set e)"

definition inside :: "string \<Rightarrow> string \<Rightarrow> bool" where
  "inside dir path =
     (\<exists>es. es \<noteq> [] \<and> list_all safe_element es \<and> path = dir @ slash # join_with slash es)"

text \<open>
  The shape of the buffer of \<open>Clean\<close>: no element is empty, \<open>.\<close> or holds a separator,
  and an element \<open>..\<close> occurs only in a path that is not rooted, with nothing but \<open>..\<close>
  before it.
\<close>

fun cleaned_stack :: "bool \<Rightarrow> string list \<Rightarrow> bool" where
  "cleaned_stack rooted [] = True"
| "cleaned_stack rooted (e # below) =
     (e \<noteq> [] \<and> e \<noteq> [dot] \<and> slash \<notin> set e \<and> cleaned_stack rooted below \<and>
      (e = [dot, dot] \<longrightarrow> \<not> rooted \<and> (\<forall>x \<in> set below. x = [dot, dot])))"

text \<open>Notions for the proofs about paths.\<close>

definition is_rooted :: "string \<Rightarrow> bool" where
  "is_rooted path = (hd path = slash)"

definition stack_of :: "string \<Rightarrow> string list" where
  "stack_of path = clean_elems (is_rooted path) [] (split_on slash path)"

definition dir_string :: "string list \<Rightarrow> string" where
  "dir_string bs = (if bs = [] then [dot] else join_with slash bs)"

text \<open>
  \<open>extractSourcesToTempDir\<close> first writes every source below a temporary directory:
  \<open>fullPath := filepath.Join(tempDir, sanitizeSourcePath(sourcePath))\<close>.
\<close>

definition temp_fullPath :: "bool \<Rightarrow> string \<Rightarrow> string \<Rightarrow> string" where
  "temp_fullPath windows tempDir sourcePath = Join [tempDir, sanitizeSourcePath windows sourcePath]"

section \<open>Sourcemap stage (sourcemap package)\<close>

subsection \<open>JSON values as Go reads them\<close>

text \<open>
  A number literal out of the range of \<open>float64\<close> makes \<open>json.Unmarshal\<close> into an
  \<open>interface{}\<close> fail. \<open>FracLit q\<close> stands for a literal with a fraction or an exponent
  that is in range, \<open>q\<close> being the \<open>float64\<close> read from it.
\<close>

definition float64_of :: "jnumber \<Rightarrow> rat option" where
  "float64_of n =
     (case n of
        IntLit i \<Rightarrow> (if \<bar>i\<bar> < 2 ^ 1024 then Some (of_int i) else None)
      | FracLit q \<Rightarrow> Some q)"

fun floats_ok :: "json \<Rightarrow> bool" where
  "floats_ok (JNum n) = (float64_of n \<noteq> None)"
| "floats_ok (JArr xs) = list_all floats_ok xs"
| "floats_ok (JObj ms) = list_all (\<lambda>m. floats_ok (snd m)) ms"
| "floats_ok j = True"

text \<open>
  \<open>json.Unmarshal(content, &temp)\<close> with \<open>temp map[string]interface{}\<close>, on the document
  read from the bytes (\<open>None\<close> when they are not JSON): \<open>null\<close> leaves the map nil, an
  object fills it (a later member overrides an earlier one with the same key), anything
  else is an error.
\<close>

definition unmarshal_map :: "json option \<Rightarrow> (string \<Rightarrow> json option) option" where
  "unmarshal_map doc =
     (case doc of
        None \<Rightarrow> None
      | Some JNull \<Rightarrow> Some (\<lambda>k. None)
      | Some (JObj ms) \<Rightarrow> (if floats_ok (JObj ms) then Some (map_of (rev ms)) else None)
      | Some j \<Rightarrow> None)"

definition isValidSourceMapContent :: "json option \<Rightarrow> bool" where
  "isValidSourceMapContent doc =
     (case unmarshal_map doc of
        None \<Rightarrow> False
      | Some temp \<Rightarrow>
          (case temp ''version'' of
             None \<Rightarrow> False
           | Some version \<Rightarrow>
               (case version of
                  JNum n \<Rightarrow>
                    (case float64_of n of
                       None \<Rightarrow> False
                     | Some versionNum \<Rightarrow>
                         (if versionNum < 1 then False
                          else (case temp ''sources'' of
                                  None \<Rightarrow> False
                                | Some (JArr sources) \<Rightarrow> True
                                | Some j \<Rightarrow> False)))
                | j \<Rightarrow> False)))"

text \<open>
  \<open>json.Unmarshal(content, &sourceMap)\<close> with the struct \<open>SourceMap\<close>. The members are
  taken in order; a key selects a field when it equals the field's JSON name up to the
  case of its letters (modelled on ASCII letters). A value of the wrong type is recorded
  as an error and decoding goes on; the error is returned at the end.
\<close>

record SourceMap =
  Version :: int
  Sources :: "string list"
  SourcesContent :: "string list"

definition ascii_lower :: "char \<Rightarrow> char" where
  "ascii_lower c =
     (if (65::nat) \<le> of_char c \<and> (of_char c :: nat) \<le> 90 then char_of (of_char c + (32::nat)) else c)"

definition key_is :: "string \<Rightarrow> string \<Rightarrow> bool" where
  "key_is name key = (map ascii_lower key = map ascii_lower name)"

text \<open>A JSON value into an \<open>int\<close>: the value kept (if any) and whether an error was recorded.\<close>

definition decode_int :: "json \<Rightarrow> int \<Rightarrow> int \<times> bool" where
  "decode_int j old =
     (case j of
        JNull \<Rightarrow> (old, False)
      | JNum (IntLit i) \<Rightarrow>
          (if - (2 ^ 63) \<le> i \<and> i < 2 ^ 63 then (i, False) else (old, True))
      | other \<Rightarrow> (old, True))"

definition decode_string_elem :: "json \<Rightarrow> string \<times> bool" where
  "decode_string_elem j =
     (case j of JStr s \<Rightarrow> (s, False) | JNull \<Rightarrow> ([], False) | other \<Rightarrow> ([], True))"

definition decode_strings :: "json \<Rightarrow> string list \<Rightarrow> string list \<times> bool" where
  "decode_strings j old =
     (case j of
        JNull \<Rightarrow> ([], False)
      | JArr xs \<Rightarrow> (map (\<lambda>x. fst (decode_string_elem x)) xs,
                     list_ex (\<lambda>x. snd (decode_string_elem x)) xs)
      | other \<Rightarrow> (old, True))"

definition decode_member :: "SourceMap \<times> bool \<Rightarrow> string \<times> json \<Rightarrow> SourceMap \<times> bool" where
  "decode_member st m =
     (let sm = fst st; err = snd st; key = fst m; v = snd m
      in if key_is ''version'' key then
           (let d = decode_int v (Version sm) in (sm\<lparr>Version := fst d\<rparr>, err \<or> snd d))
         else if key_is ''sources'' key then
           (let d = decode_strings v (Sources sm) in (sm\<lparr>Sources := fst d\<rparr>, err \<or> snd d))
         else if key_is ''sourcesContent'' key then
           (let d = decode_strings v (SourcesContent sm)
            in (sm\<lparr>SourcesContent := fst d\<rparr>, err \<or> snd d))
         else st)"

definition unmarshal_SourceMap :: "json option \<Rightarrow> SourceMap option" where
  "unmarshal_SourceMap doc =
     (case doc of
        None \<Rightarrow> None
      | Some JNull \<Rightarrow> Some \<lparr>Version = 0, Sources = [], SourcesContent = []\<rparr>
      | Some (JObj ms) \<Rightarrow>
          (let r = foldl decode_member (\<lparr>Version = 0, Sources = [], SourcesContent = []\<rparr>, False) ms
           in if snd r then None else Some (fst r))
      | Some j \<Rightarrow> None)"

subsection \<open>Finding and obtaining the sourcemap\<close>

text \<open>
  The regular expression \<open>//[@#]\s*sourceMappingURL=(.*)\<close>: \<open>\s\<close> is tab, line feed,
  form feed, carriage return or space, and \<open>.\<close> is any character but a line feed. A match
  at the head of the string gives the captured group and the rest of the string after
  the match.
\<close>

definition regex_space :: "char \<Rightarrow> bool" where
  "regex_space c = (c = CHR 0x09 \<or> c = CHR 0x0A \<or> c = CHR 0x0C \<or> c = CHR 0x0D \<or> c = CHR '' '')"

definition match_sourceMappingURL :: "string \<Rightarrow> (string \<times> string) option" where
  "match_sourceMappingURL s =
     (case s of
        a # b # c # rest \<Rightarrow>
          (if a = slash \<and> b = slash \<and> (c = CHR ''@'' \<or> c = CHR ''#'') then
             (let r1 = dropWhile regex_space rest
              in if HasPrefix r1 ''sourceMappingURL='' then
                   (let r2 = drop 17 r1
                    in Some (takeWhile (\<lambda>x. x \<noteq> newline) r2, dropWhile (\<lambda>x. x \<noteq> newline) r2))
                 else None)
           else None)
      | short \<Rightarrow> None)"

lemma match_sourceMappingURL_shorter:
  assumes m: "match_sourceMappingURL s = Some (cap, rest)"
  shows "length rest < length s"
proof -
  from m obtain a b c tl where s: "s = a # b # c # tl"
    by (cases s rule: list.exhaust [case_product list.exhaust [case_product list.exhaust]])
       (auto simp add: match_sourceMappingURL_def split: list.splits)
  from m s have "rest = dropWhile (\<lambda>x. x \<noteq> newline) (drop 17 (dropWhile regex_space tl))"
    by (simp add: match_sourceMappingURL_def Let_def split: if_splits)
  moreover have "length (dropWhile (\<lambda>x. x \<noteq> newline) (drop 17 (dropWhile regex_space tl)))
      \<le> length (drop 17 (dropWhile regex_space tl))"
    by (rule length_dropWhile_le)
  moreover have "length (drop 17 (dropWhile regex_space tl)) \<le> length (dropWhile regex_space tl)"
    by simp
  moreover have "length (dropWhile regex_space tl) \<le> length tl"
    by (rule length_dropWhile_le)
  ultimately show ?thesis using s by simp
qed

text \<open>\<open>FindAllStringSubmatch\<close>: the matches from left to right, without overlap.\<close>

function find_all_matches :: "string \<Rightarrow> string list" where
  "find_all_matches [] = []"
| "find_all_matches (c # cs) =
     (case match_sourceMappingURL (c # cs) of
        Some (cap, rest) \<Rightarrow> cap # find_all_matches rest
      | None \<Rightarrow> find_all_matches cs)"
  by pat_completeness auto
termination
proof (relation "measure length")
  show "wf (measure length)" by simp
next
  fix c :: char and cs :: string
  show "(cs, c # cs) \<in> measure length" by simp
next
  fix c :: char and cs :: string and x2 :: "string \<times> string" and cap rest :: string
  assume "match_sourceMappingURL (c # cs) = Some x2" and "(cap, rest) = x2"
  then have "match_sourceMappingURL (c # cs) = Some (cap, rest)" by simp
  then have "length rest < length (c # cs)" by (rule match_sourceMappingURL_shorter)
  then show "(rest, c # cs) \<in> measure length" by simp
qed

definition findSourceMapURL :: "string \<Rightarrow> string" where
  "findSourceMapURL jsBody =
     (let matches = find_all_matches jsBody
      in if length matches > 0 then TrimSpace (last matches) else [])"

text \<open>
  What the stage meets outside itself: the rate-limited fetcher (\<open>Some content\<close> when
  \<open>success\<close> holds and \<open>err\<close> is nil), the JSON document of a byte string (\<open>None\<close> when
  the bytes are not JSON), base64 decoding, \<open>ToAbsoluteURL\<close> and \<open>RemoveQueryString\<close> of
  \<open>utils/url\<close>, which rest on \<open>net/url\<close> (\<open>None\<close> for their errors), the operating system, \<open>os.TempDir()\<close>, the
  SHA-256 digest, whether directories and files below the temporary directory and below
  the files path can be written, \<open>storage.GetJSFilePath\<close>, \<open>os.ReadFile\<close>, the host name
  of a URL (\<open>None\<close> when \<open>url.Parse\<close> fails), the files path of the configuration and
  \<open>FindRecordById\<close> on \<open>js_files\<close>.
\<close>

record sm_env =
  sm_fetch :: "string \<Rightarrow> string option"
  sm_json :: "string \<Rightarrow> json option"
  sm_base64 :: "string \<Rightarrow> string option"
  sm_ToAbsoluteURL :: "string \<Rightarrow> string \<Rightarrow> string option"
  sm_RemoveQueryString :: "string \<Rightarrow> string option"
  sm_windows :: bool
  sm_TempDir :: string
  sm_digest :: "string \<Rightarrow> string"
  sm_temp_ok :: "string \<Rightarrow> bool"
  sm_disk_ok :: "string \<Rightarrow> bool"
  sm_js_path :: "string \<Rightarrow> string \<Rightarrow> string option"
  sm_ReadFile :: "string \<Rightarrow> string option"
  sm_Hostname :: "string \<Rightarrow> string option"
  sm_filesPath :: string
  sm_FindRecordById :: "string \<Rightarrow> core_record option"

text \<open>
  \<open>url.DecodeDataURI\<close> (utils/url). \<open>strings.SplitN(dataURI, ",", 2)\<close> cuts the URI at
  its first comma into the header, which starts with \<open>data:\<close>, and the content; a URI
  without a comma is an error. \<open>base64\<close> is \<open>base64.StdEncoding.DecodeString\<close>.
\<close>

definition DecodeDataURI :: "(string \<Rightarrow> string option) \<Rightarrow> string \<Rightarrow> string option" where
  "DecodeDataURI base64 dataURI =
     (let header = takeWhile (\<lambda>c. c \<noteq> CHR '','') dataURI;
          rest = dropWhile (\<lambda>c. c \<noteq> CHR '','') dataURI
      in if rest = [] then None
         else (let content = tl rest;
                   isBase64 = Contains header '';base64''
               in if isBase64 then base64 content else Some content))"

definition fetchSourceMapContent :: "sm_env \<Rightarrow> string \<Rightarrow> string option" where
  "fetchSourceMapContent env mapURL =
     (case sm_fetch env mapURL of
        None \<Rightarrow> None
      | Some content \<Rightarrow>
          (if \<not> isValidSourceMapContent (sm_json env content) then None else Some content))"

definition getSourceMapContent :: "sm_env \<Rightarrow> string \<Rightarrow> string \<Rightarrow> string option" where
  "getSourceMapContent env sourceMapURL jsURL =
     (if HasPrefix sourceMapURL ''data:'' then DecodeDataURI (sm_base64 env) sourceMapURL
      else (case sm_ToAbsoluteURL env jsURL sourceMapURL of
              None \<Rightarrow> None
            | Some fullURL \<Rightarrow> fetchSourceMapContent env fullURL))"

definition tryFallbackMapURL :: "sm_env \<Rightarrow> string \<Rightarrow> string option" where
  "tryFallbackMapURL env jsURL =
     (case sm_RemoveQueryString env jsURL of
        None \<Rightarrow> None
      | Some cleanURL \<Rightarrow> fetchSourceMapContent env (cleanURL @ ''.map''))"

text \<open>
  Steps 1 and 2 of \<open>ProcessSourceMap\<close>: \<open>None\<close> stands for
  \<open>err != nil || sourceMapContent == nil\<close>.
\<close>

definition obtainSourceMapContent :: "sm_env \<Rightarrow> string \<Rightarrow> string \<Rightarrow> string option" where
  "obtainSourceMapContent env jsBody jsURL =
     (let sourceMapURL = findSourceMapURL jsBody
      in if sourceMapURL \<noteq> [] then
           (case getSourceMapContent env sourceMapURL jsURL of
              None \<Rightarrow> tryFallbackMapURL env jsURL
            | Some content \<Rightarrow> Some content)
         else tryFallbackMapURL env jsURL)"

subsection \<open>Extracting and saving the sources\<close>

record SourceFile =
  sf_Path :: string
  sf_OriginalPath :: string
  sf_Content :: string

text \<open>
  The loop of \<open>extractSourcesToTempDir\<close>: the source files so far and the temporary paths
  written so far; \<open>None\<close> is the error return.
\<close>

fun extract_loop ::
  "sm_env \<Rightarrow> string \<Rightarrow> string list \<Rightarrow> string list \<Rightarrow> nat \<Rightarrow> SourceFile list \<Rightarrow> string list \<Rightarrow>
   SourceFile list option \<times> string list" where
  "extract_loop env tempDir contents [] i sourceFiles temp = (Some sourceFiles, temp)"
| "extract_loop env tempDir contents (sourcePath # rest) i sourceFiles temp =
     (if i \<ge> length contents then extract_loop env tempDir contents rest (i + 1) sourceFiles temp
      else (let cleanPath = sanitizeSourcePath (sm_windows env) sourcePath;
                fullPath = Join [tempDir, cleanPath]
            in if \<not> sm_temp_ok env (Dir fullPath) \<or> \<not> sm_temp_ok env fullPath then (None, temp)
               else extract_loop env tempDir contents rest (i + 1)
                      (sourceFiles @ [\<lparr>sf_Path = cleanPath, sf_OriginalPath = sourcePath,
                                        sf_Content = contents ! i\<rparr>])
                      (temp @ [fullPath])))"

definition extractSourcesToTempDir ::
  "sm_env \<Rightarrow> string \<Rightarrow> string \<Rightarrow> SourceFile list option \<times> string list" where
  "extractSourcesToTempDir env sourceMapContent jsURL =
     (case unmarshal_SourceMap (sm_json env sourceMapContent) of
        None \<Rightarrow> (None, [])
      | Some sourceMap \<Rightarrow>
          (if length (Sources sourceMap) = 0 \<or> length (SourcesContent sourceMap) = 0
           then (None, [])
           else (let tempDir = Join [sm_TempDir env, ''sourcemaps'', sm_digest env jsURL]
                 in if \<not> sm_temp_ok env tempDir then (None, [])
                    else extract_loop env tempDir (SourcesContent sourceMap)
                           (Sources sourceMap) 0 [] [])))"

record SourceMapResult =
  Found :: bool
  SourceFiles :: "SourceFile list"

text \<open>\<open>ProcessSourceMap\<close>: the result, whether an error is returned, and the temporary paths written.\<close>

definition ProcessSourceMap ::
  "sm_env \<Rightarrow> string \<Rightarrow> string \<Rightarrow> SourceMapResult \<times> bool \<times> string list" where
  "ProcessSourceMap env jsBody jsURL =
     (case obtainSourceMapContent env jsBody jsURL of
        None \<Rightarrow> (\<lparr>Found = False, SourceFiles = []\<rparr>, False, [])
      | Some sourceMapContent \<Rightarrow>
          (case extractSourcesToTempDir env sourceMapContent jsURL of
             (None, temp) \<Rightarrow> (\<lparr>Found = False, SourceFiles = []\<rparr>, True, temp)
           | (Some sourceFiles, temp) \<Rightarrow>
               (\<lparr>Found = True, SourceFiles = sourceFiles\<rparr>, False, temp)))"

text \<open>
  The disk: the files below the files path with their content, the paths written there
  in order, and the paths written below the temporary directory.
\<close>

record disk =
  disk_files :: "string \<Rightarrow> string option"
  written :: "string list"
  temp_written :: "string list"

text \<open>\<open>saveSourceFile\<close>: whether it returns nil, and the disk.\<close>

definition saveSourceFile ::
  "sm_env \<Rightarrow> disk \<Rightarrow> string \<Rightarrow> SourceFile \<Rightarrow> string \<Rightarrow> bool \<times> disk" where
  "saveSourceFile env d domain sourceFile jsFileID =
     (case sm_FindRecordById env jsFileID of
        None \<Rightarrow> (False, d)
      | Some jsFileRecord \<Rightarrow>
          (let jsFileHash = GetString jsFileRecord ''hash''
           in if jsFileHash = [] then (False, d)
              else (let cleanedPath = CleanSourcePath (sf_Path sourceFile);
                        sourceFileDir = Join [sm_filesPath env, domain, jsFileHash, ''original'',
                                              Dir cleanedPath];
                        fullPath = saveSourceFile_fullPath (sm_filesPath env) domain jsFileHash
                                     (sf_Path sourceFile)
                    in if \<not> sm_disk_ok env sourceFileDir then (False, d)
                       else if disk_files d fullPath \<noteq> None then (True, d)
                       else if \<not> sm_disk_ok env fullPath then (False, d)
                       else (True, d\<lparr>disk_files := (disk_files d)(fullPath \<mapsto> sf_Content sourceFile),
                                      written := written d @ [fullPath]\<rparr>))))"

fun saveSourceFiles :: "sm_env \<Rightarrow> disk \<Rightarrow> string \<Rightarrow> SourceFile list \<Rightarrow> string \<Rightarrow> disk" where
  "saveSourceFiles env d domain [] jsFileID = d"
| "saveSourceFiles env d domain (sourceFile # rest) jsFileID =
     saveSourceFiles env (snd (saveSourceFile env d domain sourceFile jsFileID)) domain rest jsFileID"

text \<open>\<open>CleanPath\<close> and \<open>ExtractDomain\<close> of \<open>utils/filesystem\<close>.\<close>

definition CleanPath :: "string \<Rightarrow> string" where
  "CleanPath path =
     (if path = [] then ''unknown''
      else (let p1 = TrimPrefix path ''http://'';
                p2 = TrimPrefix p1 ''https://'';
                p3 = TrimPrefix p2 ''ftp://'';
                p4 = replace_invalid p3;
                p5 = collapse_dots p4;
                p6 = trim_dots_spaces p5;
                p7 = spaces_to_underscores p6
            in if p7 = [] \<or> p7 = ''.'' \<or> p7 = ''..'' then ''unknown''
               else if length p7 > 100 then take 100 p7 else p7))"

definition ExtractDomain :: "sm_env \<Rightarrow> string \<Rightarrow> string option" where
  "ExtractDomain env rawURL =
     (if rawURL = [] then None
      else (case sm_Hostname env rawURL of
              None \<Rightarrow> None
            | Some domain \<Rightarrow> (if domain = [] then None else Some (CleanPath domain))))"

text \<open>
  \<open>processJob\<close> of the Sourcemap pool: the record as it is handed to \<open>App.Save\<close>, and the
  disk.
\<close>

definition sourcemap_processJob :: "sm_env \<Rightarrow> disk \<Rightarrow> core_record \<Rightarrow> core_record \<times> disk" where
  "sourcemap_processJob env d jsFileRecord =
     (let bodyHash = GetString jsFileRecord ''hash'';
          fileURL = GetString jsFileRecord ''url'';
          failed = (Set jsFileRecord ''sourcemap_status'' (FStr ''failed''), d)
      in if bodyHash = [] \<or> fileURL = [] then failed
         else (case sm_js_path env fileURL bodyHash of
                 None \<Rightarrow> failed
               | Some filePath \<Rightarrow>
                   (case sm_ReadFile env filePath of
                      None \<Rightarrow> failed
                    | Some jsContent \<Rightarrow>
                        (case ExtractDomain env fileURL of
                           None \<Rightarrow> failed
                         | Some domain \<Rightarrow>
                             (case ProcessSourceMap env jsContent fileURL of
                                (result, err, temp) \<Rightarrow>
                                  (let d1 = d\<lparr>temp_written := temp_written d @ temp\<rparr>
                                   in if err
                                      then (Set jsFileRecord ''sourcemap_status'' (FStr ''processed''),
                                            d1)
                                      else (Set jsFileRecord ''sourcemap_status'' (FStr ''processed''),
                                            saveSourceFiles env d1 domain (SourceFiles result)
                                              (rid jsFileRecord))))))))"

text \<open>
  What the specification asks of sourcemap bytes: they parse as JSON, an object with
  a member \<open>version\<close> that is a number at least 1 and a member \<open>sources\<close> that is an array.
\<close>

definition number_value :: "jnumber \<Rightarrow> rat" where
  "number_value n = (case n of IntLit i \<Rightarrow> of_int i | FracLit q \<Rightarrow> q)"

definition spec_valid_sourcemap :: "json option \<Rightarrow> bool" where
  "spec_valid_sourcemap doc =
     (\<exists>ms v srcs. doc = Some (JObj ms) \<and> map_of (rev ms) ''version'' = Some (JNum v) \<and>
        1 \<le> number_value v \<and> map_of (rev ms) ''sources'' = Some (JArr srcs))"

text \<open>
  A job for examples: the file of \<open>app.js\<close> ends with a comment that carries a sourcemap
  as a \<open>data:\<close> URI, \<open>{"sources":["a.js"],"sourcesContent":["x"]}\<close>, which has no
  \<open>version\<close>. Nothing can be fetched.
\<close>

definition quoted :: "string \<Rightarrow> string" where
  "quoted s = CHR 0x22 # s @ [CHR 0x22]"

definition example_map_bytes :: string where
  "example_map_bytes =
     ''{'' @ quoted ''sources'' @ '':['' @ quoted ''a.js'' @ ''],'' @
     quoted ''sourcesContent'' @ '':['' @ quoted ''x'' @ '']}''"

definition example_map_json :: json where
  "example_map_json =
     JObj [(''sources'', JArr [JStr ''a.js'']), (''sourcesContent'', JArr [JStr ''x''])]"

definition example_js_body :: string where
  "example_js_body =
     ''console.log(1);'' @ [newline] @
     ''//# sourceMappingURL=data:application/json,'' @ example_map_bytes @ [newline]"

definition example_sm_env :: sm_env where
  "example_sm_env =
     \<lparr>sm_fetch = (\<lambda>url. None),
      sm_json = (\<lambda>bytes. if bytes = example_map_bytes then Some example_map_json else None),
      sm_base64 = (\<lambda>s. None),
      sm_ToAbsoluteURL = (\<lambda>base rel. Some rel),
      sm_RemoveQueryString = (\<lambda>url. Some url),
      sm_windows = False,
      sm_TempDir = ''/tmp'',
      sm_digest = example_digest,
      sm_temp_ok = (\<lambda>path. True),
      sm_disk_ok = (\<lambda>path. True),
      sm_js_path = (\<lambda>url hash. Some (''/data/files/example.test/'' @ hash @ ''/app.js'')),
      sm_ReadFile = (\<lambda>path. Some example_js_body),
      sm_Hostname = (\<lambda>url. Some ''example.test''),
      sm_filesPath = ''/data/files'',
      sm_FindRecordById = (\<lambda>id. Some \<lparr>rid = id, vals = [''hash'' \<mapsto> FStr ''h1'']\<rparr>)\<rparr>"

definition example_sm_record :: core_record where
  "example_sm_record = \<lparr>rid = ''js1'', vals =
     [''url'' \<mapsto> FStr ''http://example.test/app.js'', ''hash'' \<mapsto> FStr ''h1'',
      ''sourcemap_status'' \<mapsto> FStr ''processing'']\<rparr>"

definition empty_disk :: disk where
  "empty_disk = \<lparr>disk_files = (\<lambda>path. None), written = [], temp_written = []\<rparr>"

text \<open>
  A second job for examples: the file has no sourcemap comment, and every fetch answers
  with a page that is not JSON.
\<close>

definition example_plain_body :: string where
  "example_plain_body = ''console.log(1);''"

definition example_sm_env2 :: sm_env where
  "example_sm_env2 =
     example_sm_env\<lparr>sm_fetch := (\<lambda>url. Some ''<html>not found</html>''),
                    sm_ReadFile := (\<lambda>path. Some example_plain_body)\<rparr>"

text \<open>
  A third job for examples: the file has no sourcemap comment, and the fallback
  \<open>app.js.map\<close> is a sourcemap whose one source is \<open>a/../../../../etc/passwd\<close>.
\<close>

definition example_traversal_bytes :: string where
  "example_traversal_bytes =
     ''{'' @ quoted ''version'' @ '':3,'' @ quoted ''sources'' @ '':['' @
     quoted ''a/../../../../etc/passwd'' @ ''],'' @
     quoted ''sourcesContent'' @ '':['' @ quoted ''x'' @ '']}''"

definition example_traversal_json :: json where
  "example_traversal_json =
     JObj [(''version'', JNum (IntLit 3)),
           (''sources'', JArr [JStr ''a/../../../../etc/passwd'']),
           (''sourcesContent'', JArr [JStr ''x''])]"

definition example_sm_env3 :: sm_env where
  "example_sm_env3 =
     example_sm_env2
       \<lparr>sm_fetch := (\<lambda>url. if url = ''http://example.test/app.js.map''
                             then Some example_traversal_bytes else None),
        sm_json := (\<lambda>bytes. if bytes = example_traversal_bytes
                              then Some example_traversal_json else None),
        sm_digest := (\<lambda>url. ''9c1e5f2b'')\<rparr>"

section \<open>HTML structural hash (utils/html, GenerateHTMLHash)\<close>

subsection \<open>Documents\<close>

text \<open>
  The nodes of \<open>golang.org/x/net/html\<close> as they are reached through \<open>FirstChild\<close> and
  \<open>NextSibling\<close>: an element with its tag (\<open>Data\<close>), its attributes (\<open>Namespace\<close>, \<open>Key\<close>,
  \<open>Val\<close>) and its children, a text node, a comment, a doctype. A document is the list of
  the children of its document node.
\<close>

datatype attribute = Attribute (attr_ns: string) (attr_key: string) (attr_val: string)

datatype node =
    ElementNode string "attribute list" "node list"
  | TextNode string
  | CommentNode string
  | DoctypeNode string "attribute list"

type_synonym document = "node list"

text \<open>
  \<open>doc.Find(sel).Remove()\<close> for a group of tag selectors: a tag selector matches the
  elements whose \<open>Data\<close> is the tag, whatever their place below the document node, and
  \<open>Remove\<close> unlinks every match from its parent. \<open>Find("comment")\<close> is such a selector:
  it matches the elements \<open><comment>\<close>, and no comment node.
\<close>

definition matches_tag :: "string list \<Rightarrow> node \<Rightarrow> bool" where
  "matches_tag tags n = (case n of ElementNode t as cs \<Rightarrow> t \<in> set tags | _ \<Rightarrow> False)"

fun Remove_in :: "string list \<Rightarrow> node \<Rightarrow> node" where
  "Remove_in tags (ElementNode t as cs) =
     ElementNode t as (filter (\<lambda>c. \<not> matches_tag tags c) (map (Remove_in tags) cs))"
| "Remove_in tags n = n"

definition Find_Remove :: "string list \<Rightarrow> document \<Rightarrow> document" where
  "Find_Remove tags doc = filter (\<lambda>c. \<not> matches_tag tags c) (map (Remove_in tags) doc)"

text \<open>
  The first \<open>Each\<close> over \<open>Find("*")\<close>: on every element the attributes are cleared and
  those with the key \<open>href\<close> or \<open>src\<close> are set again with \<open>SetAttr\<close> of goquery, which
  overwrites the value of the first attribute with this key and appends an attribute
  without namespace when there is none.
\<close>

fun SetAttr :: "string \<Rightarrow> string \<Rightarrow> attribute list \<Rightarrow> attribute list" where
  "SetAttr attrName val [] = [Attribute [] attrName val]"
| "SetAttr attrName val (a # as) =
     (if attr_key a = attrName then Attribute (attr_ns a) (attr_key a) val # as
      else a # SetAttr attrName val as)"

definition keep_href_src :: "attribute list \<Rightarrow> attribute list" where
  "keep_href_src attrs =
     fold (\<lambda>attr kept. if attr_key attr = ''href'' \<or> attr_key attr = ''src''
                        then SetAttr (attr_key attr) (attr_val attr) kept else kept)
       attrs []"

fun clear_attributes :: "node \<Rightarrow> node" where
  "clear_attributes (ElementNode t as cs) =
     ElementNode t (keep_href_src as) (map clear_attributes cs)"
| "clear_attributes n = n"

text \<open>
  \<open>Text()\<close> of goquery on the selection of one node.
\<close>

fun getNodeText :: "node \<Rightarrow> string" where
  "getNodeText (TextNode d) = d"
| "getNodeText (ElementNode t as cs) = concat (map getNodeText cs)"
| "getNodeText n = []"

text \<open>
  The three regular expressions, matched at the start of a string: the rest after the
  match, \<open>None\<close> when there is none. \<open>[0-9a-f]{8}-[0-9a-f]{4}-[0-9a-f]{4}-[0-9a-f]{4}-[0-9a-f]{12}\<close>,
  \<open>\d{4}-\d{2}-\d{2}T?\d{2}:\d{2}:\d{2}(Z|[+-]\d{2}:\d{2})?\<close> and \<open>nonce-[0-9a-f]+\<close>;
  \<open>\d\<close> is an ASCII digit, and the optional and repeated parts are greedy.
\<close>

definition is_digit :: "char \<Rightarrow> bool" where
  "is_digit c = (48 \<le> (of_char c :: nat) \<and> (of_char c :: nat) \<le> 57)"

definition is_hex :: "char \<Rightarrow> bool" where
  "is_hex c = (is_digit c \<or> (97 \<le> (of_char c :: nat) \<and> (of_char c :: nat) \<le> 102))"

fun take_class :: "(char \<Rightarrow> bool) \<Rightarrow> nat \<Rightarrow> string \<Rightarrow> string option" where
  "take_class P 0 s = Some s"
| "take_class P (Suc n) [] = None"
| "take_class P (Suc n) (c # cs) = (if P c then take_class P n cs else None)"

definition take_char :: "char \<Rightarrow> string \<Rightarrow> string option" where
  "take_char c s = (case s of [] \<Rightarrow> None | x # xs \<Rightarrow> (if x = c then Some xs else None))"

definition match_uuid :: "string \<Rightarrow> string option" where
  "match_uuid s =
     Option.bind (take_class is_hex 8 s) (\<lambda>s.
     Option.bind (take_char CHR ''-'' s) (\<lambda>s.
     Option.bind (take_class is_hex 4 s) (\<lambda>s.
     Option.bind (take_char CHR ''-'' s) (\<lambda>s.
     Option.bind (take_class is_hex 4 s) (\<lambda>s.
     Option.bind (take_char CHR ''-'' s) (\<lambda>s.
     Option.bind (take_class is_hex 4 s) (\<lambda>s.
     Option.bind (take_char CHR ''-'' s) (\<lambda>s.
     take_class is_hex 12 s))))))))"

definition match_clock :: "string \<Rightarrow> string option" where
  "match_clock s =
     Option.bind (take_class is_digit 2 s) (\<lambda>s.
     Option.bind (take_char CHR '':'' s) (\<lambda>s.
     take_class is_digit 2 s))"

definition match_zone :: "string \<Rightarrow> string" where
  "match_zone s =
     (case s of
        [] \<Rightarrow> s
      | c # cs \<Rightarrow>
          (if c = CHR ''Z'' then cs
           else if c = CHR ''+'' \<or> c = CHR ''-''
                then (case match_clock cs of None \<Rightarrow> s | Some rest \<Rightarrow> rest)
                else s))"

definition match_iso_date :: "string \<Rightarrow> string option" where
  "match_iso_date s =
     Option.bind (take_class is_digit 4 s) (\<lambda>s.
     Option.bind (take_char CHR ''-'' s) (\<lambda>s.
     Option.bind (take_class is_digit 2 s) (\<lambda>s.
     Option.bind (take_char CHR ''-'' s) (\<lambda>s.
     Option.bind (take_class is_digit 2 s) (\<lambda>s.
     Option.bind (match_clock (case take_char CHR ''T'' s of None \<Rightarrow> s | Some rest \<Rightarrow> rest)) (\<lambda>s.
     Option.bind (take_char CHR '':'' s) (\<lambda>s.
     Option.bind (take_class is_digit 2 s) (\<lambda>s.
     Some (match_zone s)))))))))"

definition match_nonce :: "string \<Rightarrow> string option" where
  "match_nonce s =
     (if HasPrefix s ''nonce-'' \<and> takeWhile is_hex (drop 6 s) \<noteq> []
      then Some (dropWhile is_hex (drop 6 s)) else None)"

text \<open>
  \<open>ReplaceAllString(text, "")\<close>: the matches are searched from left to right and do not
  overlap; \<open>skip\<close> counts the bytes of a match that remain to be dropped. None of the
  three expressions matches the empty string.
\<close>

fun remove_matches :: "(string \<Rightarrow> string option) \<Rightarrow> nat \<Rightarrow> string \<Rightarrow> string" where
  "remove_matches m skip [] = []"
| "remove_matches m skip (c # cs) =
     (if 0 < skip then remove_matches m (skip - 1) cs
      else (case m (c # cs) of
              None \<Rightarrow> c # remove_matches m 0 cs
            | Some rest \<Rightarrow> remove_matches m (length cs - length rest) cs))"

definition scrub :: "string \<Rightarrow> string" where
  "scrub text =
     remove_matches match_nonce 0
       (remove_matches match_iso_date 0
          (remove_matches match_uuid 0 text))"

text \<open>
  The second \<open>Each\<close> over \<open>Find("*")\<close> visits the elements in document order, a parent
  before its children. A visit reads the text of the element and sets its \<open>FirstChild\<close>
  to a new text node, which has no sibling: from then on the element has this one child.
  The former children are visited later, but no node of the document leads to them any
  more, so the document after the loop is the document before it with the children of
  every element below the document node replaced.
\<close>

definition replace_children :: "node \<Rightarrow> node" where
  "replace_children n =
     (case n of
        ElementNode t as cs \<Rightarrow> ElementNode t as [TextNode (scrub (getNodeText n))]
      | _ \<Rightarrow> n)"

text \<open>
  What the function meets outside itself: the parser behind
  \<open>goquery.NewDocumentFromReader\<close> (\<open>None\<close> for its error), \<open>html.Render\<close> on one node
  (\<open>None\<close> for its error), and the SHA-256 digest in hexadecimal.
\<close>

record html_env =
  h_Parse :: "string \<Rightarrow> document option"
  h_Render :: "node \<Rightarrow> string option"
  h_sha256 :: "string \<Rightarrow> string"

text \<open>
  \<open>doc.Html()\<close> renders the children of the document node one after the other.
\<close>

fun Html :: "(node \<Rightarrow> string option) \<Rightarrow> document \<Rightarrow> string option" where
  "Html render [] = Some []"
| "Html render (c # cs) =
     (case render c of
        None \<Rightarrow> None
      | Some s \<Rightarrow> (case Html render cs of None \<Rightarrow> None | Some rest \<Rightarrow> Some (s @ rest)))"

text \<open>
  \<open>strings.Fields\<close>: the pieces between the runs of white space runes; \<open>skip\<close> counts
  the bytes of a white space rune that remain to be passed over.
\<close>

fun fields_from :: "nat \<Rightarrow> string \<Rightarrow> string \<Rightarrow> string list" where
  "fields_from skip field [] = (if field = [] then [] else [field])"
| "fields_from skip field (c # cs) =
     (if 0 < skip then fields_from (skip - 1) field cs
      else if 0 < prefix_length unicode_spaces (c # cs)
           then (if field = []
                 then fields_from (prefix_length unicode_spaces (c # cs) - 1) [] cs
                 else field # fields_from (prefix_length unicode_spaces (c # cs) - 1) [] cs)
           else fields_from 0 (field @ [c]) cs)"

definition Fields :: "string \<Rightarrow> string list" where
  "Fields s = fields_from 0 [] s"

subsection \<open>The hash\<close>

datatype hash_error = ParseError | RenderError

definition normalize_document :: "document \<Rightarrow> document" where
  "normalize_document doc =
     (let doc1 = Find_Remove [''comment''] doc;
          doc2 = Find_Remove [''script'', ''style'', ''meta''] doc1;
          doc3 = map clear_attributes doc2
      in map replace_children doc3)"

definition GenerateHTMLHash :: "html_env \<Rightarrow> string \<Rightarrow> hash_error + string" where
  "GenerateHTMLHash env htmlContent =
     (case h_Parse env htmlContent of
        None \<Rightarrow> Inl ParseError
      | Some doc \<Rightarrow>
          (case Html (h_Render env) (normalize_document doc) of
             None \<Rightarrow> Inl RenderError
           | Some normalized \<Rightarrow>
               Inr (h_sha256 env (join_with CHR '' '' (Fields (TrimSpace normalized))))))"

subsection \<open>Edits of a document\<close>

text \<open>
  Edits of a document: a \<open>script\<close> element is removed or moved along its siblings, an
  attribute with a key other than \<open>href\<close> and \<open>src\<close> is added, removed or replaced by
  another such attribute, on the document node's children or below any element.
\<close>

definition is_script :: "node \<Rightarrow> bool" where
  "is_script n = matches_tag [''script''] n"

definition other_attribute :: "attribute \<Rightarrow> bool" where
  "other_attribute a = (attr_key a \<noteq> ''href'' \<and> attr_key a \<noteq> ''src'')"

inductive attr_edit :: "attribute list \<Rightarrow> attribute list \<Rightarrow> bool" where
  add: "other_attribute a \<Longrightarrow> attr_edit (xs @ ys) (xs @ a # ys)"
| remove: "other_attribute a \<Longrightarrow> attr_edit (xs @ a # ys) (xs @ ys)"
| change: "other_attribute a \<Longrightarrow> other_attribute b \<Longrightarrow> attr_edit (xs @ a # ys) (xs @ b # ys)"

inductive html_edit :: "document \<Rightarrow> document \<Rightarrow> bool" where
  remove_script: "is_script n \<Longrightarrow> html_edit (xs @ n # ys) (xs @ ys)"
| move_script: "is_script n \<Longrightarrow> html_edit (xs @ n # ms @ ys) (xs @ ms @ n # ys)"
| attributes: "attr_edit as as' \<Longrightarrow>
     html_edit (xs @ ElementNode t as cs # ys) (xs @ ElementNode t as' cs # ys)"
| below: "html_edit cs cs' \<Longrightarrow>
     html_edit (xs @ ElementNode t as cs # ys) (xs @ ElementNode t as cs' # ys)"

subsection \<open>Examples\<close>

text \<open>
  A renderer for the examples, after \<open>html.Render\<close>: text is escaped, an attribute is
  written with its value in double quotes, a void element must have no child and is
  closed in its opening tag, the text below \<open>script\<close>, \<open>style\<close> and the other raw text
  elements is written as it is, and \<open>pre\<close>, \<open>listing\<close> and \<open>textarea\<close> get a line feed
  when their text starts with one. Namespaces and the identifiers of a doctype are left
  out: a doctype with attributes is answered with an error.
\<close>

definition escape :: "string \<Rightarrow> string" where
  "escape s =
     concat (map (\<lambda>c. if c = CHR ''&'' then ''&amp;''
                        else if c = CHR 0x27 then ''&#39;''
                        else if c = CHR ''<'' then ''&lt;''
                        else if c = CHR ''>'' then ''&gt;''
                        else if c = CHR 0x22 then ''&#34;''
                        else if c = CHR 0x0D then ''&#13;''
                        else [c]) s)"

definition voidElements :: "string list" where
  "voidElements =
     [''area'', ''base'', ''br'', ''col'', ''embed'', ''hr'', ''img'', ''input'', ''keygen'',
      ''link'', ''meta'', ''param'', ''source'', ''track'', ''wbr'']"

definition literal_elements :: "string list" where
  "literal_elements =
     [''iframe'', ''noembed'', ''noframes'', ''noscript'', ''plaintext'', ''script'', ''style'',
      ''xmp'']"

definition render_attribute :: "attribute \<Rightarrow> string" where
  "render_attribute a =
     '' '' @ (if attr_ns a \<noteq> [] then attr_ns a @ '':'' else []) @ attr_key a @
     ''='' @ [CHR 0x22] @ escape (attr_val a) @ [CHR 0x22]"

definition starts_with_newline :: "node list \<Rightarrow> bool" where
  "starts_with_newline cs =
     (case cs of TextNode d # rest \<Rightarrow> HasPrefix d [newline] | _ \<Rightarrow> False)"

fun render_node :: "node \<Rightarrow> string option" where
  "render_node (TextNode d) = Some (escape d)"
| "render_node (CommentNode d) = Some (''<!--'' @ d @ ''-->'')"
| "render_node (DoctypeNode d as) =
     (if as = [] then Some (''<!DOCTYPE '' @ escape d @ ''>'') else None)"
| "render_node (ElementNode t as cs) =
     (let opening = ''<'' @ t @ concat (map render_attribute as)
      in if t \<in> set voidElements
         then (if cs \<noteq> [] then None else Some (opening @ ''/>''))
         else (case those (map (\<lambda>c. case c of
                                       TextNode d \<Rightarrow>
                                         (if t \<in> set literal_elements then Some d
                                          else render_node c)
                                     | _ \<Rightarrow> render_node c) cs) of
                 None \<Rightarrow> None
               | Some rendered \<Rightarrow>
                   Some (opening @ ''>'' @
                         (if starts_with_newline cs \<and> t \<in> set [''pre'', ''listing'', ''textarea'']
                          then [newline] else []) @
                         concat rendered @ ''</'' @ t @ ''>'')))"

text \<open>
  Two pages, and the documents the parser builds for them. The second page is the
  first with the script moved from the head to the end of the body and the attribute
  of \<open>body\<close> changed.
\<close>

definition example_script :: node where
  "example_script = ElementNode ''script'' [] [TextNode ''var a = 1;'']"

definition example_title :: node where
  "example_title = ElementNode ''title'' [] [TextNode ''Shop'']"

definition example_link :: node where
  "example_link =
     ElementNode ''a'' [Attribute [] ''href'' ''/cart'', Attribute [] ''id'' ''c1'']
       [TextNode ''Cart  of 123e4567-e89b-12d3-a456-426614174000 at 2024-05-06T07:08:09Z'']"

definition example_html1 :: string where
  "example_html1 =
     ''<!DOCTYPE html><html lang=en><head><script>var a = 1;</script><title>Shop</title></head>'' @
     ''<body class=home><a href=/cart id=c1>'' @
     ''Cart  of 123e4567-e89b-12d3-a456-426614174000 at 2024-05-06T07:08:09Z'' @
     ''</a></body></html>''"

definition example_page1 :: document where
  "example_page1 =
     [DoctypeNode ''html'' [],
      ElementNode ''html'' [Attribute [] ''lang'' ''en'']
        [ElementNode ''head'' [] [example_script, example_title],
         ElementNode ''body'' [Attribute [] ''class'' ''home''] [example_link]]]"

definition example_html2 :: string where
  "example_html2 =
     ''<!DOCTYPE html><html lang=en><head><title>Shop</title></head>'' @
     ''<body id=main><a href=/cart id=c1>'' @
     ''Cart  of 123e4567-e89b-12d3-a456-426614174000 at 2024-05-06T07:08:09Z'' @
     ''</a><script>var a = 1;</script></body></html>''"

definition example_page2 :: document where
  "example_page2 =
     [DoctypeNode ''html'' [],
      ElementNode ''html'' [Attribute [] ''lang'' ''en'']
        [ElementNode ''head'' [] [example_title],
         ElementNode ''body'' [Attribute [] ''id'' ''main''] [example_link, example_script]]]"

text \<open>
  A page with a script followed by a space before \<open><body>\<close>, and the same page
  without the script. While the parser is in the head, after the script, it keeps white
  space as a text node of \<open>head\<close>; before the head it drops white space. So the two
  documents differ by the script and by a text node.
\<close>

definition example_html3 :: string where
  "example_html3 = ''<html><script>var a;</script> <body>hello</body></html>''"

definition example_page3 :: document where
  "example_page3 =
     [ElementNode ''html'' []
        [ElementNode ''head'' [] [ElementNode ''script'' [] [TextNode ''var a;''], TextNode '' ''],
         ElementNode ''body'' [] [TextNode ''hello'']]]"

definition example_html4 :: string where
  "example_html4 = ''<html> <body>hello</body></html>''"

definition example_page4 :: document where
  "example_page4 =
     [ElementNode ''html'' []
        [ElementNode ''head'' [] [],
         ElementNode ''body'' [] [TextNode ''hello'']]]"

text \<open>
  The environment of the examples: the parser on the four pages, the renderer above, and
  the digest of the examples in the place of SHA-256.
\<close>

definition example_html_env :: html_env where
  "example_html_env =
     \<lparr>h_Parse = (\<lambda>s. if s = example_html1 then Some example_page1
                     else if s = example_html2 then Some example_page2
                     else if s = example_html3 then Some example_page3
                     else if s = example_html4 then Some example_page4
                     else None),
      h_Render = render_node,
      h_sha256 = example_digest\<rparr>"

text \<open>The document after the removals and the clearing of attributes.\<close>

definition prepared :: "document \<Rightarrow> document" where
  "prepared doc =
     map clear_attributes
       (Find_Remove [''script'', ''style'', ''meta''] (Find_Remove [''comment''] doc))"

chapter \<open>Properties\<close>

section \<open>Line counting\<close>

lemma bytes_Count_append: "bytes_Count (xs @ ys) = bytes_Count xs + bytes_Count ys"
  by (simp add: bytes_Count_def)

lemma countLines_loop_plain:
  "plain_reads reads \<Longrightarrow>
   countLines_loop reads (n, l) =
     (let bs = file_bytes reads
      in Inr (n + bytes_Count bs +
              (if (if bs = [] then l else last bs = newline) then 0 else 1)))"
proof (induction reads arbitrary: n l)
  case Nil
  then show ?case
    by (simp add: file_bytes_def countLines_finish_def bytes_Count_def)
next
  case (Cons r reads)
  obtain bs e where r: "r = (bs, e)" by (cases r)
  from Cons.prems r have e: "e = NoErr" and rest: "plain_reads reads"
    by (simp_all add: plain_reads_def)
  show ?case
  proof (cases "bs = []")
    case True
    with Cons.IH [OF rest, of n l] r e show ?thesis
      by (simp add: countLines_chunk_def file_bytes_def)
  next
    case False
    with Cons.IH [OF rest, of "n + bytes_Count bs" "last bs = newline"] r e show ?thesis
      by (simp add: countLines_chunk_def file_bytes_def bytes_Count_append Let_def)
  qed
qed

text \<open>
  C9. For every file, read in any sequence of chunks, \<open>countLines\<close> returns the number of
  newline bytes of the file, plus one when the file is non-empty and its last byte is not
  a newline; for the empty file this is 0.
\<close>

theorem countLines_counts_newlines:
  "plain_reads reads \<Longrightarrow> countLines (Some reads) = Inr (spec_line_count (file_bytes reads))"
  by (simp add: countLines_def countLines_loop_plain spec_line_count_def Let_def)

theorem countLines_counts_newlines_witness:
  "plain_reads [(''a'' @ [newline] @ ''b'', NoErr), ([newline] @ ''cd'', NoErr)] \<and>
   countLines (Some [(''a'' @ [newline] @ ''b'', NoErr), ([newline] @ ''cd'', NoErr)]) = Inr 3 \<and>
   countLines (Some []) = Inr 0"
proof -
  have p: "plain_reads [(''a'' @ [newline] @ ''b'', NoErr), ([newline] @ ''cd'', NoErr)]"
    by (simp add: plain_reads_def)
  have q: "plain_reads []"
    by (simp add: plain_reads_def)
  show ?thesis
    using p countLines_counts_newlines [OF p] countLines_counts_newlines [OF q]
    by (simp add: spec_line_count_def file_bytes_def bytes_Count_def newline_def)
qed

section \<open>Findings\<close>

lemma clampLine_max: "clampLine l = max l 1"
  by (simp add: clampLine_def max_def)

lemma convertToFindings_lines:
  "map (\<lambda>f. (Line f, Data f ''original_line'')) (convertToFindings result) =
   map (\<lambda>raw. (max raw 1, Some (FInt raw))) (raw_lines result)"
  by (simp add: convertToFindings_def raw_lines_def clampLine_max convertURL_def
      convertGQL_def convertDomXSS_def convertEvent_def convertHttp_def httpData_def Let_def)

lemma saveFindings_rows:
  "row \<in> set (snd (saveFindings coll_ok save_ok jsFileID now findings)) \<Longrightarrow>
   \<exists>f \<in> set findings. row_line row = Line f \<and> row_metadata row = Data f"
  by (auto simp add: saveFindings_def newFindingRow_def Let_def split: if_splits)

text \<open>
  C4. The findings built from an analyzer result carry, element by element, the line
  \<open>max raw_line 1\<close> and the metadata entry \<open>original_line = raw_line\<close>; every row that
  \<open>saveFindings\<close> persists from them has such a line and such an entry for the raw line
  of some reported element, so its line is at least 1.
\<close>

theorem persisted_finding_line_clamped:
  "map (\<lambda>f. (Line f, Data f ''original_line'')) (convertToFindings result) =
     map (\<lambda>raw. (max raw 1, Some (FInt raw))) (raw_lines result) \<and>
   (\<forall>row \<in> set (snd (saveFindings coll_ok save_ok jsFileID now (convertToFindings result))).
      (\<exists>raw \<in> set (raw_lines result).
         row_line row = max raw 1 \<and> row_metadata row ''original_line'' = Some (FInt raw)) \<and>
      row_line row \<ge> 1)"
proof (intro conjI ballI)
  show "map (\<lambda>f. (Line f, Data f ''original_line'')) (convertToFindings result) =
     map (\<lambda>raw. (max raw 1, Some (FInt raw))) (raw_lines result)"
    by (rule convertToFindings_lines)
next
  fix row
  assume "row \<in> set (snd (saveFindings coll_ok save_ok jsFileID now (convertToFindings result)))"
  then obtain f where f: "f \<in> set (convertToFindings result)"
    and r: "row_line row = Line f" "row_metadata row = Data f"
    using saveFindings_rows by blast
  from f have "(Line f, Data f ''original_line'') \<in>
      set (map (\<lambda>f. (Line f, Data f ''original_line'')) (convertToFindings result))"
    by (simp add: image_iff) blast
  then have "(Line f, Data f ''original_line'') \<in>
      set (map (\<lambda>raw. (max raw 1, Some (FInt raw))) (raw_lines result))"
    by (simp only: convertToFindings_lines)
  then obtain raw where raw: "raw \<in> set (raw_lines result)"
    "Line f = max raw 1" "Data f ''original_line'' = Some (FInt raw)"
    by auto
  with r show "\<exists>raw \<in> set (raw_lines result).
         row_line row = max raw 1 \<and> row_metadata row ''original_line'' = Some (FInt raw)"
    by auto
  from raw r show "row_line row \<ge> 1"
    by simp
qed

theorem persisted_finding_line_clamped_witness:
  "map (\<lambda>row. (row_line row, row_metadata row ''original_line''))
     (snd (saveFindings True (\<lambda>row. True) ''js1'' 0
       (convertToFindings
          \<lparr>URLs = [\<lparr>url_Value = ''/api'', url_Line = 0, url_Column = 4, url_Type = ''path'',
                     url_Metadata = None\<rparr>],
           GQL = [], DomXSS = [],
           Events = [\<lparr>ev_Value = ''click'', ev_Line = 7, ev_Column = 2,
                       ev_Type = ''listener''\<rparr>],
           HttpAPI = []\<rparr>)))
   = [(1, Some (FInt 0)), (7, Some (FInt 7))]"
  using persisted_finding_line_clamped [of
      "\<lparr>URLs = [\<lparr>url_Value = ''/api'', url_Line = 0, url_Column = 4, url_Type = ''path'',
                   url_Metadata = None\<rparr>],
         GQL = [], DomXSS = [],
         Events = [\<lparr>ev_Value = ''click'', ev_Line = 7, ev_Column = 2, ev_Type = ''listener''\<rparr>],
         HttpAPI = []\<rparr>" True "\<lambda>row. True" "''js1''" 0]
  by (simp add: raw_lines_def saveFindings_def convertToFindings_def convertURL_def
      convertEvent_def newFindingRow_def clampLine_def)

section \<open>The Prettify job\<close>

lemma prettify_processJob_returns_with_record:
  "Record job = Some r \<Longrightarrow> \<exists>saved. prettify_processJob env job = Returned saved"
  by (simp add: prettify_processJob_def Let_def)

text \<open>
  C10 asks that \<open>processJob\<close> return for every job, also for one whose \<open>Record\<close> is nil.
  At a job with a nil record, a file path and a failing prettifier the function panics:
  the log call of the failure branch reads \<open>job.Record.Get("url")\<close> before the branch
  tests \<open>job.Record != nil\<close>.
\<close>

theorem prettify_processJob_nil_record_panics:
  "prettify_processJob
     \<lparr>prettifyFile_ok = (\<lambda>path type. False), countLines_of = (\<lambda>path. Inr 0), time_Now = 0\<rparr>
     \<lparr>Record = None, FilePath = ''/files/example.test/ab12/index.html'', job_Type = ''html''\<rparr>
   = Panicked NilPointerDereference"
  by (simp add: prettify_processJob_def)

section \<open>Submitting to a pool\<close>

lemma SubmitJob_room:
  "accepting p \<Longrightarrow> length (jobQueue p) < capacity p \<Longrightarrow>
   SubmitJob pick p job = Returned (None, p\<lparr>jobQueue := jobQueue p @ [job]\<rparr>)"
  by (simp add: SubmitJob_def accepting_def send_ready_def do_send_def)

lemma SubmitJob_full:
  "accepting p \<Longrightarrow> capacity p \<le> length (jobQueue p) \<Longrightarrow>
   SubmitJob pick p job = Returned (Some QueueFull, p)"
  by (simp add: SubmitJob_def accepting_def send_ready_def do_send_def)

lemma SubmitJob_not_running:
  "\<not> isRunning p \<Longrightarrow> SubmitJob pick p job = Returned (Some NotRunning, p)"
  by (simp add: SubmitJob_def)

lemma AddJob_unchecked_room:
  "accepting p \<Longrightarrow> length (jobQueue p) < capacity p \<Longrightarrow>
   AddJob_unchecked (Some p) job = Returned (None, Some (p\<lparr>jobQueue := jobQueue p @ [job]\<rparr>))"
  by (simp add: AddJob_unchecked_def accepting_def send_ready_def do_send_def)

lemma AddJob_unchecked_full:
  "accepting p \<Longrightarrow> capacity p \<le> length (jobQueue p) \<Longrightarrow>
   AddJob_unchecked (Some p) job = Returned (Some QueueFull, Some p)"
  by (simp add: AddJob_unchecked_def accepting_def send_ready_def do_send_def)

lemma AddJob_checked_room:
  "accepting p \<Longrightarrow> length (jobQueue p) < capacity p \<Longrightarrow>
   AddJob_checked pick (Some p) job = Returned (None, Some (p\<lparr>jobQueue := jobQueue p @ [job]\<rparr>))"
  by (simp add: AddJob_checked_def SubmitJob_room) (simp add: accepting_def)

lemma AddJob_checked_full:
  "accepting p \<Longrightarrow> capacity p \<le> length (jobQueue p) \<Longrightarrow>
   AddJob_checked pick (Some p) job = Returned (Some (SubmitFailed QueueFull), Some p)"
  by (simp add: AddJob_checked_def SubmitJob_full) (simp add: accepting_def)

lemma AddJob_checked_not_running:
  "\<not> isRunning p \<Longrightarrow> AddJob_checked pick (Some p) job = Returned (Some NotRunning, Some p)"
  by (simp add: AddJob_checked_def)

text \<open>
  C6 asks of every pool that a submission to a stopped pool return a NotRunning error.
  The pools with \<open>SubmitJob\<close> do (\<open>SubmitJob_not_running\<close>, \<open>AddJob_checked_not_running\<close>).
  \<open>AddSourcemapJob\<close> and \<open>AddExtractionJob\<close> do not test \<open>isRunning\<close>: on a pool that was
  started and stopped they send on the closed channel and panic, and on a pool that was
  never started they enqueue the job.
\<close>

theorem AddSourcemapJob_stopped_pool_panics:
  "AddSourcemapJob (Some (Stop (started_pool 4 400))) \<lparr>rid = ''js1'', vals = Map.empty\<rparr>
     = Panicked SendOnClosedChannel \<and>
   AddExtractionJob (Some (Stop (started_pool 4 100))) \<lparr>rid = ''ep1'', vals = Map.empty\<rparr>
     = Panicked SendOnClosedChannel \<and>
   AddSourcemapJob (Some (NewWorkerPool 4 400)) \<lparr>rid = ''js1'', vals = Map.empty\<rparr>
     = Returned (None, Some ((NewWorkerPool 4 400)
         \<lparr>jobQueue := [\<lparr>rid = ''js1'', vals = Map.empty\<rparr>]\<rparr>))"
  by (simp add: AddSourcemapJob_def AddExtractionJob_def AddJob_unchecked_def Stop_def
      started_pool_def NewWorkerPool_def send_ready_def do_send_def)

section \<open>The recovery sweep\<close>

lemma enqueue_all_Nil: "enqueue_all p [] = p"
  by (simp add: enqueue_all_def)

lemma accepting_enqueue: "accepting p \<Longrightarrow> accepting (p\<lparr>jobQueue := q\<rparr>)"
  by (simp add: accepting_def)

lemma enqueue_all_Cons_room:
  "length (jobQueue p) < capacity p \<Longrightarrow>
   enqueue_all (p\<lparr>jobQueue := jobQueue p @ [j]\<rparr>) js = enqueue_all p (j # js)"
proof -
  assume "length (jobQueue p) < capacity p"
  then have "capacity p - length (jobQueue p) = Suc (capacity p - Suc (length (jobQueue p)))"
    by simp
  then show ?thesis
    by (simp add: enqueue_all_def room_def)
qed

lemma enqueue_all_Cons_full:
  "capacity p \<le> length (jobQueue p) \<Longrightarrow> enqueue_all p (j # js) = p \<and> enqueue_all p js = p"
  by (simp add: enqueue_all_def room_def)

lemma submit_each_SubmitJob:
  "accepting p \<Longrightarrow> submit_each (SubmitJob pick) p js = Returned (enqueue_all p js)"
proof (induction js arbitrary: p)
  case Nil
  show ?case by (simp add: enqueue_all_Nil)
next
  case (Cons j js)
  show ?case
  proof (cases "length (jobQueue p) < capacity p")
    case True
    with Cons.prems Cons.IH [of "p\<lparr>jobQueue := jobQueue p @ [j]\<rparr>"] show ?thesis
      by (simp add: SubmitJob_room accepting_enqueue enqueue_all_Cons_room)
  next
    case False
    then have full: "capacity p \<le> length (jobQueue p)" by simp
    with Cons.prems Cons.IH [of p] enqueue_all_Cons_full [OF full] show ?thesis
      by (simp add: SubmitJob_full)
  qed
qed

lemma submit_each_unchecked:
  "accepting p \<Longrightarrow> submit_each AddJob_unchecked (Some p) js = Returned (Some (enqueue_all p js))"
proof (induction js arbitrary: p)
  case Nil
  show ?case by (simp add: enqueue_all_Nil)
next
  case (Cons j js)
  show ?case
  proof (cases "length (jobQueue p) < capacity p")
    case True
    with Cons.prems Cons.IH [of "p\<lparr>jobQueue := jobQueue p @ [j]\<rparr>"] show ?thesis
      by (simp add: AddJob_unchecked_room accepting_enqueue enqueue_all_Cons_room)
  next
    case False
    then have full: "capacity p \<le> length (jobQueue p)" by simp
    with Cons.prems Cons.IH [of p] enqueue_all_Cons_full [OF full] show ?thesis
      by (simp add: AddJob_unchecked_full)
  qed
qed

lemma submit_each_checked:
  "accepting p \<Longrightarrow>
   submit_each (AddJob_checked pick) (Some p) js = Returned (Some (enqueue_all p js))"
proof (induction js arbitrary: p)
  case Nil
  show ?case by (simp add: enqueue_all_Nil)
next
  case (Cons j js)
  show ?case
  proof (cases "length (jobQueue p) < capacity p")
    case True
    with Cons.prems Cons.IH [of "p\<lparr>jobQueue := jobQueue p @ [j]\<rparr>"] show ?thesis
      by (simp add: AddJob_checked_room accepting_enqueue enqueue_all_Cons_room)
  next
    case False
    then have full: "capacity p \<le> length (jobQueue p)" by simp
    with Cons.prems Cons.IH [of p] enqueue_all_Cons_full [OF full] show ?thesis
      by (simp add: AddJob_checked_full)
  qed
qed

lemma enqueue_all_twice:
  "enqueue_all (enqueue_all p xs) ys = enqueue_all p (xs @ ys)"
  by (auto simp add: enqueue_all_def room_def min_def take_all)

lemma accepting_enqueue_all: "accepting p \<Longrightarrow> accepting (enqueue_all p js)"
  by (simp add: accepting_def enqueue_all_def)

lemma FindRecordsByFilter_ok:
  "FindRecordsByFilter False collection field = Some (query_result collection field)"
  by (simp add: FindRecordsByFilter_def)

lemma swept_query_result: "swept collection field (query_result collection field)"
  by (auto simp add: query_result_def swept_def pending_or_processing_def)

lemma sweep_extraction_accepting:
  "\<not> query_fails env 1 \<Longrightarrow> globalExtractionPool ps = Some pe \<Longrightarrow> accepting pe \<Longrightarrow>
   sweep_extraction env st ps = Returned (ps\<lparr>globalExtractionPool :=
       Some (enqueue_all pe (query_result (endpoints st) ''extraction_status''))\<rparr>)"
  by (simp add: sweep_extraction_def FindRecordsByFilter_ok AddExtractionJob_def [abs_def]
      submit_each_unchecked outcome_bind_def)

lemma sweep_endpoint_prettify_accepting:
  "\<not> query_fails env 2 \<Longrightarrow> accepting (prettifyWorkerPool ps) \<Longrightarrow>
   sweep_endpoint_prettify env st ps = Returned (ps\<lparr>prettifyWorkerPool :=
       enqueue_all (prettifyWorkerPool ps)
         (map recovery_prettify_job (query_result (endpoints st) ''prettify_status''))\<rparr>)"
  by (simp add: sweep_endpoint_prettify_def FindRecordsByFilter_ok submit_each_SubmitJob
      outcome_bind_def)

lemma sweep_js_prettify_accepting:
  "\<not> query_fails env 3 \<Longrightarrow> accepting (prettifyWorkerPool ps) \<Longrightarrow>
   sweep_js_prettify env st ps = Returned (ps\<lparr>prettifyWorkerPool :=
       enqueue_all (prettifyWorkerPool ps)
         (map recovery_prettify_job (query_result (js_files st) ''prettify_status''))\<rparr>)"
  by (simp add: sweep_js_prettify_def FindRecordsByFilter_ok submit_each_SubmitJob
      outcome_bind_def)

lemma sweep_sourcemap_accepting:
  "\<not> query_fails env 4 \<Longrightarrow> globalSourcemapPool ps = Some psm \<Longrightarrow> accepting psm \<Longrightarrow>
   sweep_sourcemap env st ps = Returned (ps\<lparr>globalSourcemapPool :=
       Some (enqueue_all psm (query_result (js_files st) ''sourcemap_status''))\<rparr>)"
  by (simp add: sweep_sourcemap_def FindRecordsByFilter_ok AddSourcemapJob_def [abs_def]
      submit_each_unchecked outcome_bind_def)

lemma sweep_analysis_accepting:
  "\<not> query_fails env 5 \<Longrightarrow> accepting (analysisWorkerPool ps) \<Longrightarrow>
   sweep_analysis env st ps = Returned (ps\<lparr>analysisWorkerPool :=
       enqueue_all (analysisWorkerPool ps) (query_result (js_files st) ''analysis_status'')\<rparr>)"
  by (simp add: sweep_analysis_def FindRecordsByFilter_ok submit_each_SubmitJob
      outcome_bind_def)

lemma sweep_dechunker_accepting:
  "\<not> query_fails env 6 \<Longrightarrow> globalDechunkerPool ps = Some pd \<Longrightarrow> accepting pd \<Longrightarrow>
   sweep_dechunker env st ps = Returned (ps\<lparr>globalDechunkerPool :=
       Some (enqueue_all pd (query_result (js_files st) ''dechunker_status''))\<rparr>)"
  by (simp add: sweep_dechunker_def FindRecordsByFilter_ok AddDechunkerJob_def [abs_def]
      submit_each_checked outcome_bind_def)

lemma recoverPendingJobs_accepting:
  assumes q: "\<forall>i. \<not> query_fails env i"
    and pe: "globalExtractionPool ps = Some pe" "accepting pe"
    and pp: "accepting (prettifyWorkerPool ps)"
    and psm: "globalSourcemapPool ps = Some psm" "accepting psm"
    and pa: "accepting (analysisWorkerPool ps)"
    and pd: "globalDechunkerPool ps = Some pd" "accepting pd"
  shows "recoverPendingJobs env st ps = Returned
       \<lparr>globalExtractionPool =
          Some (enqueue_all pe (query_result (endpoints st) ''extraction_status'')),
        prettifyWorkerPool = enqueue_all (prettifyWorkerPool ps)
          (map recovery_prettify_job (query_result (endpoints st) ''prettify_status'' @
             query_result (js_files st) ''prettify_status'')),
        globalSourcemapPool =
          Some (enqueue_all psm (query_result (js_files st) ''sourcemap_status'')),
        analysisWorkerPool =
          enqueue_all (analysisWorkerPool ps) (query_result (js_files st) ''analysis_status''),
        globalDechunkerPool =
          Some (enqueue_all pd (query_result (js_files st) ''dechunker_status''))\<rparr>"
  using assms
  by (simp add: recoverPendingJobs_def outcome_bind_def sweep_extraction_accepting
      sweep_endpoint_prettify_accepting sweep_js_prettify_accepting sweep_sourcemap_accepting
      sweep_analysis_accepting sweep_dechunker_accepting accepting_enqueue_all
      enqueue_all_twice)

text \<open>
  C1. With the six queries answered and the pools accepting work, the sweep leaves in
  each queue, after what it held, the records of the matching collection whose status
  field is \<open>pending\<close> or \<open>processing\<close>, in ascending \<open>created_at\<close>, as far as the queue
  has room (the Prettify queue gets jobs whose records are the endpoints, then the JS
  files); no record whose status is \<open>failed\<close> or \<open>processed\<close> is among them.
\<close>

theorem recovery_submits_open_records:
  assumes q: "\<forall>i. \<not> query_fails env i"
    and pe: "globalExtractionPool ps = Some pe" "accepting pe"
    and pp: "accepting (prettifyWorkerPool ps)"
    and psm: "globalSourcemapPool ps = Some psm" "accepting psm"
    and pa: "accepting (analysisWorkerPool ps)"
    and pd: "globalDechunkerPool ps = Some pd" "accepting pd"
  shows "\<exists>ex hp jp sm an de jobs.
     swept (endpoints st) ''extraction_status'' ex \<and>
     swept (endpoints st) ''prettify_status'' hp \<and>
     swept (js_files st) ''prettify_status'' jp \<and>
     swept (js_files st) ''sourcemap_status'' sm \<and>
     swept (js_files st) ''analysis_status'' an \<and>
     swept (js_files st) ''dechunker_status'' de \<and>
     map Record jobs = map Some (hp @ jp) \<and>
     recoverPendingJobs env st ps = Returned
       \<lparr>globalExtractionPool = Some (enqueue_all pe ex),
        prettifyWorkerPool = enqueue_all (prettifyWorkerPool ps) jobs,
        globalSourcemapPool = Some (enqueue_all psm sm),
        analysisWorkerPool = enqueue_all (analysisWorkerPool ps) an,
        globalDechunkerPool = Some (enqueue_all pd de)\<rparr>"
proof -
  let ?hp = "query_result (endpoints st) ''prettify_status''"
  let ?jp = "query_result (js_files st) ''prettify_status''"
  have "map Record (map recovery_prettify_job (?hp @ ?jp)) = map Some (?hp @ ?jp)"
    by (simp add: recovery_prettify_job_def comp_def)
  then show ?thesis
    using recoverPendingJobs_accepting [OF assms, of st] swept_query_result
    by blast
qed

lemma accepting_started_pool: "accepting (started_pool n k)"
  by (simp add: accepting_def started_pool_def NewWorkerPool_def)

lemma example_queries:
  "query_result (endpoints example_store) ''extraction_status'' = [example_endpoint2]"
  "query_result (endpoints example_store) ''prettify_status'' = [example_endpoint2]"
  "query_result (js_files example_store) ''prettify_status'' = []"
  "query_result (js_files example_store) ''sourcemap_status'' = []"
  "query_result (js_files example_store) ''analysis_status'' = [example_js2, example_js1]"
  "query_result (js_files example_store) ''dechunker_status'' = []"
  by (simp_all add: query_result_def example_store_def
      pending_or_processing_def GetString_def example_endpoint1_def example_endpoint2_def
      example_js1_def example_js2_def created_at_of_def)

lemma recovery_example:
  "recoverPendingJobs example_env example_store example_pools = Returned
     \<lparr>globalExtractionPool = Some ((started_pool 4 100)\<lparr>jobQueue := [example_endpoint2]\<rparr>),
      prettifyWorkerPool =
        (started_pool 8 400)\<lparr>jobQueue := [recovery_prettify_job example_endpoint2]\<rparr>,
      globalSourcemapPool = Some (started_pool 4 400),
      analysisWorkerPool = (started_pool 6 400)\<lparr>jobQueue := [example_js2, example_js1]\<rparr>,
      globalDechunkerPool = Some (started_pool 4 400)\<rparr>"
proof -
  have q: "\<forall>i. \<not> query_fails example_env i"
    by (simp add: example_env_def)
  have pe: "globalExtractionPool example_pools = Some (started_pool 4 100)"
    and psm: "globalSourcemapPool example_pools = Some (started_pool 4 400)"
    and pd: "globalDechunkerPool example_pools = Some (started_pool 4 400)"
    by (simp_all add: example_pools_def)
  have pp: "accepting (prettifyWorkerPool example_pools)"
    and pa: "accepting (analysisWorkerPool example_pools)"
    by (simp_all add: example_pools_def accepting_started_pool)
  show ?thesis
    unfolding recoverPendingJobs_accepting [OF q pe accepting_started_pool pp psm
        accepting_started_pool pa pd accepting_started_pool] example_queries
    by (simp add: example_pools_def enqueue_all_def room_def started_pool_def NewWorkerPool_def)
qed

theorem recovery_submits_open_records_witness:
  "(\<forall>i. \<not> query_fails example_env i) \<and>
   accepting (started_pool 4 100 :: core_record pool) \<and>
   accepting (prettifyWorkerPool example_pools) \<and>
   accepting (started_pool 4 400 :: core_record pool) \<and>
   accepting (analysisWorkerPool example_pools) \<and>
   (\<exists>ex hp jp sm an de jobs.
     swept (endpoints example_store) ''extraction_status'' ex \<and>
     swept (endpoints example_store) ''prettify_status'' hp \<and>
     swept (js_files example_store) ''prettify_status'' jp \<and>
     swept (js_files example_store) ''sourcemap_status'' sm \<and>
     swept (js_files example_store) ''analysis_status'' an \<and>
     swept (js_files example_store) ''dechunker_status'' de \<and>
     map Record jobs = map Some (hp @ jp) \<and>
     recoverPendingJobs example_env example_store example_pools = Returned
       \<lparr>globalExtractionPool = Some (enqueue_all (started_pool 4 100) ex),
        prettifyWorkerPool = enqueue_all (prettifyWorkerPool example_pools) jobs,
        globalSourcemapPool = Some (enqueue_all (started_pool 4 400) sm),
        analysisWorkerPool = enqueue_all (analysisWorkerPool example_pools) an,
        globalDechunkerPool = Some (enqueue_all (started_pool 4 400) de)\<rparr>)"
proof -
  have q: "\<forall>i. \<not> query_fails example_env i"
    by (simp add: example_env_def)
  have pe: "globalExtractionPool example_pools = Some (started_pool 4 100)"
    and psm: "globalSourcemapPool example_pools = Some (started_pool 4 400)"
    and pd: "globalDechunkerPool example_pools = Some (started_pool 4 400)"
    by (simp_all add: example_pools_def)
  have pp: "accepting (prettifyWorkerPool example_pools)"
    and pa: "accepting (analysisWorkerPool example_pools)"
    by (simp_all add: example_pools_def accepting_started_pool)
  show ?thesis
    using q pp pa accepting_started_pool [of 4 100] accepting_started_pool [of 4 400]
      recovery_submits_open_records [OF q pe accepting_started_pool pp psm
        accepting_started_pool pa pd accepting_started_pool, of example_store]
    by blast
qed

text \<open>
  In the example the Prettify queue holds one job, and its record is the endpoint left
  in \<open>processing\<close>.
\<close>

lemma recovery_example_prettify_records:
  "(case recoverPendingJobs example_env example_store example_pools of
      Returned ps \<Rightarrow> map Record (jobQueue (prettifyWorkerPool ps))
    | Panicked c \<Rightarrow> []) = [Some example_endpoint2]"
  by (simp add: recovery_example recovery_prettify_job_def)

section \<open>Inline files and chunks\<close>

lemma GetString_Set:
  "GetString (Set r k v) k' =
     (if k' = k then (case v of FStr s \<Rightarrow> s | _ \<Rightarrow> []) else GetString r k')"
  by (simp add: GetString_def Set_def)

lemma rid_Set: "rid (Set r k v) = rid r"
  by (simp add: Set_def)

lemma vals_Set: "vals (Set r k v) k' = (if k' = k then Some v else vals r k')"
  by (simp add: Set_def)










lemma after_update_dechunker_keeps:
  "k \<noteq> ''dechunker_status'' \<Longrightarrow> vals (fst (after_update_dechunker r)) k = vals r k"
  "rid (fst (after_update_dechunker r)) = rid r"
  by (simp_all add: after_update_dechunker_def vals_Set rid_Set)

lemma js_files_after_update_keeps:
  "k \<noteq> ''dechunker_status'' \<Longrightarrow> k \<noteq> ''analysis_status'' \<Longrightarrow>
   vals (fst (js_files_after_update r)) k = vals r k"
  by (simp add: js_files_after_update_def Let_def after_update_dechunker_keeps vals_Set)


lemma js_files_after_update_not_processed:
  "GetString r ''prettify_status'' \<noteq> ''processed'' \<Longrightarrow> js_files_after_update r = (r, [])"
  by (simp add: js_files_after_update_def)




lemma after_create_held_inline_chunk:
  "GetString r ''type'' = ''inline'' \<or> GetString r ''type'' = ''chunk'' \<Longrightarrow>
   GetString (held (js_files_after_create path now r)) ''dechunker_status'' = ''processed''"
  by (cases path)
    (auto simp add: js_files_after_create_def Let_def js_files_after_update_not_processed
      GetString_Set)







lemma GetString_cong: "vals a k = vals b k \<Longrightarrow> GetString a k = GetString b k"
  by (simp add: GetString_def)






lemma Save_existing_js_files:
  "js_files (db (fst (Save_existing w r))) =
     map (\<lambda>x. if rid x = rid r then fst (js_files_after_update r) else x) (js_files (db w))"
  by (simp add: Save_existing_def Let_def)


lemma dechunker_fail_creates:
  "\<exists>old. js_files (db (dechunker_fail w job)) = old @ [] \<and>
     length old = length (js_files (db w))"
  by (simp add: dechunker_fail_def Save_existing_js_files)



lemma example_chunk_body_ok: "chunk_body_ok ''console.log(2)'' ''application/javascript''"
  by code_simp


lemma example_chunk_calls:
  "snd (saved (Set (Set (Set (stored (js_files_after_create (Some ''/files/x/h/b.js'') 21
                                   example_chunk))
                             ''line_count'' (FInt 1)) ''prettify_status'' (FStr ''processed''))
                    ''last_modified'' (FTime 22))
            (calls (js_files_after_create (Some ''/files/x/h/b.js'') 21 example_chunk)))
   = [Prettify, Sourcemap, Analysis]"
  by (simp add: saved_def js_files_after_create_def js_files_after_update_def Let_def
      after_update_dechunker_def GetString_Set example_chunk_def chunk_newRecord_def
      GetString_def Set_def)

lemma example_processJob:
  "map (\<lambda>c. (rid c, GetString c ''url'', GetString c ''type'', GetString c ''parent_id'',
             vals c ''has_chunks'', GetString c ''dechunker_status''))
     (js_files (db (dechunker_processJob example_writer_env example_world example_parent)))
   = [(''jsA'', ''http://x/a.js'', ''normal'', [], Some (FBool True), ''processed''),
      (''jsC'', ''http://x/c.js'', ''normal'', [], None, ''processed''),
      (''newii'', ''http://x/b.js'', ''chunk'', ''jsA'', Some (FBool False), ''processed'')]"
  by (simp add: dechunker_processJob_def example_writer_env_def example_world_def
      example_parent_def example_other_def Let_def GetString_def Set_def Save_existing_def
      js_files_after_update_def after_update_dechunker_def fetchAndSaveChunks_def
      register_chunk_def FindFirstRecordByFilter_def
      example_chunk_body_ok Save_new_def SaveJSFile_def
      chunk_newRecord_def js_files_after_create_def example_digest_def)

lemma example_chunk_stored:
  "GetString (stored (js_files_after_create (Some ''/files/x/h/b.js'') 21 example_chunk))
     ''dechunker_status'' = ''processed''"
  "GetString
     (fst (saved (Set (Set (Set (stored (js_files_after_create (Some ''/files/x/h/b.js'') 21
                                   example_chunk))
                             ''line_count'' (FInt 1)) ''prettify_status'' (FStr ''processed''))
                    ''last_modified'' (FTime 22))
            (calls (js_files_after_create (Some ''/files/x/h/b.js'') 21 example_chunk))))
     ''dechunker_status'' = ''processed''"
  by (simp_all add: saved_def js_files_after_create_def js_files_after_update_def Let_def
      after_update_dechunker_def GetString_Set example_chunk_def chunk_newRecord_def
      GetString_def Set_def)


section \<open>Registration of JS files\<close>

lemma find_Some_in_set: "find P xs = Some x \<Longrightarrow> x \<in> set xs"
  by (induction xs) (auto split: if_splits)

lemma find_Some_holds: "find P xs = Some x \<Longrightarrow> P x"
  by (induction xs) (auto split: if_splits)

lemma find_None_all: "find P xs = None \<Longrightarrow> x \<in> set xs \<Longrightarrow> \<not> P x"
  by (induction xs) (auto split: if_splits)

lemma find_first_match:
  assumes "\<exists>r \<in> set xs. P r"
  shows "\<exists>x. find P xs = Some x \<and> x \<in> set xs \<and> P x"
proof (cases "find P xs")
  case None
  with assms show ?thesis using find_None_all by fastforce
next
  case (Some x)
  then show ?thesis using find_Some_in_set find_Some_holds by fastforce
qed

lemma register_js_file_found:
  assumes "\<not> find_fails env (jsr_URL f)"
    and "find (\<lambda>r. GetString r ''url'' = jsr_URL f \<or>
                    GetString r ''hash'' = sha256 env (jsr_Content f)) (js_files seen) = Some x"
    and "rid x \<noteq> []"
  shows "register_js_file env seen w f = (w, rid x)"
  using assms
  by (simp add: register_js_file_def checkExistingJSFile_def FindFirstRecordByFilter_def Let_def)

lemma register_chunk_found:
  assumes "\<not> find_fails env u"
    and "find (\<lambda>r. GetString r ''url'' = u) (js_files seen) = Some x"
  shows "register_chunk env pid seen w u = w"
  using assms by (simp add: register_chunk_def FindFirstRecordByFilter_def)

text \<open>
  C2 as stated fails for the Dechunker stage: \<open>fetchAndSaveChunks\<close> looks for an existing
  record by URL only. With \<open>c.js\<close> registered, processing \<open>a.js\<close> registers the chunk
  \<open>b.js\<close>, whose content and so whose hash are those of \<open>c.js\<close>, as a new record.
\<close>

theorem dechunker_registers_same_hash:
  "map (\<lambda>c. (rid c, GetString c ''url'', GetString c ''hash'')) (js_files (db example_world))
     = [(''jsA'', ''http://x/a.js'', ''sha256:import(2)''),
        (''jsC'', ''http://x/c.js'', ''sha256:console.log(2)'')] \<and>
   map (\<lambda>c. (rid c, GetString c ''url'', GetString c ''hash''))
     (js_files (db (dechunker_processJob example_writer_env example_world example_parent)))
     = [(''jsA'', ''http://x/a.js'', ''sha256:import(2)''),
        (''jsC'', ''http://x/c.js'', ''sha256:console.log(2)''),
        (''newii'', ''http://x/b.js'', ''sha256:console.log(2)'')]"
  by (simp add: dechunker_processJob_def example_writer_env_def example_world_def
      example_parent_def example_other_def Let_def GetString_def Set_def Save_existing_def
      js_files_after_update_def after_update_dechunker_def fetchAndSaveChunks_def
      register_chunk_def FindFirstRecordByFilter_def
      example_chunk_body_ok Save_new_def SaveJSFile_def
      chunk_newRecord_def js_files_after_create_def example_digest_def)

text \<open>
  C2, amended. The query of a registration that finds a record ends the registration:
  when the store the query reads holds a record with the same URL or the same hash and
  the query does not fail, a registration by Extraction creates nothing, whatever the
  store has become by then, and reuses the id of such a record; when it holds a record
  with the same URL and the query does not fail, a registration by the Dechunker creates
  nothing.
\<close>

theorem js_file_registration_reuses_existing:
  "(\<not> find_fails env (jsr_URL f) \<and> list_all (\<lambda>r. rid r \<noteq> []) (js_files seen) \<and>
    (\<exists>r \<in> set (js_files seen).
       GetString r ''url'' = jsr_URL f \<or> GetString r ''hash'' = sha256 env (jsr_Content f)) \<longrightarrow>
    (\<exists>r \<in> set (js_files seen).
       (GetString r ''url'' = jsr_URL f \<or> GetString r ''hash'' = sha256 env (jsr_Content f)) \<and>
       register_js_file env seen w f = (w, rid r))) \<and>
   (\<not> find_fails env u \<and> (\<exists>r \<in> set (js_files seen). GetString r ''url'' = u) \<longrightarrow>
    register_chunk env pid seen w u = w)"
proof (intro conjI impI)
  let ?P = "\<lambda>r. GetString r ''url'' = jsr_URL f \<or> GetString r ''hash'' = sha256 env (jsr_Content f)"
  assume a: "\<not> find_fails env (jsr_URL f) \<and> list_all (\<lambda>r. rid r \<noteq> []) (js_files seen) \<and>
    (\<exists>r \<in> set (js_files seen). ?P r)"
  then obtain x where x: "find ?P (js_files seen) = Some x" "x \<in> set (js_files seen)" "?P x"
    using find_first_match [of "js_files seen" ?P] by blast
  from a x(2) have "rid x \<noteq> []"
    by (simp add: list_all_iff)
  with a x(1) have "register_js_file env seen w f = (w, rid x)"
    by (intro register_js_file_found) simp_all
  with x(2,3) show "\<exists>r \<in> set (js_files seen). ?P r \<and> register_js_file env seen w f = (w, rid r)"
    by blast
next
  assume a: "\<not> find_fails env u \<and> (\<exists>r \<in> set (js_files seen). GetString r ''url'' = u)"
  then obtain x where "find (\<lambda>r. GetString r ''url'' = u) (js_files seen) = Some x"
    using find_first_match [of "js_files seen" "\<lambda>r. GetString r ''url'' = u"] by blast
  with a show "register_chunk env pid seen w u = w"
    by (intro register_chunk_found) simp_all
qed

lemma example_world_facts:
  "js_files (db example_world) = [example_parent, example_other]"
  "GetString example_parent ''url'' = ''http://x/a.js''"
  "GetString example_parent ''hash'' = ''sha256:import(2)''"
  "GetString example_other ''url'' = ''http://x/c.js''"
  "GetString example_other ''hash'' = ''sha256:console.log(2)''"
  "rid example_parent = ''jsA''"
  "rid example_other = ''jsC''"
  "sha256 example_writer_env ''console.log(2)'' = ''sha256:console.log(2)''"
  "find_fails example_writer_env url = False"
  by (simp_all add: example_world_def example_parent_def example_other_def GetString_def
      example_writer_env_def example_digest_def)

theorem js_file_registration_reuses_existing_witness:
  "register_js_file example_writer_env (db example_world) example_world
     \<lparr>jsr_URL = ''http://x/z.js'', jsr_Content = ''console.log(2)'', jsr_Type = ''normal''\<rparr>
     = (example_world, ''jsC'') \<and>
   register_chunk example_writer_env ''jsA'' (db example_world) example_world ''http://x/c.js''
     = example_world"
  using js_file_registration_reuses_existing [of example_writer_env
      "\<lparr>jsr_URL = ''http://x/z.js'', jsr_Content = ''console.log(2)'', jsr_Type = ''normal''\<rparr>"
      "db example_world" example_world "''http://x/c.js''" "''jsA''"]
  by (simp add: example_world_facts)

text \<open>
  What the amended statement leaves open. A query that fails counts as nothing found:
  the file \<open>c.js\<close> is registered a second time. And two workers that register the same
  file and both query before either saves create two records for it: the second
  insert goes to the store that holds the first.
\<close>

lemma failed_query_registers_again:
  "map (\<lambda>c. (rid c, GetString c ''url''))
     (js_files (db (fst (register_js_file (example_writer_env\<lparr>find_fails := (\<lambda>url. True)\<rparr>)
        (db example_world) example_world
        \<lparr>jsr_URL = ''http://x/c.js'', jsr_Content = ''console.log(2)'', jsr_Type = ''normal''\<rparr>))))
   = [(''jsA'', ''http://x/a.js''), (''jsC'', ''http://x/c.js''), (''newii'', ''http://x/c.js'')]"
  by (simp add: register_js_file_def checkExistingJSFile_def FindFirstRecordByFilter_def Let_def
      example_writer_env_def example_world_def example_parent_def example_other_def
      GetString_def Set_def Save_new_def SaveJSFile_def extraction_newRecord_def
      js_files_after_create_def js_files_after_update_def after_update_dechunker_def
      example_digest_def)

lemma unsynchronised_workers_register_twice:
  "map (\<lambda>c. (rid c, GetString c ''url''))
     (js_files (db (fst (register_js_file example_writer_env (db example_world)
        (fst (register_js_file example_writer_env (db example_world) example_world
                example_captured))
        example_captured))))
   = [(''jsA'', ''http://x/a.js''), (''jsC'', ''http://x/c.js''),
      (''newii'', ''http://x/z.js''), (''newiii'', ''http://x/z.js'')]"
  by (simp add: register_js_file_def checkExistingJSFile_def FindFirstRecordByFilter_def Let_def
      example_writer_env_def example_world_def example_parent_def example_other_def
      example_captured_def
      GetString_def Set_def Save_new_def SaveJSFile_def extraction_newRecord_def
      js_files_after_create_def js_files_after_update_def after_update_dechunker_def
      example_digest_def)

section \<open>Source files stay inside the directory of their JS file\<close>

lemma split_on_nonempty: "split_on sep s \<noteq> []"
  by (induction s) (auto split: list.splits)

lemma split_on_no_sep: "x \<in> set (split_on sep s) \<Longrightarrow> sep \<notin> set x"
  by (induction s arbitrary: x) (auto split: list.splits if_splits)

lemma split_on_nosep: "sep \<notin> set s \<Longrightarrow> split_on sep s = [s]"
  by (induction s) auto

lemma split_on_append_sep: "split_on sep (a @ sep # b) = split_on sep a @ split_on sep b"
proof (induction a)
  case Nil
  show ?case by simp
next
  case (Cons c a)
  show ?case
  proof (cases "c = sep")
    case True
    with Cons show ?thesis by simp
  next
    case False
    obtain p ps where ps: "split_on sep a = p # ps"
      using split_on_nonempty [of sep a] by (cases "split_on sep a") auto
    with Cons False show ?thesis by simp
  qed
qed

lemma join_with_snoc:
  "join_with sep (xs @ [x]) = (if xs = [] then x else join_with sep xs @ sep # x)"
  by (induction sep xs rule: join_with.induct) auto

lemma join_with_Cons:
  "join_with sep (x # xs) = (if xs = [] then x else x @ sep # join_with sep xs)"
  by (cases xs) auto

lemma join_with_append:
  "xs \<noteq> [] \<Longrightarrow> ys \<noteq> [] \<Longrightarrow>
   join_with sep (xs @ ys) = join_with sep xs @ sep # join_with sep ys"
  by (induction sep xs rule: join_with.induct) (auto simp add: join_with_Cons)

lemma split_on_join:
  "xs \<noteq> [] \<Longrightarrow> \<forall>x \<in> set xs. sep \<notin> set x \<Longrightarrow> split_on sep (join_with sep xs) = xs"
proof (induction sep xs rule: join_with.induct)
  case (1 sep)
  then show ?case by simp
next
  case (2 sep x)
  then show ?case by (simp add: split_on_nosep)
next
  case (3 sep x y ys)
  then show ?case
    by (simp add: split_on_append_sep split_on_nosep del: split_on.simps)
qed

lemma clean_elems_append:
  "clean_elems rooted out (xs @ ys) = clean_elems rooted (clean_elems rooted out xs) ys"
  by (induction xs arbitrary: out) (auto split: list.splits)

lemma clean_elems_safe:
  "list_all safe_element es \<Longrightarrow> clean_elems rooted out es = rev es @ out"
  by (induction es arbitrary: out) (auto simp add: safe_element_def)

lemma cleaned_stack_clean_elems:
  "cleaned_stack rooted out \<Longrightarrow> \<forall>e \<in> set es. slash \<notin> set e \<Longrightarrow>
   cleaned_stack rooted (clean_elems rooted out es)"
proof (induction es arbitrary: out)
  case Nil
  then show ?case by simp
next
  case (Cons e es)
  show ?case
  proof (cases "e = [] \<or> e = [dot]")
    case True
    with Cons show ?thesis by simp
  next
    case False
    show ?thesis
    proof (cases "e = [dot, dot]")
      case dd: True
      show ?thesis
      proof (cases out)
        case Nil
        with dd Cons show ?thesis
          by (simp add: dot_def slash_def)
      next
        case (Cons lst below)
        with dd Cons.prems Cons.IH [of below] Cons.IH [of out] Cons.IH [of "[dot, dot] # out"]
        show ?thesis
          by (auto simp add: dot_def slash_def)
      qed
    next
      case real: False
      with False Cons.prems Cons.IH [of "e # out"] show ?thesis
        by simp
    qed
  qed
qed

lemma cleaned_stack_suffix: "cleaned_stack rooted (a @ b) \<Longrightarrow> cleaned_stack rooted b"
  by (induction a) auto

lemma clean_elems_replay:
  "cleaned_stack rooted (rev xs @ b) \<Longrightarrow> clean_elems rooted b xs = rev xs @ b"
proof (induction xs arbitrary: b)
  case Nil
  show ?case by simp
next
  case (Cons e es)
  from Cons.prems have st: "cleaned_stack rooted (rev es @ (e # b))"
    by simp
  then have eb: "cleaned_stack rooted (e # b)"
    by (rule cleaned_stack_suffix)
  have "clean_elems rooted b (e # es) = clean_elems rooted (e # b) es"
  proof (cases "e = [dot, dot]")
    case True
    with eb have nr: "\<not> rooted" and all: "\<forall>x \<in> set b. x = [dot, dot]"
      by simp_all
    show ?thesis
    proof (cases b)
      case Nil
      with True nr show ?thesis by (simp add: dot_def)
    next
      case (Cons lst below)
      with all have "lst = [dot, dot]" by simp
      with True nr Cons show ?thesis by (simp add: dot_def)
    qed
  next
    case False
    with eb show ?thesis by simp
  qed
  with Cons.IH [OF st] show ?case by simp
qed

lemma set_collapse_dots: "set (collapse_dots s) \<subseteq> set s"
  by (induction s rule: collapse_dots.induct) auto

lemma slash_not_in_replace_invalid: "slash \<notin> set (replace_invalid s)"
  by (auto simp add: replace_invalid_def invalid_char_def slash_def)

lemma slash_not_in_CleanPathComponent: "slash \<notin> set (CleanPathComponent c)"
proof -
  have a: "slash \<notin> set (collapse_dots (replace_invalid c))"
    using set_collapse_dots slash_not_in_replace_invalid by blast
  have "set (trim_dots_spaces (collapse_dots (replace_invalid c)))
      \<subseteq> set (collapse_dots (replace_invalid c))"
    unfolding trim_dots_spaces_def
    by (metis set_dropWhileD set_rev subsetI)
  with a have b: "slash \<notin> set (trim_dots_spaces (collapse_dots (replace_invalid c)))"
    by blast
  then have c: "slash \<notin> set (spaces_to_underscores
      (trim_dots_spaces (collapse_dots (replace_invalid c))))"
    by (auto simp add: spaces_to_underscores_def slash_def)
  then have "slash \<notin> set (take 50 (spaces_to_underscores
      (trim_dots_spaces (collapse_dots (replace_invalid c)))))"
    by (meson in_set_takeD)
  with c show ?thesis
    by (simp add: CleanPathComponent_def Let_def)
qed

lemma cleanedComponents_safe: "list_all safe_element (cleanedComponents xs)"
  by (auto simp add: cleanedComponents_def list_all_iff safe_element_def
      slash_not_in_CleanPathComponent)

lemma join_safe_head:
  assumes "es \<noteq> []" and "list_all safe_element es"
  shows "join_with slash es \<noteq> [] \<and> hd (join_with slash es) \<noteq> slash"
proof -
  obtain e rest where es: "es = e # rest" using assms(1) by (cases es) auto
  with assms(2) have e: "e \<noteq> []" "slash \<notin> set e"
    by (simp_all add: safe_element_def)
  then have "hd e \<noteq> slash" by (cases e) auto
  with e es show ?thesis
    by (simp add: join_with_Cons)
qed

lemma safe_no_slash: "list_all safe_element es \<Longrightarrow> \<forall>x \<in> set es. slash \<notin> set x"
  by (simp add: list_all_iff safe_element_def)

lemma Clean_join_safe:
  assumes "es \<noteq> []" and "list_all safe_element es"
  shows "Clean (join_with slash es) = join_with slash es"
proof -
  have h: "join_with slash es \<noteq> []" "hd (join_with slash es) \<noteq> slash"
    using join_safe_head [OF assms] by simp_all
  have "split_on slash (join_with slash es) = es"
    using assms safe_no_slash by (simp add: split_on_join)
  with h assms show ?thesis
    by (simp add: Clean_def clean_elems_safe render_path_def)
qed

lemma Join_safe:
  assumes "es \<noteq> []" and "list_all safe_element es"
  shows "Join es = join_with slash es"
proof -
  obtain e rest where es: "es = e # rest" using assms(1) by (cases es) auto
  with assms(2) have "e \<noteq> []" by (simp add: safe_element_def)
  with es have "dropWhile (\<lambda>e. e = []) es = es" by simp
  with assms show ?thesis
    by (simp add: Join_def Clean_join_safe)
qed

lemma safe_unknown: "list_all safe_element [''unknown.js'']"
  by (simp add: safe_element_def dot_def slash_def)

lemma CleanSourcePath_shape:
  "\<exists>cs. cs \<noteq> [] \<and> list_all safe_element cs \<and> CleanSourcePath p = join_with slash cs"
proof -
  have unknown: "\<exists>cs. cs \<noteq> [] \<and> list_all safe_element cs \<and> ''unknown.js'' = join_with slash cs"
    using safe_unknown by (intro exI [of _ "[''unknown.js'']"]) simp
  show ?thesis
  proof (cases "p = []")
    case True
    with unknown show ?thesis by (simp add: CleanSourcePath_def)
  next
    case False
    let ?cs = "cleanedComponents (split_on slash
        (TrimPrefix (TrimPrefix (TrimPrefix p ''/'') ''./'') ''../''))"
    show ?thesis
    proof (cases "?cs = []")
      case True
      with False unknown show ?thesis by (simp add: CleanSourcePath_def Let_def)
    next
      case ne: False
      then have "CleanSourcePath p = join_with slash ?cs"
        using False by (simp add: CleanSourcePath_def Let_def Join_safe cleanedComponents_safe)
      with ne cleanedComponents_safe show ?thesis by blast
    qed
  qed
qed

lemma Dir_join_safe:
  assumes "list_all safe_element (bs @ [c])"
  shows "Dir (join_with slash (bs @ [c])) = (if bs = [] then [dot] else join_with slash bs)"
proof -
  from assms have c: "slash \<notin> set c" and bs: "list_all safe_element bs"
    by (simp_all add: safe_element_def)
  show ?thesis
  proof (cases "bs = []")
    case True
    have "dropWhile (\<lambda>x. x \<noteq> slash) (rev c) = []"
      using c by auto
    with True show ?thesis
      by (simp add: Dir_def Clean_def)
  next
    case False
    have "rev (join_with slash (bs @ [c])) = rev c @ slash # rev (join_with slash bs)"
      using False by (simp add: join_with_snoc)
    moreover have "dropWhile (\<lambda>x. x \<noteq> slash) (rev c @ slash # rev (join_with slash bs)) =
        slash # rev (join_with slash bs)"
      using c by (auto simp add: dropWhile_append3 dropWhile_append2)
    ultimately have d: "Dir (join_with slash (bs @ [c])) = Clean (join_with slash bs @ [slash])"
      by (simp add: Dir_def)
    have h: "join_with slash bs \<noteq> []" "hd (join_with slash bs) \<noteq> slash"
      using join_safe_head [OF False bs] by simp_all
    have sp: "split_on slash (join_with slash bs @ slash # []) = bs @ [[]]"
      using False bs safe_no_slash by (simp add: split_on_append_sep split_on_join)
    have "Clean (join_with slash bs @ [slash]) = join_with slash bs"
      using h sp bs False
      by (simp add: Clean_def clean_elems_append clean_elems_safe render_path_def)
    with d False show ?thesis by simp
  qed
qed

lemma Base_join_safe:
  assumes "list_all safe_element (bs @ [c])"
  shows "Base (join_with slash (bs @ [c])) = c"
proof -
  from assms have c: "slash \<notin> set c" "c \<noteq> []"
    by (simp_all add: safe_element_def)
  then have lc: "last c \<noteq> slash"
    by (metis last_in_set)
  let ?p = "join_with slash (bs @ [c])"
  have p: "?p = (if bs = [] then c else join_with slash bs @ slash # c)"
    by (simp add: join_with_snoc)
  then have ne: "?p \<noteq> []" using c by auto
  have rv: "rev ?p = rev c @ (if bs = [] then [] else slash # rev (join_with slash bs))"
    using p by simp
  have hdr: "hd (rev c) \<noteq> slash"
    using c lc by (simp add: hd_rev)
  have rc: "rev c \<noteq> []" using c by simp
  have dw: "dropWhile (\<lambda>x. x = slash) (rev ?p) = rev ?p"
    using rv hdr rc by (cases "rev c") auto
  have tw: "takeWhile (\<lambda>x. x \<noteq> slash) (rev ?p) = rev c"
    using rv c by (auto simp add: takeWhile_append2 takeWhile_tail)
  show ?thesis
    using ne dw tw c by (simp add: Base_def Let_def)
qed

lemma Clean_stack: "P \<noteq> [] \<Longrightarrow> Clean P = render_path (is_rooted P) (stack_of P)"
  by (simp add: Clean_def stack_of_def is_rooted_def)

lemma cleaned_stack_stack_of: "cleaned_stack (is_rooted P) (stack_of P)"
  unfolding stack_of_def
  by (rule cleaned_stack_clean_elems) (simp_all add: split_on_no_sep)

lemma is_rooted_append: "P \<noteq> [] \<Longrightarrow> is_rooted (P @ Q) = is_rooted P"
  by (simp add: is_rooted_def)

lemma split_on_dir_string:
  "list_all safe_element bs \<Longrightarrow>
   clean_elems r out (split_on slash (dir_string bs)) = rev bs @ out"
proof (cases "bs = []")
  case True
  then show ?thesis
    by (simp add: dir_string_def dot_def slash_def)
next
  case False
  assume "list_all safe_element bs"
  with False show ?thesis
    using safe_no_slash by (simp add: dir_string_def split_on_join clean_elems_safe)
qed

lemma stack_of_extend:
  assumes "P \<noteq> []" and "list_all safe_element bs"
  shows "stack_of (P @ slash # dir_string bs) = rev bs @ stack_of P"
  using assms
  by (simp add: stack_of_def is_rooted_append split_on_append_sep clean_elems_append
      split_on_dir_string)

lemma stack_of_snoc:
  assumes "P \<noteq> []" and "safe_element e"
  shows "stack_of (P @ slash # e) = e # stack_of P"
proof -
  have "list_all safe_element [e]" using assms(2) by simp
  from stack_of_extend [OF assms(1) this] show ?thesis
    by (simp add: dir_string_def)
qed

lemma stack_of_safe: "safe_element e \<Longrightarrow> stack_of e = [e]"
  by (simp add: stack_of_def split_on_nosep safe_element_def)

lemma join_head:
  assumes "es \<noteq> []" and "hd es \<noteq> []" and "slash \<notin> set (hd es)"
  shows "join_with slash es \<noteq> [] \<and> hd (join_with slash es) \<noteq> slash"
proof -
  obtain e rest where es: "es = e # rest" using assms(1) by (cases es) auto
  with assms have e: "e \<noteq> []" "slash \<notin> set e" by simp_all
  then have "hd e \<noteq> slash" by (cases e) auto
  with e es show ?thesis
    by (simp add: join_with_Cons)
qed

lemma cleaned_stack_elems:
  "cleaned_stack r T \<Longrightarrow> x \<in> set T \<Longrightarrow> x \<noteq> [] \<and> slash \<notin> set x"
  by (induction T) auto

lemma render_cleaned:
  assumes "T \<noteq> []" and "cleaned_stack r T"
  shows "render_path r T = (if r then [slash] else []) @ join_with slash (rev T)"
    and "render_path r T \<noteq> []"
    and "is_rooted (render_path r T) = r"
    and "stack_of (render_path r T) = T"
proof -
  have elems: "\<forall>x \<in> set (rev T). slash \<notin> set x"
    using cleaned_stack_elems [OF assms(2)] by simp
  have "hd (rev T) \<in> set T"
    using assms(1) by (metis hd_in_set rev_is_Nil_conv set_rev)
  then have "hd (rev T) \<noteq> []" "slash \<notin> set (hd (rev T))"
    using cleaned_stack_elems [OF assms(2)] by simp_all
  with assms(1) have j: "join_with slash (rev T) \<noteq> []" "hd (join_with slash (rev T)) \<noteq> slash"
    using join_head [of "rev T"] by simp_all
  then show r: "render_path r T = (if r then [slash] else []) @ join_with slash (rev T)"
    by (simp add: render_path_def)
  from r j show "render_path r T \<noteq> []" by simp
  from r j show ro: "is_rooted (render_path r T) = r"
    by (simp add: is_rooted_def)
  have sp: "split_on slash (join_with slash (rev T)) = rev T"
    using assms(1) elems by (simp add: split_on_join)
  have "clean_elems r [] (rev T) = T"
    using clean_elems_replay [of r "rev T" "[]"] assms(2) by simp
  then show "stack_of (render_path r T) = T"
    unfolding stack_of_def ro using r sp by (cases r) simp_all
qed

lemma render_extend:
  assumes "T \<noteq> []" and "cleaned_stack r T" and "list_all safe_element bs"
  shows "render_path r (rev bs @ T) =
         render_path r T @ (if bs = [] then [] else slash # join_with slash bs)"
proof (cases "bs = []")
  case True
  then show ?thesis by simp
next
  case False
  have cs: "cleaned_stack r (rev bs @ T)"
    using cleaned_stack_clean_elems [of r T bs] assms safe_no_slash
    by (simp add: clean_elems_safe)
  have "join_with slash (rev T @ bs) = join_with slash (rev T) @ slash # join_with slash bs"
    using assms(1) False by (simp add: join_with_append)
  then show ?thesis
    using render_cleaned(1) [OF assms(1,2)] render_cleaned(1) [OF _ cs] False
    by simp
qed

lemma safe_original: "safe_element ''original''"
  by (simp add: safe_element_def dot_def slash_def)

lemma original_prefix:
  fixes f d h :: string
  defines "A0 \<equiv> dropWhile (\<lambda>e. e = []) [f, d, h]"
  shows "dropWhile (\<lambda>e. e = []) [f, d, h, ''original''] = A0 @ [''original'']"
    and "dropWhile (\<lambda>e. e = []) [f, d, h, ''original'', D] = A0 @ [''original'', D]"
    and "A0 \<noteq> [] \<Longrightarrow> join_with slash A0 \<noteq> []"
proof -
  show "dropWhile (\<lambda>e. e = []) [f, d, h, ''original''] = A0 @ [''original'']"
    by (simp add: A0_def)
  show "dropWhile (\<lambda>e. e = []) [f, d, h, ''original'', D] = A0 @ [''original'', D]"
    by (simp add: A0_def)
  assume ne: "A0 \<noteq> []"
  then have "hd A0 \<noteq> []"
    unfolding A0_def by (metis (mono_tags, lifting) hd_dropWhile)
  with ne show "join_with slash A0 \<noteq> []"
    by (cases A0) (auto simp add: join_with_Cons)
qed

lemma root_stack:
  fixes f d h :: string
  defines "P \<equiv> join_with slash (dropWhile (\<lambda>e. e = []) [f, d, h, ''original''])"
  shows "P \<noteq> []" and "stack_of P \<noteq> []" and "Join [f, d, h, ''original''] = Clean P"
    and "Join [f, d, h, ''original'', D] = Clean (P @ slash # D)"
proof -
  let ?A0 = "dropWhile (\<lambda>e. e = []) [f, d, h]"
  have P: "P = (if ?A0 = [] then ''original'' else join_with slash ?A0 @ slash # ''original'')"
    unfolding P_def original_prefix(1) by (simp add: join_with_snoc)
  then show ne: "P \<noteq> []" by simp
  show "stack_of P \<noteq> []"
  proof (cases "?A0 = []")
    case True
    with P show ?thesis by (simp add: stack_of_safe safe_original)
  next
    case False
    with P original_prefix(3) [of f d h] show ?thesis
      by (simp add: stack_of_snoc safe_original)
  qed
  show "Join [f, d, h, ''original''] = Clean P"
    unfolding Join_def P_def original_prefix(1) by (simp add: Let_def)
  have "join_with slash (?A0 @ [''original'', D]) = P @ slash # D"
    unfolding P_def original_prefix(1)
    using join_with_append [of "?A0 @ [''original'']" "[D]" slash] by simp
  then show "Join [f, d, h, ''original'', D] = Clean (P @ slash # D)"
    unfolding Join_def original_prefix(2) by (simp add: Let_def)
qed

lemma filename_safe:
  assumes "safe_element c"
  shows "safe_element (if Ext (if c = [] \<or> c = ''.'' then ''unknown.js'' else c) = []
                       then (if c = [] \<or> c = ''.'' then ''unknown.js'' else c) @ ''.js''
                       else (if c = [] \<or> c = ''.'' then ''unknown.js'' else c))"
  using assms by (auto simp add: safe_element_def dot_def slash_def)

text \<open>
  Whatever the path of a source, the file \<open>saveSourceFile\<close> writes for it is the
  directory \<open>original\<close> of the JS file (\<open><files>/<domain>/<js_hash>/original\<close>) followed by
  one or more path elements, none of them empty, \<open>.\<close> or \<open>..\<close> or holding a separator.
\<close>

lemma source_file_stays_inside_original:
  "inside (Join [filesPath, domain, jsFileHash, ''original''])
     (saveSourceFile_fullPath filesPath domain jsFileHash sourcePath)"
proof -
  obtain cs where cs: "cs \<noteq> []" "list_all safe_element cs"
    "CleanSourcePath sourcePath = join_with slash cs"
    using CleanSourcePath_shape by blast
  obtain bs c where bc: "cs = bs @ [c]"
    using cs(1) by (metis rev_exhaust)
  with cs(2) have safe: "list_all safe_element (bs @ [c])" and bs: "list_all safe_element bs"
    and c: "safe_element c"
    by simp_all
  define P where
    "P = join_with slash (dropWhile (\<lambda>e. e = []) [filesPath, domain, jsFileHash, ''original''])"
  define r where "r = is_rooted P"
  define T0 where "T0 = stack_of P"
  define root where "root = Join [filesPath, domain, jsFileHash, ''original'']"
  define fn where "fn = (if Ext (if c = [] \<or> c = ''.'' then ''unknown.js'' else c) = []
             then (if c = [] \<or> c = ''.'' then ''unknown.js'' else c) @ ''.js''
             else (if c = [] \<or> c = ''.'' then ''unknown.js'' else c))"
  have fn: "safe_element fn"
    unfolding fn_def using c by (rule filename_safe)
  have P: "P \<noteq> []" and T0: "T0 \<noteq> []"
    unfolding P_def T0_def by (rule root_stack)+
  have cst: "cleaned_stack r T0"
    unfolding r_def T0_def by (rule cleaned_stack_stack_of)
  have "root = Clean P"
    unfolding root_def P_def by (rule root_stack(3))
  then have root: "root = render_path r T0"
    unfolding r_def T0_def by (simp only: Clean_stack [OF P])
  have dir: "Dir (CleanSourcePath sourcePath) = dir_string bs"
    using Dir_join_safe [OF safe] by (simp add: cs(3) bc dir_string_def)
  define T where "T = rev bs @ T0"
  have T: "T \<noteq> []" using T0 by (simp add: T_def)
  have cT: "cleaned_stack r T"
    unfolding T_def
    using cleaned_stack_clean_elems [of r T0 bs] cst bs safe_no_slash
    by (simp add: clean_elems_safe)
  have "Join [filesPath, domain, jsFileHash, ''original'', Dir (CleanSourcePath sourcePath)]
      = Clean (P @ slash # dir_string bs)"
    unfolding P_def dir by (rule root_stack(4))
  also have "\<dots> = render_path r T"
    unfolding r_def T_def T0_def
    using P by (simp add: Clean_stack is_rooted_append stack_of_extend [OF P bs])
  finally have sfd:
    "Join [filesPath, domain, jsFileHash, ''original'', Dir (CleanSourcePath sourcePath)]
      = render_path r T" .
  define Q where "Q = render_path r T"
  have Q: "Q \<noteq> []" "is_rooted Q = r" "stack_of Q = T"
    unfolding Q_def using render_cleaned [OF T cT] by simp_all
  have "Join [Q, fn] = Clean (Q @ slash # fn)"
    using Q(1) by (simp add: Join_def Let_def)
  also have "\<dots> = render_path r (fn # T)"
    using Q by (simp add: Clean_stack is_rooted_append stack_of_snoc [OF Q(1) fn])
  also have "\<dots> = Q @ slash # fn"
    unfolding Q_def using render_extend [OF T cT, of "[fn]"] fn by simp
  finally have joined: "Join [Q, fn] = Q @ slash # fn" .
  have "Q = root @ (if bs = [] then [] else slash # join_with slash bs)"
    unfolding Q_def T_def using render_extend [OF T0 cst bs] root by simp
  then have "Q @ slash # fn = root @ slash # join_with slash (bs @ [fn])"
    by (simp add: join_with_snoc)
  with joined have full: "Join [Q, fn] = root @ slash # join_with slash (bs @ [fn])"
    by (rule trans)
  have base: "Base (CleanSourcePath sourcePath) = c"
    using Base_join_safe [OF safe] by (simp add: cs(3) bc)
  have "saveSourceFile_fullPath filesPath domain jsFileHash sourcePath = Join [Q, fn]"
    unfolding saveSourceFile_fullPath_def Let_def sfd base Q_def fn_def by simp
  with full have "saveSourceFile_fullPath filesPath domain jsFileHash sourcePath =
      root @ slash # join_with slash (bs @ [fn])"
    by simp
  moreover have "list_all safe_element (bs @ [fn])"
    using bs fn by simp
  ultimately show ?thesis
    unfolding inside_def root_def by blast
qed

lemma source_file_stays_inside_original_example:
  "saveSourceFile_fullPath ''/data/files'' ''example.test'' ''abc123''
     (sanitizeSourcePath False ''../../../etc/passwd'')
     = ''/data/files/example.test/abc123/original/etc/passwd.js'' \<and>
   Join [''/data/files'', ''example.test'', ''abc123'', ''original'']
     = ''/data/files/example.test/abc123/original'' \<and>
   inside ''/data/files/example.test/abc123/original''
     ''/data/files/example.test/abc123/original/etc/passwd.js''"
proof -
  have p: "saveSourceFile_fullPath ''/data/files'' ''example.test'' ''abc123''
     (sanitizeSourcePath False ''../../../etc/passwd'')
     = ''/data/files/example.test/abc123/original/etc/passwd.js''"
    by code_simp
  have r: "Join [''/data/files'', ''example.test'', ''abc123'', ''original'']
     = ''/data/files/example.test/abc123/original''"
    by code_simp
  show ?thesis
    using source_file_stays_inside_original [of "''/data/files''" "''example.test''" "''abc123''"
        "sanitizeSourcePath False ''../../../etc/passwd''"]
    unfolding p r by (simp add: p r)
qed

text \<open>
  The temporary copy that \<open>extractSourcesToTempDir\<close> writes before is not built with
  \<open>CleanSourcePath\<close>: a \<open>..\<close> after the first element of the source path survives
  \<open>sanitizeSourcePath\<close>, which only cuts the dots and slashes the path starts with.
\<close>

lemma temp_copy_example:
  "sanitizeSourcePath False ''a/../../../etc/passwd'' = ''../../etc/passwd''"
  "temp_fullPath False ''/tmp/sourcemaps/77aa'' ''a/../../../etc/passwd'' = ''/tmp/etc/passwd''"
  "saveSourceFile_fullPath ''/data/files'' ''example.test'' ''abc123''
     (sanitizeSourcePath False ''a/../../../etc/passwd'')
     = ''/data/files/example.test/abc123/original/etc/passwd.js''"
  by code_simp+

text \<open>
  C7. The stage writes the content of a source twice: \<open>extractSourcesToTempDir\<close> writes
  it below the temporary directory, then \<open>saveSourceFile\<close> writes it below \<open>original\<close>.
  For the source path \<open>a/../../../../etc/passwd\<close> the first write goes to \<open>/etc/passwd\<close>,
  which is neither inside the temporary directory \<open>/tmp/sourcemaps/9c1e5f2b\<close> nor inside
  \<open>original\<close>; the second write stays inside \<open>original\<close>.
\<close>

theorem temp_copy_escapes_for_embedded_dots:
  "temp_written (snd (sourcemap_processJob example_sm_env3 empty_disk example_sm_record)) =
     [''/etc/passwd''] \<and>
   \<not> inside ''/tmp/sourcemaps/9c1e5f2b'' ''/etc/passwd'' \<and>
   \<not> inside ''/data/files/example.test/h1/original'' ''/etc/passwd'' \<and>
   written (snd (sourcemap_processJob example_sm_env3 empty_disk example_sm_record)) =
     [''/data/files/example.test/h1/original/etc/passwd.js''] \<and>
   GetString (fst (sourcemap_processJob example_sm_env3 empty_disk example_sm_record))
     ''sourcemap_status'' = ''processed''"
proof -
  have run:
    "temp_written (snd (sourcemap_processJob example_sm_env3 empty_disk example_sm_record)) =
       [''/etc/passwd'']"
    "written (snd (sourcemap_processJob example_sm_env3 empty_disk example_sm_record)) =
       [''/data/files/example.test/h1/original/etc/passwd.js'']"
    "GetString (fst (sourcemap_processJob example_sm_env3 empty_disk example_sm_record))
       ''sourcemap_status'' = ''processed''"
    by code_simp+
  have out: "\<not> inside ''/tmp/sourcemaps/9c1e5f2b'' ''/etc/passwd''"
    "\<not> inside ''/data/files/example.test/h1/original'' ''/etc/passwd''"
    by (simp_all add: inside_def)
  show ?thesis using run out by simp
qed

section \<open>Sourcemap bytes are validated when they are fetched\<close>

lemma isValid_spec_valid:
  assumes "isValidSourceMapContent doc"
  shows "spec_valid_sourcemap doc"
proof -
  from assms obtain temp where t: "unmarshal_map doc = Some temp"
    by (auto simp: isValidSourceMapContent_def split: option.splits)
  from assms t obtain n where v: "temp ''version'' = Some (JNum n)"
    by (auto simp: isValidSourceMapContent_def split: option.splits json.splits)
  from assms t v obtain q where q: "float64_of n = Some q" and q1: "\<not> q < 1"
    by (auto simp: isValidSourceMapContent_def split: option.splits if_splits)
  from assms t v q q1 obtain srcs where s: "temp ''sources'' = Some (JArr srcs)"
    by (auto simp: isValidSourceMapContent_def split: option.splits json.splits)
  from t v obtain ms where d: "doc = Some (JObj ms)" and tm: "temp = map_of (rev ms)"
    by (auto simp: unmarshal_map_def split: option.splits json.splits if_splits)
  from q have "number_value n = q"
    by (auto simp: float64_of_def number_value_def split: jnumber.splits if_splits)
  with q1 have "1 \<le> number_value n" by simp
  with d tm v s show ?thesis unfolding spec_valid_sourcemap_def by blast
qed

lemma fetchSourceMapContent_valid:
  "fetchSourceMapContent env u = Some c \<Longrightarrow> sm_fetch env u = Some c \<and> isValidSourceMapContent (sm_json env c)"
  by (auto simp: fetchSourceMapContent_def split: option.splits if_splits)

lemma sourcemap_processJob_no_content:
  assumes "GetString r ''hash'' \<noteq> []" and "GetString r ''url'' \<noteq> []"
    and "sm_js_path env (GetString r ''url'') (GetString r ''hash'') = Some p"
    and "sm_ReadFile env p = Some body"
    and "ExtractDomain env (GetString r ''url'') = Some domain"
    and "obtainSourceMapContent env body (GetString r ''url'') = None"
  shows "sourcemap_processJob env d r = (Set r ''sourcemap_status'' (FStr ''processed''), d)"
  using assms by (simp add: sourcemap_processJob_def Let_def ProcessSourceMap_def)

lemma obtainSourceMapContent_cases:
  assumes "obtainSourceMapContent env body u = Some c"
  shows "(HasPrefix (findSourceMapURL body) ''data:'' \<and>
          DecodeDataURI (sm_base64 env) (findSourceMapURL body) = Some c) \<or>
         (\<exists>mapURL. sm_fetch env mapURL = Some c \<and> isValidSourceMapContent (sm_json env c))"
  using assms
  by (auto simp: obtainSourceMapContent_def Let_def getSourceMapContent_def tryFallbackMapURL_def
      split: option.splits if_splits dest: fetchSourceMapContent_valid)

lemma obtainSourceMapContent_None_iff:
  "obtainSourceMapContent env body u = None \<longleftrightarrow>
     (findSourceMapURL body = [] \<or> getSourceMapContent env (findSourceMapURL body) u = None) \<and>
     tryFallbackMapURL env u = None"
  by (auto simp: obtainSourceMapContent_def Let_def split: option.splits)

lemma fetchSourceMapContent_iff:
  "fetchSourceMapContent env mapURL = Some c \<longleftrightarrow>
     sm_fetch env mapURL = Some c \<and> isValidSourceMapContent (sm_json env c)"
  by (auto simp: fetchSourceMapContent_def split: option.splits)

text \<open>
  C5, as the code has it. For a job whose record, file and domain are in order: bytes
  are accepted from a fetch exactly when the fetch succeeds and they pass the validation,
  and then they parse as JSON with a numeric \<open>version\<close> at least 1 and an array \<open>sources\<close>;
  the bytes of a \<open>data:\<close> URI are taken as \<open>DecodeDataURI\<close> returns them; the bytes
  obtained are either those of the \<open>data:\<close> URI of the comment or fetched and valid;
  none are obtained exactly when there is no comment or its sourcemap cannot be got, and
  the fallback yields nothing; and then the job hands the record to the store with
  \<open>sourcemap_status\<close> \<open>processed\<close> and leaves the disk as it was.
\<close>

theorem fetched_sourcemap_validated_else_processed:
  assumes "GetString r ''hash'' \<noteq> []" and "GetString r ''url'' \<noteq> []"
    and "sm_js_path env (GetString r ''url'') (GetString r ''hash'') = Some p"
    and "sm_ReadFile env p = Some body"
    and "ExtractDomain env (GetString r ''url'') = Some domain"
  shows "(\<forall>mapURL c. fetchSourceMapContent env mapURL = Some c \<longleftrightarrow>
            sm_fetch env mapURL = Some c \<and> isValidSourceMapContent (sm_json env c)) \<and>
         (\<forall>c. isValidSourceMapContent (sm_json env c) \<longrightarrow> spec_valid_sourcemap (sm_json env c)) \<and>
         (\<forall>m. HasPrefix m ''data:'' \<longrightarrow>
            getSourceMapContent env m (GetString r ''url'') = DecodeDataURI (sm_base64 env) m) \<and>
         (\<forall>c. obtainSourceMapContent env body (GetString r ''url'') = Some c \<longrightarrow>
            (HasPrefix (findSourceMapURL body) ''data:'' \<and>
             DecodeDataURI (sm_base64 env) (findSourceMapURL body) = Some c) \<or>
            (\<exists>mapURL. sm_fetch env mapURL = Some c \<and> spec_valid_sourcemap (sm_json env c))) \<and>
         (obtainSourceMapContent env body (GetString r ''url'') = None \<longleftrightarrow>
            (findSourceMapURL body = [] \<or>
             getSourceMapContent env (findSourceMapURL body) (GetString r ''url'') = None) \<and>
            tryFallbackMapURL env (GetString r ''url'') = None) \<and>
         (obtainSourceMapContent env body (GetString r ''url'') = None \<longrightarrow>
            sourcemap_processJob env d r = (Set r ''sourcemap_status'' (FStr ''processed''), d))"
proof (intro conjI allI impI)
  fix mapURL c
  show "fetchSourceMapContent env mapURL = Some c \<longleftrightarrow>
          sm_fetch env mapURL = Some c \<and> isValidSourceMapContent (sm_json env c)"
    by (rule fetchSourceMapContent_iff)
next
  fix c assume "isValidSourceMapContent (sm_json env c)"
  then show "spec_valid_sourcemap (sm_json env c)" by (rule isValid_spec_valid)
next
  fix m assume "HasPrefix m ''data:''"
  then show "getSourceMapContent env m (GetString r ''url'') = DecodeDataURI (sm_base64 env) m"
    by (simp add: getSourceMapContent_def)
next
  fix c assume "obtainSourceMapContent env body (GetString r ''url'') = Some c"
  from obtainSourceMapContent_cases [OF this]
  show "(HasPrefix (findSourceMapURL body) ''data:'' \<and>
         DecodeDataURI (sm_base64 env) (findSourceMapURL body) = Some c) \<or>
        (\<exists>mapURL. sm_fetch env mapURL = Some c \<and> spec_valid_sourcemap (sm_json env c))"
    using isValid_spec_valid by blast
next
  show "obtainSourceMapContent env body (GetString r ''url'') = None \<longleftrightarrow>
          (findSourceMapURL body = [] \<or>
           getSourceMapContent env (findSourceMapURL body) (GetString r ''url'') = None) \<and>
          tryFallbackMapURL env (GetString r ''url'') = None"
    by (rule obtainSourceMapContent_None_iff)
next
  assume "obtainSourceMapContent env body (GetString r ''url'') = None"
  with assms show "sourcemap_processJob env d r = (Set r ''sourcemap_status'' (FStr ''processed''), d)"
    by (rule sourcemap_processJob_no_content)
qed

lemma example_plain_facts:
  "GetString example_sm_record ''hash'' = ''h1''"
  "GetString example_sm_record ''url'' = ''http://example.test/app.js''"
  "sm_js_path example_sm_env2 ''http://example.test/app.js'' ''h1'' = Some ''/data/files/example.test/h1/app.js''"
  "sm_ReadFile example_sm_env2 ''/data/files/example.test/h1/app.js'' = Some example_plain_body"
  "ExtractDomain example_sm_env2 ''http://example.test/app.js'' = Some ''example.test''"
  "findSourceMapURL example_plain_body = []"
  "sm_json example_sm_env2 ''<html>not found</html>'' = None"
  by code_simp+

lemma example_plain_fetch:
  "sm_fetch example_sm_env2 mapURL = Some ''<html>not found</html>''"
  by (simp add: example_sm_env2_def example_sm_env_def)

theorem fetched_sourcemap_validated_else_processed_witness:
  "sourcemap_processJob example_sm_env2 empty_disk example_sm_record =
     (Set example_sm_record ''sourcemap_status'' (FStr ''processed''), empty_disk) \<and>
   obtainSourceMapContent example_sm_env2 example_plain_body ''http://example.test/app.js'' = None"
proof -
  note inst = fetched_sourcemap_validated_else_processed
    [of example_sm_record example_sm_env2 "''/data/files/example.test/h1/app.js''"
        example_plain_body "''example.test''" empty_disk]
  have invalid: "\<not> isValidSourceMapContent (sm_json example_sm_env2 ''<html>not found</html>'')"
    by (simp add: example_plain_facts isValidSourceMapContent_def unmarshal_map_def)
  have "fetchSourceMapContent example_sm_env2 (''http://example.test/app.js'' @ ''.map'') = None"
    using inst invalid
    by (cases "fetchSourceMapContent example_sm_env2 (''http://example.test/app.js'' @ ''.map'')")
       (simp_all add: example_plain_facts example_plain_fetch)
  then have "tryFallbackMapURL example_sm_env2 ''http://example.test/app.js'' = None"
    by (simp add: tryFallbackMapURL_def example_sm_env2_def example_sm_env_def)
  with inst show ?thesis by (simp add: example_plain_facts)
qed

text \<open>
  The payload of a \<open>data:\<close> URI does not pass through \<open>isValidSourceMapContent\<close>:
  \<open>getSourceMapContent\<close> returns it as decoded. A payload without \<open>version\<close> is used,
  and its source is written below \<open>original\<close>.
\<close>

lemma example_data_uri_run:
  "obtainSourceMapContent example_sm_env example_js_body ''http://example.test/app.js'' = Some example_map_bytes"
  "GetString (fst (sourcemap_processJob example_sm_env empty_disk example_sm_record)) ''sourcemap_status'' = ''processed''"
  "written (snd (sourcemap_processJob example_sm_env empty_disk example_sm_record)) = [''/data/files/example.test/h1/original/a.js'']"
  "disk_files (snd (sourcemap_processJob example_sm_env empty_disk example_sm_record)) ''/data/files/example.test/h1/original/a.js'' = Some ''x''"
  "sm_json example_sm_env example_map_bytes = Some example_map_json"
  "isValidSourceMapContent (Some example_map_json) = False"
  by code_simp+

theorem data_uri_sourcemap_accepted_unvalidated:
  "\<not> spec_valid_sourcemap (sm_json example_sm_env example_map_bytes) \<and>
   \<not> isValidSourceMapContent (sm_json example_sm_env example_map_bytes) \<and>
   obtainSourceMapContent example_sm_env example_js_body ''http://example.test/app.js'' =
     Some example_map_bytes \<and>
   GetString (fst (sourcemap_processJob example_sm_env empty_disk example_sm_record))
     ''sourcemap_status'' = ''processed'' \<and>
   written (snd (sourcemap_processJob example_sm_env empty_disk example_sm_record)) =
     [''/data/files/example.test/h1/original/a.js'']"
proof -
  have "\<not> spec_valid_sourcemap (Some example_map_json)"
    by (simp add: spec_valid_sourcemap_def example_map_json_def)
  then show ?thesis by (simp add: example_data_uri_run)
qed

section \<open>The HTML hash ignores scripts and other attributes\<close>

lemma matches_tag_Remove_in: "matches_tag tags (Remove_in tags' n) = matches_tag tags n"
  by (cases n) (simp_all add: matches_tag_def)

lemma matches_tag_element: "matches_tag tags (ElementNode t as cs) = (t \<in> set tags)"
  by (simp add: matches_tag_def)

lemma Find_Remove_append:
  "Find_Remove tags (xs @ ys) = Find_Remove tags xs @ Find_Remove tags ys"
  by (simp add: Find_Remove_def)

lemma Find_Remove_Cons:
  "Find_Remove tags (n # ns) =
     (if matches_tag tags n then [] else [Remove_in tags n]) @ Find_Remove tags ns"
  by (simp add: Find_Remove_def matches_tag_Remove_in)

lemma Remove_in_element:
  "Remove_in tags (ElementNode t as cs) = ElementNode t as (Find_Remove tags cs)"
  by (simp add: Find_Remove_def)

lemma prepared_append: "prepared (xs @ ys) = prepared xs @ prepared ys"
  by (simp add: prepared_def Find_Remove_append)

lemma prepared_Cons: "prepared (n # ns) = prepared [n] @ prepared ns"
  using prepared_append [of "[n]" ns] by simp

lemma prepared_script: "is_script n \<Longrightarrow> prepared [n] = []"
  by (cases n)
     (simp_all add: is_script_def prepared_def Find_Remove_Cons matches_tag_def
        Find_Remove_def)

lemma Find_Remove_Nil: "Find_Remove tags [] = []"
  by (simp add: Find_Remove_def)

lemma Find_Remove_element:
  "Find_Remove tags [ElementNode t as cs] =
     (if t \<in> set tags then [] else [ElementNode t as (Find_Remove tags cs)])"
  by (simp add: Find_Remove_Cons Remove_in_element matches_tag_element Find_Remove_Nil
      del: Remove_in.simps)

lemma prepared_element:
  "prepared [ElementNode t as cs] =
     (if t \<in> {''comment'', ''script'', ''style'', ''meta''} then []
      else [ElementNode t (keep_href_src as) (prepared cs)])"
  by (simp add: prepared_def Find_Remove_element Find_Remove_Nil)

lemma keep_href_src_append_other:
  assumes "other_attribute a"
  shows "keep_href_src (xs @ a # ys) = keep_href_src (xs @ ys)"
  using assms by (simp add: keep_href_src_def other_attribute_def)

lemma attr_edit_keep: "attr_edit as as' \<Longrightarrow> keep_href_src as = keep_href_src as'"
  by (induction rule: attr_edit.induct) (simp_all add: keep_href_src_append_other)

lemma html_edit_prepared: "html_edit doc doc' \<Longrightarrow> prepared doc = prepared doc'"
proof (induction rule: html_edit.induct)
  case (remove_script n xs ys)
  then show ?case
    using prepared_Cons [of n ys] by (simp add: prepared_append prepared_script)
next
  case (move_script n xs ms ys)
  have "prepared (n # ms @ ys) = prepared (ms @ ys)"
    using prepared_Cons [of n "ms @ ys"] move_script by (simp add: prepared_script)
  moreover have "prepared (ms @ n # ys) = prepared (ms @ ys)"
    using prepared_Cons [of n ys] move_script by (simp add: prepared_append prepared_script)
  ultimately show ?case by (simp add: prepared_append)
next
  case (attributes as as' xs t cs ys)
  have "prepared [ElementNode t as cs] = prepared [ElementNode t as' cs]"
    using attr_edit_keep [OF attributes] by (simp add: prepared_element)
  then show ?case
    using prepared_Cons [of "ElementNode t as cs" ys] prepared_Cons [of "ElementNode t as' cs" ys]
    by (simp add: prepared_append)
next
  case (below cs cs' xs t as ys)
  have "prepared [ElementNode t as cs] = prepared [ElementNode t as cs']"
    using below.IH by (simp add: prepared_element)
  then show ?case
    using prepared_Cons [of "ElementNode t as cs" ys] prepared_Cons [of "ElementNode t as cs'" ys]
    by (simp add: prepared_append)
qed

lemma html_edits_prepared:
  "(symclp html_edit)\<^sup>*\<^sup>* doc doc' \<Longrightarrow> prepared doc = prepared doc'"
proof (induction rule: rtranclp_induct)
  case base show ?case by simp
next
  case (step y z)
  from step.hyps(2) have "prepared y = prepared z"
    by (auto simp: symclp_def dest: html_edit_prepared)
  with step.IH show ?case by simp
qed

lemma normalize_document_prepared:
  "normalize_document doc = map replace_children (prepared doc)"
  by (simp add: normalize_document_def prepared_def Let_def)

text \<open>
  C8, on the parsed documents. \<open>GenerateHTMLHash\<close> is a function of the input string,
  and two inputs whose documents differ by edits of \<open>script\<close> elements (removed, added,
  moved) and of attributes other than \<open>href\<close> and \<open>src\<close> (added, changed, removed), and by
  nothing else, have the same result: the same digest, or the same error. With
  \<open>s' = s\<close> these are two runs on equal input.
\<close>

theorem html_hash_ignores_scripts_and_other_attributes:
  assumes "h_Parse env s = Some doc" and "h_Parse env s' = Some doc'"
    and "(symclp html_edit)\<^sup>*\<^sup>* doc doc'"
  shows "GenerateHTMLHash env s = GenerateHTMLHash env s'"
proof -
  from assms(3) have "normalize_document doc = normalize_document doc'"
    by (simp add: normalize_document_prepared html_edits_prepared)
  with assms(1,2) show ?thesis by (simp add: GenerateHTMLHash_def)
qed

lemma example_pages_edited: "(symclp html_edit)\<^sup>*\<^sup>* example_page1 example_page2"
proof -
  let ?dt = "DoctypeNode ''html'' []"
  let ?lang = "[Attribute [] ''lang'' ''en'']"
  let ?body1 = "ElementNode ''body'' [Attribute [] ''class'' ''home''] [example_link]"
  let ?body2 = "ElementNode ''body'' [Attribute [] ''id'' ''main''] [example_link]"
  let ?body3 = "ElementNode ''body'' [Attribute [] ''id'' ''main''] [example_link, example_script]"
  let ?head1 = "ElementNode ''head'' [] [example_script, example_title]"
  let ?head2 = "ElementNode ''head'' [] [example_title]"
  let ?mid1 = "[?dt, ElementNode ''html'' ?lang [?head2, ?body1]]"
  let ?mid2 = "[?dt, ElementNode ''html'' ?lang [?head2, ?body2]]"
  have script: "is_script example_script"
    by (simp add: is_script_def matches_tag_def example_script_def)
  have "html_edit [example_script, example_title] [example_title]"
    using html_edit.remove_script [OF script, of "[]" "[example_title]"] by simp
  from html_edit.below [OF this, of "[]" "''head''" "[]" "[?body1]"]
  have "html_edit [?head1, ?body1] [?head2, ?body1]" by simp
  from html_edit.below [OF this, of "[?dt]" "''html''" ?lang "[]"]
  have e1: "html_edit example_page1 ?mid1" by (simp add: example_page1_def)
  have "attr_edit [Attribute [] ''class'' ''home''] [Attribute [] ''id'' ''main'']"
    using attr_edit.change [of "Attribute [] ''class'' ''home''" "Attribute [] ''id'' ''main''" "[]" "[]"]
    by (simp add: other_attribute_def)
  from html_edit.attributes [OF this, of "[?head2]" "''body''" "[example_link]" "[]"]
  have "html_edit [?head2, ?body1] [?head2, ?body2]" by simp
  from html_edit.below [OF this, of "[?dt]" "''html''" ?lang "[]"]
  have e2: "html_edit ?mid1 ?mid2" by simp
  have "html_edit [example_link, example_script] [example_link]"
    using html_edit.remove_script [OF script, of "[example_link]" "[]"] by simp
  from html_edit.below [OF this, of "[?head2]" "''body''" "[Attribute [] ''id'' ''main'']" "[]"]
  have "html_edit [?head2, ?body3] [?head2, ?body2]" by simp
  from html_edit.below [OF this, of "[?dt]" "''html''" ?lang "[]"]
  have e3: "html_edit example_page2 ?mid2" by (simp add: example_page2_def)
  have "symclp html_edit example_page1 ?mid1" using e1 by (simp add: symclp_def)
  moreover have "symclp html_edit ?mid1 ?mid2" using e2 by (simp add: symclp_def)
  moreover have "symclp html_edit ?mid2 example_page2" using e3 by (simp add: symclp_def)
  ultimately show ?thesis by (meson rtranclp.rtrancl_into_rtrancl rtranclp.rtrancl_refl)
qed

lemma example_parse:
  "h_Parse example_html_env example_html1 = Some example_page1"
  "h_Parse example_html_env example_html2 = Some example_page2"
  by code_simp+

lemma example_page1_hash:
  "GenerateHTMLHash example_html_env example_html1 =
     Inr ''sha256:<!DOCTYPE html><html>ShopCart of at </html>''"
  by code_simp

theorem html_hash_ignores_scripts_and_other_attributes_witness:
  "GenerateHTMLHash example_html_env example_html2 =
     Inr ''sha256:<!DOCTYPE html><html>ShopCart of at </html>''"
  using html_hash_ignores_scripts_and_other_attributes
    [of example_html_env example_html1 example_page1 example_html2 example_page2]
  by (simp add: example_pages_edited example_page1_hash example_parse)

text \<open>
  Taking a script out of the text of a page can change more of the document than the
  script: on the third page the white space after the script is a text node of the
  head, on the fourth, which is the third without the script, it is dropped. The normal
  forms are \<open><html> hello</html>\<close> and \<open><html>hello</html>\<close>, and the results differ.
\<close>

lemma example_pages34:
  "example_html4 = take 6 example_html3 @ drop 29 example_html3"
  "take 23 (drop 6 example_html3) = ''<script>var a;</script>''"
  "h_Parse example_html_env example_html3 = Some example_page3"
  "h_Parse example_html_env example_html4 = Some example_page4"
  "GenerateHTMLHash example_html_env example_html3 = Inr ''sha256:<html> hello</html>''"
  "GenerateHTMLHash example_html_env example_html4 = Inr ''sha256:<html>hello</html>''"
  by code_simp+

theorem html_hash_changes_when_script_is_cut_from_text:
  "example_html4 = take 6 example_html3 @ drop 29 example_html3 \<and>
   take 23 (drop 6 example_html3) = ''<script>var a;</script>'' \<and>
   GenerateHTMLHash example_html_env example_html3 = Inr ''sha256:<html> hello</html>'' \<and>
   GenerateHTMLHash example_html_env example_html4 = Inr ''sha256:<html>hello</html>'' \<and>
   GenerateHTMLHash example_html_env example_html3 \<noteq>
     GenerateHTMLHash example_html_env example_html4"
proof (intro conjI)
  show "GenerateHTMLHash example_html_env example_html3 \<noteq>
          GenerateHTMLHash example_html_env example_html4"
    unfolding example_pages34(5,6) by simp
qed (rule example_pages34)+

end
